theory Spec2Isabelle
  imports Complex_Main "HOL-Library.Multiset"
begin

section \<open>Numbers of the scripts\<close>

text \<open>
  The validation scripts compute with Python numbers and numpy \<open>float64\<close> values.
  A finite number is a real; the three special values that numpy produces instead of
  raising are kept, because the scripts' behaviour at a zero divisor depends on whether
  the division is Python's (raises \<open>ZeroDivisionError\<close>) or numpy's (gives
  \<open>inf\<close> or \<open>nan\<close> with a warning). The sign of zero is not part of the model.
  The operations of this first part return the exact result on finite operands; they
  serve the statements on zero divisors, on the single-study branch and on the keys of a
  returned dictionary, and the examples whose every intermediate value is a float64.
  The rounding of each operation, overflow and underflow are added further below, where
  the same functions are given over an arbitrary rounded arithmetic.
\<close>

datatype npfloat = Fin real | PInf | NInf | NaN

datatype py_error = ZeroDivisionError | ValueError

fun is_Fin :: "npfloat \<Rightarrow> bool" where
  "is_Fin (Fin x) = True"
| "is_Fin PInf = False"
| "is_Fin NInf = False"
| "is_Fin NaN = False"

fun np_neg :: "npfloat \<Rightarrow> npfloat" where
  "np_neg (Fin x) = Fin (- x)"
| "np_neg PInf = NInf"
| "np_neg NInf = PInf"
| "np_neg NaN = NaN"

fun np_add :: "npfloat \<Rightarrow> npfloat \<Rightarrow> npfloat" where
  "np_add (Fin x) (Fin y) = Fin (x + y)"
| "np_add NaN b = NaN"
| "np_add a NaN = NaN"
| "np_add PInf NInf = NaN"
| "np_add NInf PInf = NaN"
| "np_add PInf b = PInf"
| "np_add a PInf = PInf"
| "np_add NInf b = NInf"
| "np_add a NInf = NInf"

definition np_sub :: "npfloat \<Rightarrow> npfloat \<Rightarrow> npfloat" where
  "np_sub a b = np_add a (np_neg b)"

fun np_mul :: "npfloat \<Rightarrow> npfloat \<Rightarrow> npfloat" where
  "np_mul (Fin x) (Fin y) = Fin (x * y)"
| "np_mul NaN b = NaN"
| "np_mul a NaN = NaN"
| "np_mul (Fin x) PInf = (if x = 0 then NaN else if 0 < x then PInf else NInf)"
| "np_mul (Fin x) NInf = (if x = 0 then NaN else if 0 < x then NInf else PInf)"
| "np_mul PInf (Fin y) = (if y = 0 then NaN else if 0 < y then PInf else NInf)"
| "np_mul NInf (Fin y) = (if y = 0 then NaN else if 0 < y then NInf else PInf)"
| "np_mul PInf PInf = PInf"
| "np_mul PInf NInf = NInf"
| "np_mul NInf PInf = NInf"
| "np_mul NInf NInf = PInf"

text \<open>numpy's true division: a zero divisor gives \<open>nan\<close> or an infinity, never an exception.\<close>

fun np_div :: "npfloat \<Rightarrow> npfloat \<Rightarrow> npfloat" where
  "np_div (Fin x) (Fin y) =
     (if y = 0 then (if x = 0 then NaN else if 0 < x then PInf else NInf) else Fin (x / y))"
| "np_div NaN b = NaN"
| "np_div a NaN = NaN"
| "np_div (Fin x) PInf = Fin 0"
| "np_div (Fin x) NInf = Fin 0"
| "np_div PInf (Fin y) = (if 0 \<le> y then PInf else NInf)"
| "np_div NInf (Fin y) = (if 0 \<le> y then NInf else PInf)"
| "np_div PInf PInf = NaN"
| "np_div PInf NInf = NaN"
| "np_div NInf PInf = NaN"
| "np_div NInf NInf = NaN"

definition np_sq :: "npfloat \<Rightarrow> npfloat" where
  "np_sq a = np_mul a a"

fun np_sqrt :: "npfloat \<Rightarrow> npfloat" where
  "np_sqrt (Fin x) = (if 0 \<le> x then Fin (sqrt x) else NaN)"
| "np_sqrt PInf = PInf"
| "np_sqrt NInf = NaN"
| "np_sqrt NaN = NaN"

fun np_log :: "npfloat \<Rightarrow> npfloat" where
  "np_log (Fin x) = (if 0 < x then Fin (ln x) else if x = 0 then NInf else NaN)"
| "np_log PInf = PInf"
| "np_log NInf = NaN"
| "np_log NaN = NaN"

fun np_abs :: "npfloat \<Rightarrow> npfloat" where
  "np_abs (Fin x) = Fin \<bar>x\<bar>"
| "np_abs PInf = PInf"
| "np_abs NInf = PInf"
| "np_abs NaN = NaN"

text \<open>The comparison \<open>a > 0\<close>; every comparison with \<open>nan\<close> is false.\<close>

fun np_pos :: "npfloat \<Rightarrow> bool" where
  "np_pos (Fin x) = (0 < x)"
| "np_pos PInf = True"
| "np_pos NInf = False"
| "np_pos NaN = False"

text \<open>Python's \<open>max(0, x)\<close> keeps its first argument unless \<open>x > 0\<close>.\<close>

definition py_max0 :: "npfloat \<Rightarrow> npfloat" where
  "py_max0 x = (if np_pos x then x else Fin 0)"

text \<open>Python's \<open>/\<close> on two Python numbers raises at a zero divisor.\<close>

definition py_div :: "npfloat \<Rightarrow> npfloat \<Rightarrow> py_error + npfloat" where
  "py_div a b = (if b = Fin 0 then Inl ZeroDivisionError else Inr (np_div a b))"

definition pdiv :: "real \<Rightarrow> real \<Rightarrow> py_error + real" where
  "pdiv x y = (if y = 0 then Inl ZeroDivisionError else Inr (x / y))"

definition ebind :: "'e + 'a \<Rightarrow> ('a \<Rightarrow> 'e + 'b) \<Rightarrow> 'e + 'b" where
  "ebind m f = (case m of Inl e \<Rightarrow> Inl e | Inr x \<Rightarrow> f x)"

section \<open>Effect sizes\<close>

text \<open>
  \<open>correct_zero_cells\<close>, \<open>log_odds_ratio\<close> and \<open>hedges_g\<close> of
  \<open>validate-comprehensive.py\<close>. Counts, means and standard deviations are Python
  numbers; \<open>np.log\<close> and \<open>np.sqrt\<close> return numpy values.
\<close>

definition correct_zero_cells :: "real \<Rightarrow> real \<Rightarrow> real \<Rightarrow> real \<Rightarrow> real \<times> real \<times> real \<times> real" where
  "correct_zero_cells events1 total1 events2 total2 =
     (let has_zero = (events1 = 0 \<or> events2 = 0 \<or> events1 = total1 \<or> events2 = total2)
      in if \<not> has_zero then (events1, total1, events2, total2)
         else (events1 + 0.5, total1 + 1, events2 + 0.5, total2 + 1))"

text \<open>The line \<open>a, b, c, d = e1, t1 - e1, e2, t2 - e2\<close>.\<close>

fun cells :: "real \<times> real \<times> real \<times> real \<Rightarrow> real \<times> real \<times> real \<times> real" where
  "cells (e1, t1, e2, t2) = (e1, t1 - e1, e2, t2 - e2)"

text \<open>The two lines that compute \<open>yi\<close> and \<open>sei\<close> from the four cells.\<close>

definition or_of_cells :: "real \<times> real \<times> real \<times> real \<Rightarrow> py_error + (npfloat \<times> npfloat)" where
  "or_of_cells t = (case t of (a, b, c, d) \<Rightarrow>
     ebind (pdiv (a * d) (b * c)) (\<lambda>q.
     let yi = np_log (Fin q) in
     ebind (pdiv 1 a) (\<lambda>ia.
     ebind (pdiv 1 b) (\<lambda>ib.
     ebind (pdiv 1 c) (\<lambda>ic.
     ebind (pdiv 1 d) (\<lambda>id.
     Inr (yi, np_sqrt (Fin (ia + ib + ic + id)))))))))"

definition log_odds_ratio :: "real \<Rightarrow> real \<Rightarrow> real \<Rightarrow> real \<Rightarrow> py_error + (npfloat \<times> npfloat)" where
  "log_odds_ratio events1 total1 events2 total2 =
     or_of_cells (cells (correct_zero_cells events1 total1 events2 total2))"

text \<open>\<open>log_odds_ratio\<close> of \<open>validate-gold-standard.py\<close>, which applies no correction.\<close>

definition gs_log_odds_ratio :: "real \<Rightarrow> real \<Rightarrow> real \<Rightarrow> real \<Rightarrow> py_error + (npfloat \<times> npfloat)" where
  "gs_log_odds_ratio events1 total1 events2 total2 =
     or_of_cells (cells (events1, total1, events2, total2))"

text \<open>
  \<open>hedges_g\<close>: the divisions by \<open>df\<close> and by \<open>n1 * n2\<close> are Python's, the
  division by \<open>sp\<close> (a numpy value) and the division of \<open>yi**2\<close> are numpy's.
\<close>

definition hedges_g :: "real \<Rightarrow> real \<Rightarrow> int \<Rightarrow> real \<Rightarrow> real \<Rightarrow> int \<Rightarrow> py_error + (npfloat \<times> npfloat)" where
  "hedges_g mean1 sd1 n1 mean2 sd2 n2 =
     (let df = n1 + n2 - 2 in
      ebind (pdiv (real_of_int (n1 - 1) * sd1\<^sup>2 + real_of_int (n2 - 1) * sd2\<^sup>2) (real_of_int df)) (\<lambda>s2.
      let sp = np_sqrt (Fin s2);
          cohen_d = np_div (Fin (mean1 - mean2)) sp in
      ebind (pdiv 3 (real_of_int (4 * df - 1))) (\<lambda>q.
      let J = 1 - q;
          yi = np_mul cohen_d (Fin J) in
      ebind (pdiv (real_of_int (n1 + n2)) (real_of_int (n1 * n2))) (\<lambda>r.
      let sei = np_mul (np_sqrt (np_add (Fin r)
                   (np_div (np_sq yi) (Fin (real_of_int (2 * (n1 + n2))))))) (Fin J)
      in Inr (yi, sei)))))"

section \<open>Arrays and the distribution functions\<close>

text \<open>
  A one-dimensional numpy array is a list. \<open>np_bin\<close> is an elementwise operation on two
  arrays with numpy's broadcasting: equal lengths, or one operand of length one; any other
  pair of shapes raises \<open>ValueError\<close>.
\<close>

fun np_exp :: "npfloat \<Rightarrow> npfloat" where
  "np_exp (Fin x) = Fin (exp x)"
| "np_exp PInf = PInf"
| "np_exp NInf = Fin 0"
| "np_exp NaN = NaN"

definition np_sum :: "npfloat list \<Rightarrow> npfloat" where
  "np_sum xs = foldr np_add xs (Fin 0)"

definition np_mean :: "npfloat list \<Rightarrow> npfloat" where
  "np_mean xs = np_div (np_sum xs) (Fin (real (length xs)))"

definition np_bin :: "(npfloat \<Rightarrow> npfloat \<Rightarrow> npfloat) \<Rightarrow> npfloat list \<Rightarrow> npfloat list \<Rightarrow> py_error + npfloat list" where
  "np_bin f xs ys =
     (if length xs = length ys then Inr (map2 f xs ys)
      else if length xs = 1 then Inr (map (f (hd xs)) ys)
      else if length ys = 1 then Inr (map (\<lambda>x. f x (hd ys)) xs)
      else Inl ValueError)"

text \<open>The expression \<open>w / sum_w * 100\<close> on an array \<open>w\<close> and a scalar \<open>sum_w\<close>.\<close>

definition pct :: "npfloat list \<Rightarrow> npfloat \<Rightarrow> npfloat list" where
  "pct w sum_w = map (\<lambda>x. np_mul (np_div x sum_w) (Fin 100)) w"

text \<open>
  \<open>scipy.stats\<close> is outside the repository: its three distribution functions are taken
  as parameters (\<open>stats.chi2.cdf\<close>, \<open>stats.norm.cdf\<close>, \<open>stats.t.cdf\<close>).
\<close>

record scipy_stats =
  chi2_cdf :: "npfloat \<Rightarrow> int \<Rightarrow> npfloat"
  norm_cdf :: "npfloat \<Rightarrow> npfloat"
  t_cdf :: "npfloat \<Rightarrow> int \<Rightarrow> npfloat"

text \<open>The expression \<open>2 * (1 - stats.norm.cdf(abs(z)))\<close>.\<close>

definition two_sided_p :: "scipy_stats \<Rightarrow> npfloat \<Rightarrow> npfloat" where
  "two_sided_p stats z = np_mul (Fin 2) (np_sub (Fin 1) (norm_cdf stats (np_abs z)))"

section \<open>\<open>meta_analysis\<close> of \<open>validate-comprehensive.py\<close>\<close>

text \<open>
  The returned dictionaries are records; a key that one of the two \<open>return\<close> statements
  omits is an optional field.
\<close>

record heterogeneity =
  het_Q :: npfloat
  het_df :: int
  het_pValue :: npfloat
  het_I2 :: npfloat
  het_tau2 :: npfloat
  het_tau :: npfloat
  het_H2 :: npfloat

record ma_result =
  ma_summary :: npfloat
  ma_se :: npfloat
  ma_z :: "npfloat option"
  ma_pValue :: "npfloat option"
  ma_heterogeneity :: heterogeneity
  ma_weights_fe :: "npfloat list"
  ma_weights_re :: "npfloat list"
  ma_fixed_summary :: "npfloat option"
  ma_fixed_se :: "npfloat option"

text \<open>The literal \<open>{"Q": 0, "df": 0, "pValue": 1, "I2": 0, "tau2": 0, "tau": 0, "H2": 1}\<close>.\<close>

definition degenerate_het :: heterogeneity where
  "degenerate_het = \<lparr>het_Q = Fin 0, het_df = 0, het_pValue = Fin 1, het_I2 = Fin 0,
                      het_tau2 = Fin 0, het_tau = Fin 0, het_H2 = Fin 1\<rparr>"

text \<open>
  \<open>Q\<close>, \<open>C\<close>, \<open>summary\<close> and \<open>se\<close> are converted with \<open>float(...)\<close> in this script, so
  \<open>(Q - df) / C\<close> and \<open>summary / se\<close> are Python divisions; all other divisions have a
  numpy operand. \<open>(Q - df) / Q\<close> is only evaluated when \<open>Q > 0\<close> and \<open>Q / df\<close> only when
  \<open>df > 0\<close>, where Python's division cannot raise.
\<close>

definition meta_analysis :: "scipy_stats \<Rightarrow> npfloat list \<Rightarrow> npfloat list \<Rightarrow> string \<Rightarrow> py_error + ma_result" where
  "meta_analysis stats yi vi model =
     (let k = int (length yi);
          df = k - 1;
          w_fe = map (np_div (Fin 1)) vi;
          sum_w_fe = np_sum w_fe in
      ebind (np_bin np_mul w_fe yi) (\<lambda>w_yi.
      let summary_fe = np_div (np_sum w_yi) sum_w_fe;
          se_fe = np_sqrt (np_div (Fin 1) sum_w_fe) in
      if df \<le> 0 then
        Inr \<lparr>ma_summary = summary_fe, ma_se = se_fe, ma_z = None, ma_pValue = None,
             ma_heterogeneity = degenerate_het,
             ma_weights_fe = pct w_fe sum_w_fe, ma_weights_re = pct w_fe sum_w_fe,
             ma_fixed_summary = None, ma_fixed_se = None\<rparr>
      else
      ebind (np_bin np_mul w_fe (map (\<lambda>y. np_sq (np_sub y summary_fe)) yi)) (\<lambda>w_dev.
      let Q = np_sum w_dev;
          Q_pvalue = np_sub (Fin 1) (chi2_cdf stats Q df);
          C = np_sub sum_w_fe (np_div (np_sum (map np_sq w_fe)) sum_w_fe) in
      ebind (py_div (np_sub Q (Fin (real_of_int df))) C) (\<lambda>t.
      let tau2 = py_max0 t;
          tau = np_sqrt tau2;
          I2 = (if np_pos Q
                then py_max0 (np_mul (np_div (np_sub Q (Fin (real_of_int df))) Q) (Fin 100))
                else Fin 0);
          H2 = (if 0 < df then np_div Q (Fin (real_of_int df)) else Fin 1);
          het = \<lparr>het_Q = Q, het_df = df, het_pValue = Q_pvalue, het_I2 = I2,
                 het_tau2 = tau2, het_tau = tau, het_H2 = H2\<rparr>;
          w_re = map (\<lambda>v. np_div (Fin 1) (np_add v tau2)) vi;
          sum_w_re = np_sum w_re in
      ebind (np_bin np_mul w_re yi) (\<lambda>w_re_yi.
      let summary_re = np_div (np_sum w_re_yi) sum_w_re;
          se_re = np_sqrt (np_div (Fin 1) sum_w_re);
          summary = (if model = ''fixed'' then summary_fe else summary_re);
          se = (if model = ''fixed'' then se_fe else se_re) in
      ebind (py_div summary se) (\<lambda>z.
      let p = two_sided_p stats z in
      Inr \<lparr>ma_summary = summary, ma_se = se, ma_z = Some z, ma_pValue = Some p,
           ma_heterogeneity = het,
           ma_weights_fe = pct w_fe sum_w_fe, ma_weights_re = pct w_re sum_w_re,
           ma_fixed_summary = Some summary_fe, ma_fixed_se = Some se_fe\<rparr>))))))"

section \<open>The module-level computation of \<open>validate-gold-standard.py\<close>\<close>

text \<open>
  The values that Steps 2 to 4 of the script compute from the arrays \<open>yi_arr\<close> and
  \<open>vi_arr\<close> of its Step 1, as one record. The steps themselves are \<open>fl_gold_standard\<close>
  below.
\<close>

record gs_result =
  gs_summary_fe :: npfloat
  gs_se_fe :: npfloat
  gs_heterogeneity :: heterogeneity
  gs_summary_re :: npfloat
  gs_se_re :: npfloat
  gs_z_re :: npfloat
  gs_p_re :: npfloat
  gs_weights_fe_pct :: "npfloat list"
  gs_weights_re_pct :: "npfloat list"

text \<open>
  Step 5, Egger's regression, as a function of \<open>yi_arr\<close> and \<open>sei_arr\<close>. The only Python
  division is \<open>1.0 / n_egger\<close>; \<open>sse / df_egger\<close> divides a numpy value.
\<close>

record egger_result =
  eg_intercept :: npfloat
  eg_se :: npfloat
  eg_tValue :: npfloat
  eg_pValue :: npfloat
  eg_df :: int

definition eggers_test :: "scipy_stats \<Rightarrow> npfloat list \<Rightarrow> npfloat list \<Rightarrow> py_error + egger_result" where
  "eggers_test stats yi_arr sei_arr =
     (let x_egger = map (np_div (Fin 1)) sei_arr in
      ebind (np_bin np_div yi_arr sei_arr) (\<lambda>y_egger.
      let n_egger = length x_egger;
          mean_x = np_mean x_egger;
          mean_y = np_mean y_egger;
          Sxx = np_sum (map (\<lambda>x. np_sq (np_sub x mean_x)) x_egger) in
      ebind (np_bin np_mul (map (\<lambda>x. np_sub x mean_x) x_egger)
                           (map (\<lambda>y. np_sub y mean_y) y_egger)) (\<lambda>prods.
      let Sxy = np_sum prods;
          slope_egger = np_div Sxy Sxx;
          intercept_egger = np_sub mean_y (np_mul slope_egger mean_x) in
      ebind (np_bin np_sub y_egger
               (map (\<lambda>x. np_add intercept_egger (np_mul slope_egger x)) x_egger)) (\<lambda>residuals.
      let sse = np_sum (map np_sq residuals);
          df_egger = int n_egger - 2;
          mse = np_div sse (Fin (real_of_int df_egger)) in
      ebind (pdiv 1 (real n_egger)) (\<lambda>inv_n.
      let se_intercept = np_sqrt (np_mul mse (np_add (Fin inv_n) (np_div (np_sq mean_x) Sxx)));
          t_egger = np_div intercept_egger se_intercept;
          p_egger = np_mul (Fin 2) (np_sub (Fin 1) (t_cdf stats (np_abs t_egger) df_egger)) in
      Inr \<lparr>eg_intercept = intercept_egger, eg_se = se_intercept, eg_tValue = t_egger,
           eg_pValue = p_egger, eg_df = df_egger\<rparr>)))))"

section \<open>\<open>meta_analysis_hr\<close> of \<open>validate-hr.py\<close>\<close>

definition log_hazard_ratio :: "real \<Rightarrow> real \<Rightarrow> real \<Rightarrow> npfloat \<times> npfloat" where
  "log_hazard_ratio hr ci_lower ci_upper =
     (let yi = np_log (Fin hr);
          sei = np_div (np_sub (np_log (Fin ci_upper)) (np_log (Fin ci_lower))) (Fin (2 * 1.96))
      in (yi, sei))"

record pooled =
  p_summary :: npfloat
  p_se :: npfloat
  p_effect :: npfloat
  p_ciLower :: npfloat
  p_ciUpper :: npfloat
  p_z :: npfloat
  p_pValue :: npfloat

record hr_result =
  hr_weight :: "npfloat list"
  hr_pooled :: pooled
  hr_fixed :: pooled
  hr_heterogeneity :: heterogeneity

text \<open>The dictionaries \<open>pooled\<close> and \<open>fixed\<close> (Step 6), built from a summary, its
  standard error and the already computed \<open>z\<close> and \<open>p\<close>.\<close>

definition mk_pooled :: "npfloat \<Rightarrow> npfloat \<Rightarrow> npfloat \<Rightarrow> npfloat \<Rightarrow> pooled" where
  "mk_pooled summary se z p =
     \<lparr>p_summary = summary, p_se = se, p_effect = np_exp summary,
      p_ciLower = np_exp (np_sub summary (np_mul (Fin 1.96) se)),
      p_ciUpper = np_exp (np_add summary (np_mul (Fin 1.96) se)),
      p_z = z, p_pValue = p\<rparr>"

text \<open>
  The function from its line \<open>yi = np.array(yi_arr)\<close> on, as a function of the two lists
  that its Step 1 builds. Here the sums are converted with \<open>float(...)\<close>, so
  \<open>1.0 / sum_w_fe\<close>, \<open>sum_w2 / sum_w_fe\<close>, \<open>(Q - df) / C\<close>, \<open>1.0 / sum_w_re\<close> and the two
  \<open>summary / se\<close> are Python divisions. The per-study \<open>weight\<close> is \<open>weights_re_pct\<close>.
\<close>

definition meta_analysis_hr_pool :: "scipy_stats \<Rightarrow> npfloat list \<Rightarrow> npfloat list \<Rightarrow> string \<Rightarrow> py_error + hr_result" where
  "meta_analysis_hr_pool stats yi vi model =
     (let k = int (length yi);
          df = k - 1;
          w_fe = map (np_div (Fin 1)) vi;
          sum_w_fe = np_sum w_fe in
      ebind (np_bin np_mul w_fe yi) (\<lambda>w_yi.
      let summary_fe = np_div (np_sum w_yi) sum_w_fe in
      ebind (py_div (Fin 1) sum_w_fe) (\<lambda>inv_w.
      let se_fe = np_sqrt inv_w in
      ebind
        (if df \<le> 0 then Inr (degenerate_het, pct w_fe sum_w_fe, summary_fe, se_fe)
         else
           ebind (np_bin np_mul w_fe (map (\<lambda>y. np_sq (np_sub y summary_fe)) yi)) (\<lambda>w_dev.
           let Q = np_sum w_dev;
               Q_pvalue = np_sub (Fin 1) (chi2_cdf stats Q df);
               sum_w2 = np_sum (map np_sq w_fe) in
           ebind (py_div sum_w2 sum_w_fe) (\<lambda>r.
           let C = np_sub sum_w_fe r in
           ebind (py_div (np_sub Q (Fin (real_of_int df))) C) (\<lambda>t.
           let tau2 = py_max0 t;
               tau = np_sqrt tau2;
               I2 = (if np_pos Q
                     then py_max0 (np_mul (np_div (np_sub Q (Fin (real_of_int df))) Q) (Fin 100))
                     else Fin 0);
               H2 = np_div Q (Fin (real_of_int df));
               het = \<lparr>het_Q = Q, het_df = df, het_pValue = Q_pvalue, het_I2 = I2,
                      het_tau2 = tau2, het_tau = tau, het_H2 = H2\<rparr>;
               w_re = map (\<lambda>v. np_div (Fin 1) (np_add v tau2)) vi;
               sum_w_re = np_sum w_re in
           ebind (np_bin np_mul w_re yi) (\<lambda>w_re_yi.
           let summary_re = np_div (np_sum w_re_yi) sum_w_re in
           ebind (py_div (Fin 1) sum_w_re) (\<lambda>inv_w_re.
           let se_re = np_sqrt inv_w_re;
               weights_re_pct = pct w_re sum_w_re in
           Inr (het, weights_re_pct,
                if model = ''fixed'' then summary_fe else summary_re,
                if model = ''fixed'' then se_fe else se_re)))))))
        (\<lambda>(het, weights_re_pct, summary, se).
      ebind (py_div summary se) (\<lambda>z.
      let p = two_sided_p stats z in
      ebind (py_div summary_fe se_fe) (\<lambda>z_fe.
      let p_fe = two_sided_p stats z_fe in
      Inr \<lparr>hr_weight = weights_re_pct,
           hr_pooled = mk_pooled summary se z p,
           hr_fixed = mk_pooled summary_fe se_fe z_fe p_fe,
           hr_heterogeneity = het\<rparr>))))))"

text \<open>Step 1 and the whole function: one effect size per study, \<open>vi = sei ** 2\<close>.\<close>

record hr_study =
  st_name :: string
  st_hr :: real
  st_ciLower :: real
  st_ciUpper :: real

definition meta_analysis_hr :: "scipy_stats \<Rightarrow> hr_study list \<Rightarrow> string \<Rightarrow> py_error + hr_result" where
  "meta_analysis_hr stats studies model =
     (let es = map (\<lambda>s. log_hazard_ratio (st_hr s) (st_ciLower s) (st_ciUpper s)) studies;
          yi_arr = map fst es;
          vi_arr = map (\<lambda>e. np_sq (snd e)) es
      in meta_analysis_hr_pool stats yi_arr vi_arr model)"

text \<open>
  A stand-in for \<open>scipy.stats\<close>, used only where a function is evaluated at a concrete
  input; like scipy's, its functions return \<open>nan\<close> at \<open>nan\<close>. Every theorem below that
  mentions a \<open>stats\<close> holds for arbitrary distribution functions.
\<close>

fun half_unless_nan :: "npfloat \<Rightarrow> npfloat" where
  "half_unless_nan NaN = NaN"
| "half_unless_nan x = Fin (1/2)"

definition example_stats :: scipy_stats where
  "example_stats = \<lparr>chi2_cdf = (\<lambda>q d. half_unless_nan q), norm_cdf = half_unless_nan,
                     t_cdf = (\<lambda>t d. half_unless_nan t)\<rparr>"

section \<open>The same computations with rounded arithmetic\<close>

text \<open>
  The definitions above compute with exact reals. A float64 operation on finite operands
  returns the rounded exact result, which may also be an infinity (overflow) or zero
  (underflow), and \<open>np.sum\<close> adds in an order of its own. An \<open>arith\<close> holds these
  three things: \<open>rnd\<close> maps the exact result of one operation to the value the machine
  returns, \<open>asum\<close> is \<open>np.sum\<close> and \<open>aexp\<close> is \<open>np.exp\<close>. Operations on \<open>inf\<close> and
  \<open>nan\<close>, divisions by zero and comparisons are as above. Every theorem stated for an
  arbitrary \<open>arith\<close> holds in particular for binary64 with numpy's summation.
\<close>

record arith =
  rnd :: "real \<Rightarrow> npfloat"
  asum :: "npfloat list \<Rightarrow> npfloat"
  aexp :: "npfloat \<Rightarrow> npfloat"

fun fl_add :: "(real \<Rightarrow> npfloat) \<Rightarrow> npfloat \<Rightarrow> npfloat \<Rightarrow> npfloat" where
  "fl_add r (Fin x) (Fin y) = r (x + y)"
| "fl_add r a b = np_add a b"

fun fl_sub :: "(real \<Rightarrow> npfloat) \<Rightarrow> npfloat \<Rightarrow> npfloat \<Rightarrow> npfloat" where
  "fl_sub r (Fin x) (Fin y) = r (x - y)"
| "fl_sub r a b = np_sub a b"

fun fl_mul :: "(real \<Rightarrow> npfloat) \<Rightarrow> npfloat \<Rightarrow> npfloat \<Rightarrow> npfloat" where
  "fl_mul r (Fin x) (Fin y) = r (x * y)"
| "fl_mul r a b = np_mul a b"

fun fl_div :: "(real \<Rightarrow> npfloat) \<Rightarrow> npfloat \<Rightarrow> npfloat \<Rightarrow> npfloat" where
  "fl_div r (Fin x) (Fin y) = (if y = 0 then np_div (Fin x) (Fin y) else r (x / y))"
| "fl_div r a b = np_div a b"

fun fl_sqrt :: "(real \<Rightarrow> npfloat) \<Rightarrow> npfloat \<Rightarrow> npfloat" where
  "fl_sqrt r (Fin x) = (if 0 \<le> x then r (sqrt x) else NaN)"
| "fl_sqrt r a = np_sqrt a"

definition fl_sq :: "arith \<Rightarrow> npfloat \<Rightarrow> npfloat" where
  "fl_sq ar a = fl_mul (rnd ar) a a"

definition fl_py_div :: "arith \<Rightarrow> npfloat \<Rightarrow> npfloat \<Rightarrow> py_error + npfloat" where
  "fl_py_div ar a b = (if b = Fin 0 then Inl ZeroDivisionError else Inr (fl_div (rnd ar) a b))"

definition fl_mean :: "arith \<Rightarrow> npfloat list \<Rightarrow> npfloat" where
  "fl_mean ar xs = fl_div (rnd ar) (asum ar xs) (Fin (real (length xs)))"

definition fl_pct :: "arith \<Rightarrow> npfloat list \<Rightarrow> npfloat \<Rightarrow> npfloat list" where
  "fl_pct ar w sum_w = map (\<lambda>x. fl_mul (rnd ar) (fl_div (rnd ar) x sum_w) (Fin 100)) w"

definition fl_two_sided_p :: "arith \<Rightarrow> scipy_stats \<Rightarrow> npfloat \<Rightarrow> npfloat" where
  "fl_two_sided_p ar stats z =
     fl_mul (rnd ar) (Fin 2) (fl_sub (rnd ar) (Fin 1) (norm_cdf stats (np_abs z)))"

text \<open>Arithmetic without rounding, with the sum of the first part.\<close>

definition exact_arith :: arith where
  "exact_arith = \<lparr>rnd = Fin, asum = np_sum, aexp = np_exp\<rparr>"

text \<open>
  \<open>meta_analysis\<close> of \<open>validate-comprehensive.py\<close>. \<open>C\<close> and \<open>Q\<close> are converted with
  \<open>float(...)\<close>, so \<open>(Q - df) / C\<close> is a Python division, and so is \<open>summary / se\<close>.
\<close>

definition fl_meta_analysis :: "arith \<Rightarrow> scipy_stats \<Rightarrow> npfloat list \<Rightarrow> npfloat list \<Rightarrow> string \<Rightarrow> py_error + ma_result" where
  "fl_meta_analysis ar stats yi vi model =
     (let k = int (length yi);
          df = k - 1;
          w_fe = map (fl_div (rnd ar) (Fin 1)) vi;
          sum_w_fe = asum ar w_fe in
      ebind (np_bin (fl_mul (rnd ar)) w_fe yi) (\<lambda>w_yi.
      let summary_fe = fl_div (rnd ar) (asum ar w_yi) sum_w_fe;
          se_fe = fl_sqrt (rnd ar) (fl_div (rnd ar) (Fin 1) sum_w_fe) in
      if df \<le> 0 then
        Inr \<lparr>ma_summary = summary_fe, ma_se = se_fe, ma_z = None, ma_pValue = None,
             ma_heterogeneity = degenerate_het,
             ma_weights_fe = fl_pct ar w_fe sum_w_fe, ma_weights_re = fl_pct ar w_fe sum_w_fe,
             ma_fixed_summary = None, ma_fixed_se = None\<rparr>
      else
      ebind (np_bin (fl_mul (rnd ar)) w_fe (map (\<lambda>y. fl_sq ar (fl_sub (rnd ar) y summary_fe)) yi)) (\<lambda>w_dev.
      let Q = asum ar w_dev;
          Q_pvalue = fl_sub (rnd ar) (Fin 1) (chi2_cdf stats Q df);
          C = fl_sub (rnd ar) sum_w_fe (fl_div (rnd ar) (asum ar (map (fl_sq ar) w_fe)) sum_w_fe) in
      ebind (fl_py_div ar (fl_sub (rnd ar) Q (Fin (real_of_int df))) C) (\<lambda>t.
      let tau2 = py_max0 t;
          tau = fl_sqrt (rnd ar) tau2;
          I2 = (if np_pos Q
                then py_max0 (fl_mul (rnd ar) (fl_div (rnd ar) (fl_sub (rnd ar) Q (Fin (real_of_int df))) Q) (Fin 100))
                else Fin 0);
          H2 = (if 0 < df then fl_div (rnd ar) Q (Fin (real_of_int df)) else Fin 1);
          het = \<lparr>het_Q = Q, het_df = df, het_pValue = Q_pvalue, het_I2 = I2,
                 het_tau2 = tau2, het_tau = tau, het_H2 = H2\<rparr>;
          w_re = map (\<lambda>v. fl_div (rnd ar) (Fin 1) (fl_add (rnd ar) v tau2)) vi;
          sum_w_re = asum ar w_re in
      ebind (np_bin (fl_mul (rnd ar)) w_re yi) (\<lambda>w_re_yi.
      let summary_re = fl_div (rnd ar) (asum ar w_re_yi) sum_w_re;
          se_re = fl_sqrt (rnd ar) (fl_div (rnd ar) (Fin 1) sum_w_re);
          summary = (if model = ''fixed'' then summary_fe else summary_re);
          se = (if model = ''fixed'' then se_fe else se_re) in
      ebind (fl_py_div ar summary se) (\<lambda>z.
      let p = fl_two_sided_p ar stats z in
      Inr \<lparr>ma_summary = summary, ma_se = se, ma_z = Some z, ma_pValue = Some p,
           ma_heterogeneity = het,
           ma_weights_fe = fl_pct ar w_fe sum_w_fe, ma_weights_re = fl_pct ar w_re sum_w_re,
           ma_fixed_summary = Some summary_fe, ma_fixed_se = Some se_fe\<rparr>))))))"

text \<open>
  Steps 2 to 4 of \<open>validate-gold-standard.py\<close> as a function of the arrays \<open>yi_arr\<close> and
  \<open>vi_arr\<close> that its Step 1 builds (\<open>k = len(studies)\<close> is their length). Nothing is
  converted with \<open>float(...)\<close> before it is divided, so every division is numpy's.
\<close>

definition fl_gold_standard :: "arith \<Rightarrow> scipy_stats \<Rightarrow> npfloat list \<Rightarrow> npfloat list \<Rightarrow> py_error + gs_result" where
  "fl_gold_standard ar stats yi_arr vi_arr =
     (let w_fe = map (fl_div (rnd ar) (Fin 1)) vi_arr;
          sum_w_fe = asum ar w_fe in
      ebind (np_bin (fl_mul (rnd ar)) w_fe yi_arr) (\<lambda>w_yi.
      let summary_fe = fl_div (rnd ar) (asum ar w_yi) sum_w_fe;
          se_fe = fl_sqrt (rnd ar) (fl_div (rnd ar) (Fin 1) sum_w_fe);
          k = int (length yi_arr);
          df = k - 1 in
      ebind (np_bin (fl_mul (rnd ar)) w_fe (map (\<lambda>y. fl_sq ar (fl_sub (rnd ar) y summary_fe)) yi_arr)) (\<lambda>w_dev.
      let Q = asum ar w_dev;
          Q_pvalue = fl_sub (rnd ar) (Fin 1) (chi2_cdf stats Q df);
          C = fl_sub (rnd ar) sum_w_fe (fl_div (rnd ar) (asum ar (map (fl_sq ar) w_fe)) sum_w_fe);
          tau2 = py_max0 (fl_div (rnd ar) (fl_sub (rnd ar) Q (Fin (real_of_int df))) C);
          tau = fl_sqrt (rnd ar) tau2;
          I2 = (if np_pos Q
                then py_max0 (fl_mul (rnd ar) (fl_div (rnd ar) (fl_sub (rnd ar) Q (Fin (real_of_int df))) Q) (Fin 100))
                else Fin 0);
          H2 = (if 0 < df then fl_div (rnd ar) Q (Fin (real_of_int df)) else Fin 1);
          w_re = map (\<lambda>v. fl_div (rnd ar) (Fin 1) (fl_add (rnd ar) v tau2)) vi_arr;
          sum_w_re = asum ar w_re in
      ebind (np_bin (fl_mul (rnd ar)) w_re yi_arr) (\<lambda>w_re_yi.
      let summary_re = fl_div (rnd ar) (asum ar w_re_yi) sum_w_re;
          se_re = fl_sqrt (rnd ar) (fl_div (rnd ar) (Fin 1) sum_w_re);
          z_re = fl_div (rnd ar) summary_re se_re;
          p_re = fl_two_sided_p ar stats z_re in
      Inr \<lparr>gs_summary_fe = summary_fe, gs_se_fe = se_fe,
           gs_heterogeneity = \<lparr>het_Q = Q, het_df = df, het_pValue = Q_pvalue, het_I2 = I2,
                                het_tau2 = tau2, het_tau = tau, het_H2 = H2\<rparr>,
           gs_summary_re = summary_re, gs_se_re = se_re, gs_z_re = z_re, gs_p_re = p_re,
           gs_weights_fe_pct = fl_pct ar w_fe sum_w_fe,
           gs_weights_re_pct = fl_pct ar w_re sum_w_re\<rparr>))))"

text \<open>Step 5 of \<open>validate-gold-standard.py\<close>, Egger's regression.\<close>

definition fl_eggers_test :: "arith \<Rightarrow> scipy_stats \<Rightarrow> npfloat list \<Rightarrow> npfloat list \<Rightarrow> py_error + egger_result" where
  "fl_eggers_test ar stats yi_arr sei_arr =
     (let x_egger = map (fl_div (rnd ar) (Fin 1)) sei_arr in
      ebind (np_bin (fl_div (rnd ar)) yi_arr sei_arr) (\<lambda>y_egger.
      let n_egger = length x_egger;
          mean_x = fl_mean ar x_egger;
          mean_y = fl_mean ar y_egger;
          Sxx = asum ar (map (\<lambda>x. fl_sq ar (fl_sub (rnd ar) x mean_x)) x_egger) in
      ebind (np_bin (fl_mul (rnd ar)) (map (\<lambda>x. fl_sub (rnd ar) x mean_x) x_egger)
                                (map (\<lambda>y. fl_sub (rnd ar) y mean_y) y_egger)) (\<lambda>prods.
      let Sxy = asum ar prods;
          slope_egger = fl_div (rnd ar) Sxy Sxx;
          intercept_egger = fl_sub (rnd ar) mean_y (fl_mul (rnd ar) slope_egger mean_x) in
      ebind (np_bin (fl_sub (rnd ar)) y_egger
               (map (\<lambda>x. fl_add (rnd ar) intercept_egger (fl_mul (rnd ar) slope_egger x)) x_egger)) (\<lambda>residuals.
      let sse = asum ar (map (fl_sq ar) residuals);
          df_egger = int n_egger - 2;
          mse = fl_div (rnd ar) sse (Fin (real_of_int df_egger)) in
      ebind (fl_py_div ar (Fin 1) (Fin (real n_egger))) (\<lambda>inv_n.
      let se_intercept = fl_sqrt (rnd ar) (fl_mul (rnd ar) mse (fl_add (rnd ar) inv_n (fl_div (rnd ar) (fl_sq ar mean_x) Sxx)));
          t_egger = fl_div (rnd ar) intercept_egger se_intercept;
          p_egger = fl_mul (rnd ar) (Fin 2) (fl_sub (rnd ar) (Fin 1) (t_cdf stats (np_abs t_egger) df_egger)) in
      Inr \<lparr>eg_intercept = intercept_egger, eg_se = se_intercept, eg_tValue = t_egger,
           eg_pValue = p_egger, eg_df = df_egger\<rparr>)))))"

definition fl_mk_pooled :: "arith \<Rightarrow> npfloat \<Rightarrow> npfloat \<Rightarrow> npfloat \<Rightarrow> npfloat \<Rightarrow> pooled" where
  "fl_mk_pooled ar summary se z p =
     \<lparr>p_summary = summary, p_se = se, p_effect = aexp ar summary,
      p_ciLower = aexp ar (fl_sub (rnd ar) summary (fl_mul (rnd ar) (Fin 1.96) se)),
      p_ciUpper = aexp ar (fl_add (rnd ar) summary (fl_mul (rnd ar) (Fin 1.96) se)),
      p_z = z, p_pValue = p\<rparr>"

text \<open>
  Steps 2 to 6 of \<open>meta_analysis_hr\<close> of \<open>validate-hr.py\<close>, where \<open>sum_w_fe\<close>, \<open>sum_w2\<close>,
  \<open>Q\<close> and \<open>sum_w_re\<close> are converted with \<open>float(...)\<close>: the divisions \<open>1.0 / sum_w_fe\<close>,
  \<open>sum_w2 / sum_w_fe\<close>, \<open>(Q - df) / C\<close>, \<open>1.0 / sum_w_re\<close>, \<open>summary / se\<close> and
  \<open>summary_fe / se_fe\<close> are Python's.
\<close>

definition fl_meta_analysis_hr_pool :: "arith \<Rightarrow> scipy_stats \<Rightarrow> npfloat list \<Rightarrow> npfloat list \<Rightarrow> string \<Rightarrow> py_error + hr_result" where
  "fl_meta_analysis_hr_pool ar stats yi vi model =
     (let k = int (length yi);
          df = k - 1;
          w_fe = map (fl_div (rnd ar) (Fin 1)) vi;
          sum_w_fe = asum ar w_fe in
      ebind (np_bin (fl_mul (rnd ar)) w_fe yi) (\<lambda>w_yi.
      let summary_fe = fl_div (rnd ar) (asum ar w_yi) sum_w_fe in
      ebind (fl_py_div ar (Fin 1) sum_w_fe) (\<lambda>inv_w.
      let se_fe = fl_sqrt (rnd ar) inv_w in
      ebind
        (if df \<le> 0 then Inr (degenerate_het, fl_pct ar w_fe sum_w_fe, summary_fe, se_fe)
         else
           ebind (np_bin (fl_mul (rnd ar)) w_fe (map (\<lambda>y. fl_sq ar (fl_sub (rnd ar) y summary_fe)) yi)) (\<lambda>w_dev.
           let Q = asum ar w_dev;
               Q_pvalue = fl_sub (rnd ar) (Fin 1) (chi2_cdf stats Q df);
               sum_w2 = asum ar (map (fl_sq ar) w_fe) in
           ebind (fl_py_div ar sum_w2 sum_w_fe) (\<lambda>r.
           let C = fl_sub (rnd ar) sum_w_fe r in
           ebind (fl_py_div ar (fl_sub (rnd ar) Q (Fin (real_of_int df))) C) (\<lambda>t.
           let tau2 = py_max0 t;
               tau = fl_sqrt (rnd ar) tau2;
               I2 = (if np_pos Q
                     then py_max0 (fl_mul (rnd ar) (fl_div (rnd ar) (fl_sub (rnd ar) Q (Fin (real_of_int df))) Q) (Fin 100))
                     else Fin 0);
               H2 = fl_div (rnd ar) Q (Fin (real_of_int df));
               het = \<lparr>het_Q = Q, het_df = df, het_pValue = Q_pvalue, het_I2 = I2,
                      het_tau2 = tau2, het_tau = tau, het_H2 = H2\<rparr>;
               w_re = map (\<lambda>v. fl_div (rnd ar) (Fin 1) (fl_add (rnd ar) v tau2)) vi;
               sum_w_re = asum ar w_re in
           ebind (np_bin (fl_mul (rnd ar)) w_re yi) (\<lambda>w_re_yi.
           let summary_re = fl_div (rnd ar) (asum ar w_re_yi) sum_w_re in
           ebind (fl_py_div ar (Fin 1) sum_w_re) (\<lambda>inv_w_re.
           let se_re = fl_sqrt (rnd ar) inv_w_re;
               weights_re_pct = fl_pct ar w_re sum_w_re in
           Inr (het, weights_re_pct,
                if model = ''fixed'' then summary_fe else summary_re,
                if model = ''fixed'' then se_fe else se_re)))))))
        (\<lambda>(het, weights_re_pct, summary, se).
      ebind (fl_py_div ar summary se) (\<lambda>z.
      let p = fl_two_sided_p ar stats z in
      ebind (fl_py_div ar summary_fe se_fe) (\<lambda>z_fe.
      let p_fe = fl_two_sided_p ar stats z_fe in
      Inr \<lparr>hr_weight = weights_re_pct,
           hr_pooled = fl_mk_pooled ar summary se z p,
           hr_fixed = fl_mk_pooled ar summary_fe se_fe z_fe p_fe,
           hr_heterogeneity = het\<rparr>))))))"

text \<open>
  The comparison \<open>a \<le> b\<close> and the property of being zero, a positive number or \<open>inf\<close>
  (neither negative nor \<open>nan\<close>).
\<close>

fun np_le :: "npfloat \<Rightarrow> npfloat \<Rightarrow> bool" where
  "np_le (Fin x) (Fin y) = (x \<le> y)"
| "np_le NaN b = False"
| "np_le a NaN = False"
| "np_le NInf b = True"
| "np_le a PInf = True"
| "np_le PInf b = False"
| "np_le a NInf = False"

fun np_nonneg :: "npfloat \<Rightarrow> bool" where
  "np_nonneg (Fin x) = (0 \<le> x)"
| "np_nonneg PInf = True"
| "np_nonneg NInf = False"
| "np_nonneg NaN = False"

text \<open>
  The number that a finite value holds, and the property of a list of weight percentages
  that all are finite numbers whose sum lies within \<open>10^(-6)\<close> of \<open>100\<close>.
\<close>

fun the_Fin :: "npfloat \<Rightarrow> real" where
  "the_Fin (Fin x) = x"
| "the_Fin a = 0"

definition within_100 :: "npfloat list \<Rightarrow> bool" where
  "within_100 ps = (list_all is_Fin ps \<and> \<bar>sum_list (map the_Fin ps) - 100\<bar> \<le> 1 / 10 ^ 6)"

section \<open>The values of the pooling stages, by name\<close>

text \<open>
  The expressions that \<open>meta_analysis\<close>, \<open>meta_analysis_hr\<close> and the gold-standard script
  bind to \<open>w_fe\<close>, \<open>sum_w_fe\<close>, \<open>summary_fe\<close>, \<open>se_fe\<close>, \<open>Q\<close>, \<open>C\<close>, \<open>tau2\<close>, \<open>I2\<close>, \<open>H2\<close>,
  \<open>w_re\<close>, \<open>sum_w_re\<close>, \<open>summary_re\<close> and \<open>se_re\<close>, with every division a numpy division.
\<close>

definition fl_w_fe :: "arith \<Rightarrow> npfloat list \<Rightarrow> npfloat list" where
  "fl_w_fe ar vi = map (fl_div (rnd ar) (Fin 1)) vi"

definition fl_sum_w_fe :: "arith \<Rightarrow> npfloat list \<Rightarrow> npfloat" where
  "fl_sum_w_fe ar vi = asum ar (fl_w_fe ar vi)"

definition fl_summary_fe :: "arith \<Rightarrow> npfloat list \<Rightarrow> npfloat list \<Rightarrow> npfloat" where
  "fl_summary_fe ar yi vi =
     fl_div (rnd ar) (asum ar (map2 (fl_mul (rnd ar)) (fl_w_fe ar vi) yi)) (fl_sum_w_fe ar vi)"

definition fl_se_fe :: "arith \<Rightarrow> npfloat list \<Rightarrow> npfloat" where
  "fl_se_fe ar vi = fl_sqrt (rnd ar) (fl_div (rnd ar) (Fin 1) (fl_sum_w_fe ar vi))"

definition fl_df :: "npfloat list \<Rightarrow> int" where
  "fl_df yi = int (length yi) - 1"

definition fl_Q :: "arith \<Rightarrow> npfloat list \<Rightarrow> npfloat list \<Rightarrow> npfloat" where
  "fl_Q ar yi vi =
     asum ar (map2 (fl_mul (rnd ar)) (fl_w_fe ar vi)
                (map (\<lambda>y. fl_sq ar (fl_sub (rnd ar) y (fl_summary_fe ar yi vi))) yi))"

definition fl_C :: "arith \<Rightarrow> npfloat list \<Rightarrow> npfloat" where
  "fl_C ar vi =
     fl_sub (rnd ar) (fl_sum_w_fe ar vi)
       (fl_div (rnd ar) (asum ar (map (fl_sq ar) (fl_w_fe ar vi))) (fl_sum_w_fe ar vi))"

definition fl_tau2 :: "arith \<Rightarrow> npfloat list \<Rightarrow> npfloat list \<Rightarrow> npfloat" where
  "fl_tau2 ar yi vi =
     py_max0 (fl_div (rnd ar) (fl_sub (rnd ar) (fl_Q ar yi vi) (Fin (real_of_int (fl_df yi)))) (fl_C ar vi))"

definition fl_I2 :: "arith \<Rightarrow> npfloat list \<Rightarrow> npfloat list \<Rightarrow> npfloat" where
  "fl_I2 ar yi vi =
     (if np_pos (fl_Q ar yi vi)
      then py_max0 (fl_mul (rnd ar)
             (fl_div (rnd ar) (fl_sub (rnd ar) (fl_Q ar yi vi) (Fin (real_of_int (fl_df yi)))) (fl_Q ar yi vi))
             (Fin 100))
      else Fin 0)"

definition fl_H2 :: "arith \<Rightarrow> npfloat list \<Rightarrow> npfloat list \<Rightarrow> npfloat" where
  "fl_H2 ar yi vi =
     (if 0 < fl_df yi then fl_div (rnd ar) (fl_Q ar yi vi) (Fin (real_of_int (fl_df yi))) else Fin 1)"

definition fl_het :: "arith \<Rightarrow> scipy_stats \<Rightarrow> npfloat list \<Rightarrow> npfloat list \<Rightarrow> heterogeneity" where
  "fl_het ar stats yi vi =
     \<lparr>het_Q = fl_Q ar yi vi, het_df = fl_df yi,
      het_pValue = fl_sub (rnd ar) (Fin 1) (chi2_cdf stats (fl_Q ar yi vi) (fl_df yi)),
      het_I2 = fl_I2 ar yi vi, het_tau2 = fl_tau2 ar yi vi,
      het_tau = fl_sqrt (rnd ar) (fl_tau2 ar yi vi), het_H2 = fl_H2 ar yi vi\<rparr>"

definition fl_w_re :: "arith \<Rightarrow> npfloat list \<Rightarrow> npfloat list \<Rightarrow> npfloat list" where
  "fl_w_re ar yi vi = map (\<lambda>v. fl_div (rnd ar) (Fin 1) (fl_add (rnd ar) v (fl_tau2 ar yi vi))) vi"

definition fl_sum_w_re :: "arith \<Rightarrow> npfloat list \<Rightarrow> npfloat list \<Rightarrow> npfloat" where
  "fl_sum_w_re ar yi vi = asum ar (fl_w_re ar yi vi)"

definition fl_summary_re :: "arith \<Rightarrow> npfloat list \<Rightarrow> npfloat list \<Rightarrow> npfloat" where
  "fl_summary_re ar yi vi =
     fl_div (rnd ar) (asum ar (map2 (fl_mul (rnd ar)) (fl_w_re ar yi vi) yi)) (fl_sum_w_re ar yi vi)"

definition fl_se_re :: "arith \<Rightarrow> npfloat list \<Rightarrow> npfloat list \<Rightarrow> npfloat" where
  "fl_se_re ar yi vi = fl_sqrt (rnd ar) (fl_div (rnd ar) (Fin 1) (fl_sum_w_re ar yi vi))"

definition fl_summary :: "arith \<Rightarrow> string \<Rightarrow> npfloat list \<Rightarrow> npfloat list \<Rightarrow> npfloat" where
  "fl_summary ar model yi vi = (if model = ''fixed'' then fl_summary_fe ar yi vi else fl_summary_re ar yi vi)"

definition fl_se :: "arith \<Rightarrow> string \<Rightarrow> npfloat list \<Rightarrow> npfloat list \<Rightarrow> npfloat" where
  "fl_se ar model yi vi = (if model = ''fixed'' then fl_se_fe ar vi else fl_se_re ar yi vi)"

section \<open>The heterogeneity formulas of the specification in rounded arithmetic\<close>

text \<open>
  The formulas as the specification writes them, over the study index \<open>i < k\<close>, each
  operation rounded and each \<open>\<Sum>\<close> taken by \<open>np.sum\<close> over the terms in the order of the
  studies; \<open>max(0, x)\<close> is Python's.
\<close>

definition fl_sigma :: "arith \<Rightarrow> nat \<Rightarrow> (nat \<Rightarrow> npfloat) \<Rightarrow> npfloat" where
  "fl_sigma ar k f = asum ar (map f [0..<k])"

definition fl_spec_w :: "arith \<Rightarrow> npfloat list \<Rightarrow> nat \<Rightarrow> npfloat" where
  "fl_spec_w ar vi i = fl_div (rnd ar) (Fin 1) (vi ! i)"

definition fl_spec_ybar :: "arith \<Rightarrow> npfloat list \<Rightarrow> npfloat list \<Rightarrow> npfloat" where
  "fl_spec_ybar ar yi vi =
     fl_div (rnd ar) (fl_sigma ar (length yi) (\<lambda>i. fl_mul (rnd ar) (fl_spec_w ar vi i) (yi ! i)))
                     (fl_sigma ar (length yi) (fl_spec_w ar vi))"

definition fl_spec_Q :: "arith \<Rightarrow> npfloat list \<Rightarrow> npfloat list \<Rightarrow> npfloat" where
  "fl_spec_Q ar yi vi =
     fl_sigma ar (length yi)
       (\<lambda>i. fl_mul (rnd ar) (fl_spec_w ar vi i) (fl_sq ar (fl_sub (rnd ar) (yi ! i) (fl_spec_ybar ar yi vi))))"

definition fl_spec_C :: "arith \<Rightarrow> npfloat list \<Rightarrow> npfloat list \<Rightarrow> npfloat" where
  "fl_spec_C ar yi vi =
     fl_sub (rnd ar) (fl_sigma ar (length yi) (fl_spec_w ar vi))
       (fl_div (rnd ar) (fl_sigma ar (length yi) (\<lambda>i. fl_sq ar (fl_spec_w ar vi i)))
                        (fl_sigma ar (length yi) (fl_spec_w ar vi)))"

definition fl_spec_df :: "npfloat list \<Rightarrow> int" where
  "fl_spec_df yi = int (length yi) - 1"

definition fl_spec_tau2 :: "arith \<Rightarrow> npfloat list \<Rightarrow> npfloat list \<Rightarrow> npfloat" where
  "fl_spec_tau2 ar yi vi =
     py_max0 (fl_div (rnd ar) (fl_sub (rnd ar) (fl_spec_Q ar yi vi) (Fin (real_of_int (fl_spec_df yi))))
                              (fl_spec_C ar yi vi))"

definition fl_spec_I2 :: "arith \<Rightarrow> npfloat list \<Rightarrow> npfloat list \<Rightarrow> npfloat" where
  "fl_spec_I2 ar yi vi =
     (if np_pos (fl_spec_Q ar yi vi)
      then py_max0 (fl_mul (rnd ar)
             (fl_div (rnd ar) (fl_sub (rnd ar) (fl_spec_Q ar yi vi) (Fin (real_of_int (fl_spec_df yi))))
                              (fl_spec_Q ar yi vi))
             (Fin 100))
      else Fin 0)"

definition fl_spec_H2 :: "arith \<Rightarrow> npfloat list \<Rightarrow> npfloat list \<Rightarrow> npfloat" where
  "fl_spec_H2 ar yi vi = fl_div (rnd ar) (fl_spec_Q ar yi vi) (Fin (real_of_int (fl_spec_df yi)))"

definition fl_spec_heterogeneity :: "arith \<Rightarrow> scipy_stats \<Rightarrow> npfloat list \<Rightarrow> npfloat list \<Rightarrow> heterogeneity" where
  "fl_spec_heterogeneity ar stats yi vi =
     \<lparr>het_Q = fl_spec_Q ar yi vi, het_df = fl_spec_df yi,
      het_pValue = fl_sub (rnd ar) (Fin 1) (chi2_cdf stats (fl_spec_Q ar yi vi) (fl_spec_df yi)),
      het_I2 = fl_spec_I2 ar yi vi, het_tau2 = fl_spec_tau2 ar yi vi,
      het_tau = fl_sqrt (rnd ar) (fl_spec_tau2 ar yi vi), het_H2 = fl_spec_H2 ar yi vi\<rparr>"

section \<open>Binary64\<close>

text \<open>
  IEEE 754 binary64 with round-to-nearest, ties to even: a non-zero real \<open>x\<close> with
  \<open>2^e \<le> |x| < 2^(e+1)\<close> is rounded to a multiple of \<open>2^(e-52)\<close> (of \<open>2^(-1074)\<close> below
  \<open>2^(-1022)\<close>, the subnormal range), and a rounded magnitude of \<open>2^1024\<close> is an infinity.
  Zeros carry no sign here. \<open>seq_sum\<close> adds an array from left to right, as \<open>np.sum\<close> does
  for an array of fewer than eight elements (longer arrays are added in blocks); the
  examples evaluated below have at most three studies.
\<close>

definition round_half_even :: "real \<Rightarrow> int" where
  "round_half_even x =
     (let f = \<lfloor>x\<rfloor>; d = x - of_int f in
      if d < 1/2 then f else if 1/2 < d then f + 1 else if even f then f else f + 1)"

definition b64 :: "real \<Rightarrow> npfloat" where
  "b64 x =
     (if x = 0 then Fin 0
      else
        let e = max \<lfloor>log 2 \<bar>x\<bar>\<rfloor> (- 1022);
            ulp = 2 powr of_int (e - 52);
            y = of_int (round_half_even (x / ulp)) * ulp in
        if 2 ^ 1024 \<le> \<bar>y\<bar> then (if 0 < x then PInf else NInf) else Fin y)"

definition seq_sum :: "(real \<Rightarrow> npfloat) \<Rightarrow> npfloat list \<Rightarrow> npfloat" where
  "seq_sum r xs = (case xs of [] \<Rightarrow> Fin 0 | x # rest \<Rightarrow> foldl (fl_add r) x rest)"

fun b64_exp :: "npfloat \<Rightarrow> npfloat" where
  "b64_exp (Fin x) = b64 (exp x)"
| "b64_exp a = np_exp a"

definition binary64 :: arith where
  "binary64 = \<lparr>rnd = b64, asum = seq_sum b64, aexp = b64_exp\<rparr>"

section \<open>Basic facts\<close>

lemma ebind_Inr [simp]: "ebind (Inr x) f = f x"
  by (simp add: ebind_def)

lemma ebind_Inl [simp]: "ebind (Inl e) f = Inl e"
  by (simp add: ebind_def)

lemma pdiv_zero [simp]: "pdiv x 0 = Inl ZeroDivisionError"
  by (simp add: pdiv_def)

lemma pdiv_nonzero [simp]: "y \<noteq> 0 \<Longrightarrow> pdiv x y = Inr (x / y)"
  by (simp add: pdiv_def)

lemma np_sub_Fin [simp]: "np_sub (Fin x) (Fin y) = Fin (x - y)"
  by (simp add: np_sub_def)

lemma np_sq_Fin [simp]: "np_sq (Fin x) = Fin (x\<^sup>2)"
  by (simp add: np_sq_def power2_eq_square)

lemma np_div_Fin: "y \<noteq> 0 \<Longrightarrow> np_div (Fin x) (Fin y) = Fin (x / y)"
  by simp

lemma np_sqrt_Fin: "0 \<le> x \<Longrightarrow> np_sqrt (Fin x) = Fin (sqrt x)"
  by simp

lemma py_div_Fin: "y \<noteq> 0 \<Longrightarrow> py_div (Fin x) (Fin y) = Inr (Fin (x / y))"
  by (simp add: py_div_def)

lemma py_max0_Fin: "py_max0 (Fin x) = Fin (max 0 x)"
  by (simp add: py_max0_def max_def)

lemma np_sum_Nil [simp]: "np_sum [] = Fin 0"
  by (simp add: np_sum_def)

lemma np_sum_Cons [simp]: "np_sum (x # xs) = np_add x (np_sum xs)"
  by (simp add: np_sum_def)

lemma np_bin_eq_len: "length xs = length ys \<Longrightarrow> np_bin f xs ys = Inr (map2 f xs ys)"
  by (simp add: np_bin_def)

section \<open>Zero-cell correction\<close>

lemma half_int: "of_int a + (1/2::real) \<noteq> of_int b"
proof
  assume "of_int a + (1/2::real) = of_int b"
  then have "(2::real) * of_int a + 1 = 2 * of_int b" by (simp add: field_simps)
  then have "(of_int (2 * a + 1) :: real) = of_int (2 * b)" by simp
  then have "2 * a + 1 = 2 * b" by (simp only: of_int_eq_iff)
  then show False by presburger
qed

lemma czc_no_zero:
  "e1 \<noteq> 0 \<Longrightarrow> e2 \<noteq> 0 \<Longrightarrow> e1 \<noteq> t1 \<Longrightarrow> e2 \<noteq> t2 \<Longrightarrow>
   correct_zero_cells e1 t1 e2 t2 = (e1, t1, e2, t2)"
  by (simp add: correct_zero_cells_def)

lemma czc_cases:
  "correct_zero_cells e1 t1 e2 t2 = (e1, t1, e2, t2) \<and> e1 \<noteq> 0 \<and> e2 \<noteq> 0 \<and> e1 \<noteq> t1 \<and> e2 \<noteq> t2
   \<or> correct_zero_cells e1 t1 e2 t2 = (e1 + 1/2, t1 + 1, e2 + 1/2, t2 + 1)"
  by (simp add: correct_zero_cells_def)

text \<open>On integer counts the correction is idempotent: a corrected event count ends in
  one half, so it is neither zero nor equal to the (integer) corrected total.\<close>

lemma correct_zero_cells_idem:
  assumes h: "correct_zero_cells (of_int e1) (of_int t1) (of_int e2) (of_int t2) = (a, b, c, d)"
  shows "correct_zero_cells a b c d = (a, b, c, d)"
proof -
  have n1: "real_of_int e1 + 1/2 \<noteq> 0" using half_int [of e1 0] by simp
  have n2: "real_of_int e2 + 1/2 \<noteq> 0" using half_int [of e2 0] by simp
  have n3: "real_of_int e1 + 1/2 \<noteq> of_int t1 + 1" using half_int [of e1 "t1 + 1"] by simp
  have n4: "real_of_int e2 + 1/2 \<noteq> of_int t2 + 1" using half_int [of e2 "t2 + 1"] by simp
  from czc_cases [of "of_int e1" "of_int t1" "of_int e2" "of_int t2"]
  show ?thesis
  proof (elim disjE conjE)
    assume "correct_zero_cells (of_int e1) (of_int t1) (of_int e2) (of_int t2)
            = (of_int e1, of_int t1, of_int e2, of_int t2)"
    with h show ?thesis by simp
  next
    assume "correct_zero_cells (of_int e1) (of_int t1) (of_int e2) (of_int t2)
            = (of_int e1 + 1/2, of_int t1 + 1, of_int e2 + 1/2, of_int t2 + 1)"
    with h have "a = of_int e1 + 1/2" "b = of_int t1 + 1" "c = of_int e2 + 1/2" "d = of_int t2 + 1"
      by simp_all
    with czc_no_zero [OF n1 n2 n3 n4] show ?thesis by simp
  qed
qed

text \<open>
  Claim C9. For the study \<open>events1 = 0, total1 = 20, events2 = 5, total2 = 22\<close> the
  correction gives the counts \<open>(0.5, 21, 5.5, 23)\<close>, hence the cells \<open>a = 0.5\<close> and
  \<open>b = 20.5\<close>; \<open>log_odds_ratio\<close> computes from exactly these cells; and applying the
  correction to the corrected counts again leaves them unchanged.
\<close>

theorem zero_cell_correction_once:
  "correct_zero_cells 0 20 5 22 = (1/2, 21, 11/2, 23)
   \<and> cells (correct_zero_cells 0 20 5 22) = (1/2, 41/2, 11/2, 35/2)
   \<and> log_odds_ratio 0 20 5 22 = or_of_cells (1/2, 41/2, 11/2, 35/2)
   \<and> correct_zero_cells (1/2) 21 (11/2) 23 = (1/2, 21, 11/2, 23)"
  by (simp add: correct_zero_cells_def log_odds_ratio_def)

section \<open>Zero denominators in the effect-size functions\<close>

lemma gs_log_odds_ratio_zero_cell:
  "e1 = 0 \<or> t1 - e1 = 0 \<or> e2 = 0 \<or> t2 - e2 = 0 \<Longrightarrow>
   gs_log_odds_ratio e1 t1 e2 t2 = Inl ZeroDivisionError"
  by (auto simp: gs_log_odds_ratio_def or_of_cells_def pdiv_def Let_def)

lemma hedges_g_small_df:
  assumes a: "0 \<le> n1" "0 \<le> n2" "n1 + n2 - 2 \<le> 0"
  shows "hedges_g m1 s1 n1 m2 s2 n2 = Inl ZeroDivisionError"
proof -
  have j: "real_of_int (4 * (n1 + n2 - 2) - 1) \<noteq> 0"
  proof -
    have "4 * (n1 + n2 - 2) - 1 \<noteq> 0" by presburger
    then show ?thesis by (simp only: of_int_eq_0_iff) simp
  qed
  from a consider "n1 + n2 - 2 = 0" | "n1 * n2 = 0" "n1 + n2 - 2 \<noteq> 0"
    by (cases "n1 = 0"; cases "n2 = 0"; simp; smt (verit))
  then show ?thesis
  proof cases
    case 1
    then show ?thesis by (simp add: hedges_g_def Let_def)
  next
    case 2
    have d: "real_of_int (n1 + n2 - 2) \<noteq> 0"
      using 2(2) by (simp only: of_int_eq_0_iff) simp
    have z: "real_of_int (n1 * n2) = 0"
      using 2(1) by (simp only: of_int_eq_0_iff)
    show ?thesis unfolding hedges_g_def Let_def
      by (simp only: pdiv_nonzero [OF d] pdiv_nonzero [OF j] z pdiv_zero ebind_Inr ebind_Inl)
  qed
qed

text \<open>
  Claim C2, as amended. A zero 2x2 cell makes \<open>log_odds_ratio\<close> of the gold-standard
  script raise \<open>ZeroDivisionError\<close>, and non-negative sample sizes with
  \<open>df = n1 + n2 - 2 \<le> 0\<close> make \<open>hedges_g\<close> raise \<open>ZeroDivisionError\<close>: in both cases
  the zero divisor is met by a Python division, so no value is returned.
\<close>

theorem effect_size_zero_division:
  "(e1 = 0 \<or> t1 - e1 = 0 \<or> e2 = 0 \<or> t2 - e2 = 0 \<longrightarrow>
      gs_log_odds_ratio e1 t1 e2 t2 = Inl ZeroDivisionError)
   \<and> (0 \<le> n1 \<and> 0 \<le> n2 \<and> n1 + n2 - 2 \<le> 0 \<longrightarrow>
      hedges_g m1 s1 n1 m2 s2 n2 = Inl ZeroDivisionError)"
  using gs_log_odds_ratio_zero_cell [of e1 t1 e2 t2] hedges_g_small_df [of n1 n2 m1 s1 m2 s2]
  by blast

theorem effect_size_zero_division_witness:
  "gs_log_odds_ratio 0 20 5 22 = Inl ZeroDivisionError
   \<and> hedges_g 1 1 1 0 1 1 = Inl ZeroDivisionError"
  using effect_size_zero_division [of 0 20 5 22 1 1 1 1 0 1] by simp

text \<open>
  The claim as stated fails where the zero divisor is met by a numpy division: two arms
  of five with standard deviation zero give the pooled standard deviation \<open>sp = 0\<close>
  with \<open>df = 8\<close>, and \<open>hedges_g\<close> returns infinities instead of raising.
\<close>

theorem hedges_g_zero_pooled_sd_returns_inf:
  "np_sqrt (Fin ((real_of_int (5 - 1) * 0\<^sup>2 + real_of_int (5 - 1) * 0\<^sup>2) / real_of_int (5 + 5 - 2))) = Fin 0
   \<and> hedges_g 1 0 5 0 0 5 = Inr (PInf, PInf)"
  by (simp add: hedges_g_def Let_def np_sq_def)

section \<open>A single study\<close>





lemma meta_analysis_single_finite:
  assumes "0 < v"
  shows "meta_analysis stats [Fin y] [Fin v] model
           = Inr \<lparr>ma_summary = Fin y, ma_se = Fin (sqrt v), ma_z = None, ma_pValue = None,
                  ma_heterogeneity = degenerate_het,
                  ma_weights_fe = [Fin 100], ma_weights_re = [Fin 100],
                  ma_fixed_summary = None, ma_fixed_se = None\<rparr>"
  using assms unfolding meta_analysis_def Let_def
  by (simp add: np_bin_def pct_def)



text \<open>
  Claim C7 fails for a single study: the dictionary that \<open>meta_analysis\<close> returns for
  \<open>k = 1\<close> has the fixed-effect \<open>summary\<close> and \<open>se\<close> only, without \<open>z\<close>, \<open>pValue\<close>,
  \<open>fixed_summary\<close> or \<open>fixed_se\<close>.
\<close>

theorem meta_analysis_single_study_without_z:
  "meta_analysis example_stats [Fin 0] [Fin 1] ''random''
     = Inr \<lparr>ma_summary = Fin 0, ma_se = Fin 1, ma_z = None, ma_pValue = None,
            ma_heterogeneity = degenerate_het,
            ma_weights_fe = [Fin 100], ma_weights_re = [Fin 100],
            ma_fixed_summary = None, ma_fixed_se = None\<rparr>"
  using meta_analysis_single_finite [of 1 example_stats 0 "''random''"] by simp

section \<open>Egger's regression on fewer than three studies\<close>

text \<open>
  Claim C8 fails as stated. With two studies Egger's regression raises nothing, but the
  result it returns is not a defined one: the fitted line passes through both points, so
  \<open>mse = sse / df_egger\<close> is \<open>0 / 0\<close>, and the standard error of the intercept, the
  t value and the p-value are \<open>nan\<close>.
\<close>

theorem eggers_test_two_studies_nan:
  "eggers_test example_stats [Fin 0, Fin 1] [Fin 1, Fin 2]
     = Inr \<lparr>eg_intercept = Fin 1, eg_se = NaN, eg_tValue = NaN, eg_pValue = NaN, eg_df = 0\<rparr>"
  unfolding eggers_test_def Let_def
  by (simp add: np_bin_def np_mean_def np_sub_def example_stats_def power2_eq_square)

section \<open>What the functions return in rounded arithmetic\<close>

text \<open>
  For arrays of equal length the three pooling functions are characterised by the named
  values: the gold-standard script always returns them, \<open>meta_analysis\<close> and
  \<open>meta_analysis_hr\<close> return them unless one of their Python divisions meets a zero.
\<close>

lemmas fl_names = fl_w_fe_def fl_sum_w_fe_def fl_summary_fe_def fl_se_fe_def fl_df_def fl_Q_def
  fl_C_def fl_tau2_def fl_I2_def fl_H2_def fl_het_def fl_w_re_def fl_sum_w_re_def
  fl_summary_re_def fl_se_re_def fl_summary_def fl_se_def

lemma fl_gold_standard_eq:
  assumes "length yi = length vi"
  shows "fl_gold_standard ar stats yi vi
     = Inr \<lparr>gs_summary_fe = fl_summary_fe ar yi vi, gs_se_fe = fl_se_fe ar vi,
            gs_heterogeneity = fl_het ar stats yi vi,
            gs_summary_re = fl_summary_re ar yi vi, gs_se_re = fl_se_re ar yi vi,
            gs_z_re = fl_div (rnd ar) (fl_summary_re ar yi vi) (fl_se_re ar yi vi),
            gs_p_re = fl_two_sided_p ar stats (fl_div (rnd ar) (fl_summary_re ar yi vi) (fl_se_re ar yi vi)),
            gs_weights_fe_pct = fl_pct ar (fl_w_fe ar vi) (fl_sum_w_fe ar vi),
            gs_weights_re_pct = fl_pct ar (fl_w_re ar yi vi) (fl_sum_w_re ar yi vi)\<rparr>"
  unfolding fl_gold_standard_def Let_def fl_names
  by (simp add: np_bin_eq_len assms)

lemma fl_meta_analysis_small:
  assumes "length yi = length vi" and "length yi \<le> 1"
  shows "fl_meta_analysis ar stats yi vi model
     = Inr \<lparr>ma_summary = fl_summary_fe ar yi vi, ma_se = fl_se_fe ar vi, ma_z = None, ma_pValue = None,
            ma_heterogeneity = degenerate_het,
            ma_weights_fe = fl_pct ar (fl_w_fe ar vi) (fl_sum_w_fe ar vi),
            ma_weights_re = fl_pct ar (fl_w_fe ar vi) (fl_sum_w_fe ar vi),
            ma_fixed_summary = None, ma_fixed_se = None\<rparr>"
  unfolding fl_meta_analysis_def Let_def fl_names
  using assms by (simp add: np_bin_eq_len)

lemma fl_meta_analysis_eq:
  assumes "length yi = length vi" and "2 \<le> length yi"
  shows "fl_meta_analysis ar stats yi vi model
     = (if fl_C ar vi = Fin 0 \<or> fl_se ar model yi vi = Fin 0 then Inl ZeroDivisionError
        else Inr \<lparr>ma_summary = fl_summary ar model yi vi, ma_se = fl_se ar model yi vi,
            ma_z = Some (fl_div (rnd ar) (fl_summary ar model yi vi) (fl_se ar model yi vi)),
            ma_pValue = Some (fl_two_sided_p ar stats
                               (fl_div (rnd ar) (fl_summary ar model yi vi) (fl_se ar model yi vi))),
            ma_heterogeneity = fl_het ar stats yi vi,
            ma_weights_fe = fl_pct ar (fl_w_fe ar vi) (fl_sum_w_fe ar vi),
            ma_weights_re = fl_pct ar (fl_w_re ar yi vi) (fl_sum_w_re ar yi vi),
            ma_fixed_summary = Some (fl_summary_fe ar yi vi), ma_fixed_se = Some (fl_se_fe ar vi)\<rparr>)"
  unfolding fl_meta_analysis_def Let_def fl_names fl_py_div_def
  using assms by (simp add: np_bin_eq_len)

lemma fl_meta_analysis_hr_pool_eq:
  assumes "length yi = length vi" and "2 \<le> length yi"
  shows "fl_meta_analysis_hr_pool ar stats yi vi model
     = (if fl_sum_w_fe ar vi = Fin 0 \<or> fl_C ar vi = Fin 0 \<or> fl_sum_w_re ar yi vi = Fin 0
           \<or> fl_se ar model yi vi = Fin 0 \<or> fl_se_fe ar vi = Fin 0 then Inl ZeroDivisionError
        else Inr \<lparr>hr_weight = fl_pct ar (fl_w_re ar yi vi) (fl_sum_w_re ar yi vi),
            hr_pooled = fl_mk_pooled ar (fl_summary ar model yi vi) (fl_se ar model yi vi)
               (fl_div (rnd ar) (fl_summary ar model yi vi) (fl_se ar model yi vi))
               (fl_two_sided_p ar stats (fl_div (rnd ar) (fl_summary ar model yi vi) (fl_se ar model yi vi))),
            hr_fixed = fl_mk_pooled ar (fl_summary_fe ar yi vi) (fl_se_fe ar vi)
               (fl_div (rnd ar) (fl_summary_fe ar yi vi) (fl_se_fe ar vi))
               (fl_two_sided_p ar stats (fl_div (rnd ar) (fl_summary_fe ar yi vi) (fl_se_fe ar vi))),
            hr_heterogeneity = fl_het ar stats yi vi\<rparr>)"
  unfolding fl_meta_analysis_hr_pool_def Let_def fl_names fl_py_div_def
  using assms by (simp add: np_bin_eq_len)

lemma map_index: "map f xs = map (\<lambda>i. f (xs ! i)) [0..<length xs]"
  by (rule nth_equalityI) simp_all

lemma map2_index:
  "length xs = length ys \<Longrightarrow> map2 f xs ys = map (\<lambda>i. f (xs ! i) (ys ! i)) [0..<length xs]"
  by (rule nth_equalityI) simp_all

lemma fl_w_fe_index: "fl_w_fe ar vi = map (fl_spec_w ar vi) [0..<length vi]"
  unfolding fl_w_fe_def fl_spec_w_def by (rule map_index)

lemma fl_sum_w_fe_spec: "length yi = length vi \<Longrightarrow> fl_sum_w_fe ar vi = fl_sigma ar (length yi) (fl_spec_w ar vi)"
  by (simp add: fl_sum_w_fe_def fl_sigma_def fl_w_fe_index)

lemma fl_summary_fe_spec:
  assumes "length yi = length vi"
  shows "fl_summary_fe ar yi vi = fl_spec_ybar ar yi vi"
proof -
  have "map2 (fl_mul (rnd ar)) (fl_w_fe ar vi) yi
          = map (\<lambda>i. fl_mul (rnd ar) (fl_spec_w ar vi i) (yi ! i)) [0..<length yi]"
    by (rule nth_equalityI) (simp_all add: assms fl_w_fe_def fl_spec_w_def)
  then show ?thesis
    by (simp add: fl_summary_fe_def fl_spec_ybar_def fl_sigma_def fl_sum_w_fe_spec [OF assms])
qed

lemma fl_Q_spec:
  assumes "length yi = length vi"
  shows "fl_Q ar yi vi = fl_spec_Q ar yi vi"
proof -
  have "map2 (fl_mul (rnd ar)) (fl_w_fe ar vi)
            (map (\<lambda>y. fl_sq ar (fl_sub (rnd ar) y (fl_summary_fe ar yi vi))) yi)
          = map (\<lambda>i. fl_mul (rnd ar) (fl_spec_w ar vi i)
                        (fl_sq ar (fl_sub (rnd ar) (yi ! i) (fl_spec_ybar ar yi vi)))) [0..<length yi]"
    by (rule nth_equalityI) (simp_all add: assms fl_w_fe_def fl_spec_w_def fl_summary_fe_spec [OF assms])
  then show ?thesis
    by (simp add: fl_Q_def fl_spec_Q_def fl_sigma_def)
qed

lemma fl_C_spec:
  assumes "length yi = length vi"
  shows "fl_C ar vi = fl_spec_C ar yi vi"
proof -
  have "map (fl_sq ar) (fl_w_fe ar vi) = map (\<lambda>i. fl_sq ar (fl_spec_w ar vi i)) [0..<length yi]"
    by (rule nth_equalityI) (simp_all add: assms fl_w_fe_def fl_spec_w_def)
  then show ?thesis
    by (simp add: fl_C_def fl_spec_C_def fl_sigma_def fl_sum_w_fe_spec [OF assms])
qed

lemma fl_het_spec:
  assumes "length yi = length vi" and "2 \<le> length yi"
  shows "fl_het ar stats yi vi = fl_spec_heterogeneity ar stats yi vi"
  using assms(2)
  by (simp add: fl_het_def fl_spec_heterogeneity_def fl_tau2_def fl_spec_tau2_def fl_I2_def
        fl_spec_I2_def fl_H2_def fl_spec_H2_def fl_df_def fl_spec_df_def
        fl_Q_spec [OF assms(1)] fl_C_spec [OF assms(1)])

lemma py_max0_nonneg: "np_nonneg (py_max0 a)"
  by (cases a) (simp_all add: py_max0_def)

lemma fl_tau2_nonneg: "np_nonneg (fl_tau2 ar yi vi)"
  by (simp add: fl_tau2_def py_max0_nonneg)

lemma fl_div_not_pos:
  assumes sign: "\<forall>x. x \<le> 0 \<longrightarrow> \<not> np_pos (r x)"
    and n: "\<not> np_pos n" and c: "np_pos c"
  shows "\<not> np_pos (fl_div r n c)"
proof (cases n)
  case (Fin z)
  then have z: "z \<le> 0" using n by simp
  show ?thesis
  proof (cases c)
    case (Fin y)
    then have y: "0 < y" using c by simp
    have "z / y \<le> 0" using z y by (simp add: divide_nonpos_pos)
    then show ?thesis using sign y Fin \<open>n = Fin z\<close> by simp
  qed (use c \<open>n = Fin z\<close> in simp_all)
next
  case PInf then show ?thesis using n by simp
next
  case NInf then show ?thesis using c by (cases c) simp_all
next
  case NaN then show ?thesis by simp
qed

lemma fl_sub_not_pos:
  assumes sign: "\<forall>x. x \<le> 0 \<longrightarrow> \<not> np_pos (r x)"
    and le: "np_le q (Fin d)"
  shows "\<not> np_pos (fl_sub r q (Fin d))"
  using assms by (cases q) (simp_all add: np_sub_def)

lemma fl_tau2_zero:
  assumes sign: "\<forall>x. x \<le> 0 \<longrightarrow> \<not> np_pos (rnd ar x)"
    and le: "np_le (fl_Q ar yi vi) (Fin (real_of_int (fl_df yi)))"
    and c: "np_pos (fl_C ar vi)"
  shows "fl_tau2 ar yi vi = Fin 0"
  using fl_div_not_pos [OF sign fl_sub_not_pos [OF sign le] c]
  by (simp add: fl_tau2_def py_max0_def)

lemma fl_het_sel [simp]:
  "het_Q (fl_het ar stats yi vi) = fl_Q ar yi vi"
  "het_df (fl_het ar stats yi vi) = fl_df yi"
  "het_tau2 (fl_het ar stats yi vi) = fl_tau2 ar yi vi"
  by (simp_all add: fl_het_def)

lemma fl_meta_analysis_het:
  assumes "length yi = length vi" and "fl_meta_analysis ar stats yi vi model = Inr a"
  shows "ma_heterogeneity a = (if 2 \<le> length yi then fl_het ar stats yi vi else degenerate_het)"
proof (cases "2 \<le> length yi")
  case True
  then show ?thesis
    using fl_meta_analysis_eq [OF assms(1) True, of ar stats model] assms(2)
    by (auto split: if_splits)
next
  case False
  then have "length yi \<le> 1" by simp
  from fl_meta_analysis_small [OF assms(1) this, of ar stats model] assms(2) False
  show ?thesis by auto
qed

lemma fl_div_zero_not_Fin: "\<not> is_Fin (fl_div r a (Fin 0))"
  by (cases a) simp_all

lemma fl_mul_not_Fin: "\<not> is_Fin a \<Longrightarrow> \<not> is_Fin (fl_mul r a b)"
  by (cases a; cases b) simp_all

lemma fl_sqrt_not_Fin: "\<not> is_Fin a \<Longrightarrow> \<not> is_Fin (fl_sqrt r a)"
  by (cases a) simp_all

lemma nan_absorbs:
  "np_add a NaN = NaN" "np_add NaN a = NaN" "np_sub a NaN = NaN" "np_sub NaN a = NaN"
  "fl_add r a NaN = NaN" "fl_add r NaN a = NaN"
  "fl_sub r a NaN = NaN" "fl_sub r NaN a = NaN" "fl_mul r a NaN = NaN" "fl_mul r NaN a = NaN"
  "fl_div r a NaN = NaN" "fl_div r NaN a = NaN" "fl_sqrt r NaN = NaN"
  by (cases a; simp add: np_sub_def)+

lemma fl_eggers_test_two:
  assumes "length yi = 2" and "length sei = 2"
  shows "\<exists>e. fl_eggers_test ar stats yi sei = Inr e \<and> eg_df e = 0 \<and> \<not> is_Fin (eg_se e)"
  unfolding fl_eggers_test_def Let_def
  using assms
  by (simp add: np_bin_eq_len fl_py_div_def fl_sqrt_not_Fin fl_mul_not_Fin fl_div_zero_not_Fin)

lemma fl_eggers_test_empty: "fl_eggers_test ar stats [] [] = Inl ZeroDivisionError"
  unfolding fl_eggers_test_def Let_def
  by (simp add: np_bin_eq_len fl_py_div_def)

text \<open>A value that rounding leaves alone: every result of a rounded division is one.\<close>

lemma fl_div_stable:
  assumes idem: "\<forall>x y. r x = Fin y \<longrightarrow> r y = Fin y" and zero: "r 0 = Fin 0"
    and "fl_div r a b = Fin x"
  shows "r x = Fin x"
proof (cases a)
  case (Fin p)
  show ?thesis
  proof (cases b)
    case (Fin q)
    show ?thesis
    proof (cases "q = 0")
      case True
      then show ?thesis using assms(3) \<open>a = Fin p\<close> \<open>b = Fin q\<close> by (simp split: if_splits)
    next
      case False
      then have "r (p / q) = Fin x" using assms(3) \<open>a = Fin p\<close> \<open>b = Fin q\<close> by simp
      then show ?thesis using idem by blast
    qed
  qed (use assms(3) zero \<open>a = Fin p\<close> in auto)
qed (use assms(3) in \<open>cases b; simp split: if_splits\<close>)+

lemma centred_single:
  assumes idem: "\<forall>x y. r x = Fin y \<longrightarrow> r y = Fin y" and zero: "r 0 = Fin 0"
    and stable: "\<And>x. v = Fin x \<Longrightarrow> r x = Fin x"
  shows "fl_div r v (Fin 1) = v" and "fl_sub r v v = Fin 0 \<or> fl_sub r v v = NaN"
  using stable zero by (cases v; simp add: np_sub_def)+

lemma fl_eggers_test_one:
  assumes one: "\<forall>a. asum ar [a] = a"
    and idem: "\<forall>x y. rnd ar x = Fin y \<longrightarrow> rnd ar y = Fin y" and zero: "rnd ar 0 = Fin 0"
  shows "\<exists>e. fl_eggers_test ar stats [y] [s] = Inr e \<and> eg_df e = - 1
            \<and> eg_se e = NaN \<and> eg_tValue e = NaN"
proof -
  define X where "X = fl_div (rnd ar) (Fin 1) s"
  define Y where "Y = fl_div (rnd ar) y s"
  have sX: "\<And>x. X = Fin x \<Longrightarrow> rnd ar x = Fin x"
    unfolding X_def using fl_div_stable [OF idem zero] by blast
  have sY: "\<And>x. Y = Fin x \<Longrightarrow> rnd ar x = Fin x"
    unfolding Y_def using fl_div_stable [OF idem zero] by blast
  have mX: "fl_div (rnd ar) X (Fin 1) = X" and dX: "fl_sub (rnd ar) X X = Fin 0 \<or> fl_sub (rnd ar) X X = NaN"
    using centred_single [OF idem zero sX] by blast+
  have mY: "fl_div (rnd ar) Y (Fin 1) = Y" and dY: "fl_sub (rnd ar) Y Y = Fin 0 \<or> fl_sub (rnd ar) Y Y = NaN"
    using centred_single [OF idem zero sY] by blast+
  define dx where "dx = fl_sub (rnd ar) X X"
  define dy where "dy = fl_sub (rnd ar) Y Y"
  have Sxx: "fl_sq ar dx = Fin 0 \<or> fl_sq ar dx = NaN"
    using dX zero by (auto simp: dx_def fl_sq_def)
  have Sxy: "fl_mul (rnd ar) dx dy = Fin 0 \<or> fl_mul (rnd ar) dx dy = NaN"
    using dX dY zero by (auto simp: dx_def dy_def)
  have slope: "fl_div (rnd ar) (fl_mul (rnd ar) dx dy) (fl_sq ar dx) = NaN"
    using Sxx Sxy by auto
  show ?thesis
    unfolding fl_eggers_test_def Let_def fl_mean_def
    using one slope
    by (simp add: np_bin_eq_len fl_py_div_def X_def [symmetric] Y_def [symmetric] mX mY
          dx_def [symmetric] dy_def [symmetric] fl_sq_def nan_absorbs)
qed

lemma np_add_commute: "np_add a b = np_add b a"
  by (cases a; cases b) simp_all

lemma fl_add_commute: "fl_add r a b = fl_add r b a"
  by (cases a; cases b) (simp_all add: add.commute)

lemma fl_het_swap:
  assumes two: "\<forall>a b. asum ar [a, b] = fl_add (rnd ar) a b"
  shows "fl_C ar [v2, v1] = fl_C ar [v1, v2]"
    and "fl_het ar stats [y2, y1] [v2, v1] = fl_het ar stats [y1, y2] [v1, v2]"
    and "fl_se ar model [y2, y1] [v2, v1] = fl_se ar model [y1, y2] [v1, v2]"
    and "fl_summary ar model [y2, y1] [v2, v1] = fl_summary ar model [y1, y2] [v1, v2]"
proof -
  have sw: "fl_sum_w_fe ar [v2, v1] = fl_sum_w_fe ar [v1, v2]"
    by (simp add: fl_sum_w_fe_def fl_w_fe_def two fl_add_commute)
  have sf: "fl_summary_fe ar [y2, y1] [v2, v1] = fl_summary_fe ar [y1, y2] [v1, v2]"
    by (simp add: fl_summary_fe_def sw) (simp add: fl_w_fe_def two fl_add_commute)
  have q: "fl_Q ar [y2, y1] [v2, v1] = fl_Q ar [y1, y2] [v1, v2]"
    by (simp add: fl_Q_def sf) (simp add: fl_w_fe_def two fl_add_commute)
  show c: "fl_C ar [v2, v1] = fl_C ar [v1, v2]"
    by (simp add: fl_C_def sw) (simp add: fl_w_fe_def two fl_add_commute)
  have d: "fl_df [y2, y1] = fl_df [y1, y2]" by (simp add: fl_df_def)
  have t: "fl_tau2 ar [y2, y1] [v2, v1] = fl_tau2 ar [y1, y2] [v1, v2]"
    by (simp add: fl_tau2_def q c d)
  show "fl_het ar stats [y2, y1] [v2, v1] = fl_het ar stats [y1, y2] [v1, v2]"
    by (simp add: fl_het_def fl_I2_def fl_H2_def q d t)
  have swr: "fl_sum_w_re ar [y2, y1] [v2, v1] = fl_sum_w_re ar [y1, y2] [v1, v2]"
    by (simp add: fl_sum_w_re_def fl_w_re_def t two fl_add_commute)
  have sr: "fl_summary_re ar [y2, y1] [v2, v1] = fl_summary_re ar [y1, y2] [v1, v2]"
    by (simp add: fl_summary_re_def swr) (simp add: fl_w_re_def t two fl_add_commute)
  show "fl_se ar model [y2, y1] [v2, v1] = fl_se ar model [y1, y2] [v1, v2]"
    by (simp add: fl_se_def fl_se_fe_def fl_se_re_def sw swr)
  show "fl_summary ar model [y2, y1] [v2, v1] = fl_summary ar model [y1, y2] [v1, v2]"
    by (simp add: fl_summary_def sf sr)
qed

text \<open>Without rounding these are the functions of the first part.\<close>

lemma exact_ops:
  "fl_add Fin = np_add" "fl_sub Fin = np_sub" "fl_mul Fin = np_mul" "fl_div Fin = np_div"
  "fl_sqrt Fin = np_sqrt"
proof -
  show "fl_add Fin = np_add" by (intro ext) (rename_tac a b, case_tac a; case_tac b; simp)
  show "fl_sub Fin = np_sub" by (intro ext) (rename_tac a b, case_tac a; case_tac b; simp)
  show "fl_mul Fin = np_mul" by (intro ext) (rename_tac a b, case_tac a; case_tac b; simp)
  show "fl_div Fin = np_div" by (intro ext) (rename_tac a b, case_tac a; case_tac b; simp)
  show "fl_sqrt Fin = np_sqrt" by (intro ext) (rename_tac a, case_tac a; simp)
qed

lemma exact_arith_sel: "rnd exact_arith = Fin" "asum exact_arith = np_sum" "aexp exact_arith = np_exp"
  by (simp_all add: exact_arith_def)

lemma exact_derived:
  "fl_sq exact_arith = np_sq" "fl_py_div exact_arith = py_div" "fl_pct exact_arith = pct"
  "fl_two_sided_p exact_arith = two_sided_p" "fl_mean exact_arith = np_mean"
  "fl_mk_pooled exact_arith = mk_pooled"
  by (intro ext; simp add: fl_sq_def np_sq_def fl_py_div_def py_div_def fl_pct_def pct_def
        fl_two_sided_p_def two_sided_p_def fl_mean_def np_mean_def fl_mk_pooled_def mk_pooled_def
        exact_arith_sel exact_ops)+

lemma exact_meta_analysis: "fl_meta_analysis exact_arith = meta_analysis"
  unfolding fl_meta_analysis_def meta_analysis_def exact_arith_sel exact_ops exact_derived
  by (rule refl)

lemma exact_meta_analysis_hr_pool: "fl_meta_analysis_hr_pool exact_arith = meta_analysis_hr_pool"
  unfolding fl_meta_analysis_hr_pool_def meta_analysis_hr_pool_def exact_arith_sel exact_ops exact_derived
  by (rule refl)

lemma py_div_as_pdiv: "ebind (py_div (Fin 1) (Fin x)) f = ebind (pdiv 1 x) (\<lambda>r. f (Fin r))"
  by (simp add: py_div_def pdiv_def)

lemma exact_eggers_test: "fl_eggers_test exact_arith = eggers_test"
  unfolding fl_eggers_test_def eggers_test_def exact_arith_sel exact_ops exact_derived py_div_as_pdiv
  by (rule refl)

section \<open>Rounding to binary64\<close>

text \<open>
  How \<open>b64\<close> is evaluated at a given real, and the properties of it that the statements
  below rely on: it never turns a non-positive number into a positive one, it leaves a
  rounded number unchanged, and it rounds nothing from \<open>2^(-1074)\<close> upwards to zero.
\<close>

lemma floor_log2_eq:
  assumes "2 powr of_int e \<le> \<bar>x\<bar>" and "\<bar>x\<bar> < 2 powr of_int (e + 1)"
  shows "\<lfloor>log 2 \<bar>x\<bar>\<rfloor> = e"
proof -
  have pos: "0 < \<bar>x\<bar>" using assms(1) by (smt (verit) powr_gt_zero)
  have "of_int e \<le> log 2 \<bar>x\<bar>"
    using assms(1) pos by (simp add: le_log_iff)
  moreover have "log 2 \<bar>x\<bar> < of_int e + 1"
    using assms(2) pos by (simp add: log_less_iff)
  ultimately show ?thesis by (simp add: floor_eq_iff)
qed

lemma b64_normal:
  fixes x u lo hi :: real
  assumes "- 1022 \<le> e" and "lo = 2 powr of_int e" and "hi = 2 powr of_int (e + 1)"
    and "u = 2 powr of_int (e - 52)"
    and "lo \<le> \<bar>x\<bar>" and "\<bar>x\<bar> < hi"
    and "round_half_even (x / u) = n"
    and "\<bar>of_int n * u\<bar> < 2 ^ 1024"
  shows "b64 x = Fin (of_int n * u)"
proof -
  have x0: "x \<noteq> 0" using assms(2,5) by (smt (verit) powr_gt_zero)
  have fl: "\<lfloor>log 2 \<bar>x\<bar>\<rfloor> = e" using floor_log2_eq [of e x] assms(2,3,5,6) by simp
  have m: "max e (- 1022) = e" using assms(1) by simp
  show ?thesis
    unfolding b64_def Let_def fl m assms(4) [symmetric] assms(7)
    using x0 assms(8) by (simp del: power_numeral)
qed

lemma b64_overflow:
  fixes x u lo hi :: real
  assumes "- 1022 \<le> e" and "lo = 2 powr of_int e" and "hi = 2 powr of_int (e + 1)"
    and "u = 2 powr of_int (e - 52)"
    and "lo \<le> x" and "x < hi"
    and "round_half_even (x / u) = n"
    and "2 ^ 1024 \<le> \<bar>of_int n * u\<bar>"
  shows "b64 x = PInf"
proof -
  have x0: "0 < x" using assms(2,5) by (smt (verit) powr_gt_zero)
  have fl: "\<lfloor>log 2 \<bar>x\<bar>\<rfloor> = e" using floor_log2_eq [of e x] assms(2,3,5,6) x0 by simp
  have m: "max e (- 1022) = e" using assms(1) by simp
  show ?thesis
    unfolding b64_def Let_def fl m assms(4) [symmetric] assms(7)
    using x0 assms(8) by (simp del: power_numeral)
qed

lemma b64_0: "b64 0 = Fin 0"
  by (simp add: b64_def)

lemmas b64_ev = round_half_even_def Let_def powr_numeral powr_neg_numeral

lemma rnd_binary64: "rnd binary64 = b64"
  by (simp add: binary64_def)

lemma asum_binary64: "asum binary64 = seq_sum b64"
  by (simp add: binary64_def)

lemma seq_sum_1: "seq_sum r [a] = a"
  by (simp add: seq_sum_def)

lemma seq_sum_2: "seq_sum r [a, b] = fl_add r a b"
  by (simp add: seq_sum_def)

lemma seq_sum_3: "seq_sum r [a, b, c] = fl_add r (fl_add r a b) c"
  by (simp add: seq_sum_def)

lemma fl_df_1: "fl_df [a] = 0"
  by (simp add: fl_df_def)

lemma fl_df_2: "fl_df [a, b] = 1"
  by (simp add: fl_df_def)

lemma fl_df_3: "fl_df [a, b, c] = 2"
  by (simp add: fl_df_def)

lemma chi2_example: "chi2_cdf example_stats (Fin x) d = Fin (1 / 2)"
  by (simp add: example_stats_def)

lemma chi2_example_nan: "chi2_cdf example_stats NaN d = NaN"
  by (simp add: example_stats_def)

lemma norm_example: "norm_cdf example_stats (np_abs (Fin x)) = Fin (1 / 2)"
  by (simp add: example_stats_def)

lemma len_2: "length [a, b] = length [c, d]"
  by simp

lemma len_3: "length [a, b, c] = length [d, e, f]"
  by simp

lemma two_le_2: "2 \<le> length [a, b]"
  by simp

lemma two_le_3: "2 \<le> length [a, b, c]"
  by simp

lemma random_is_not_fixed: "(''random'' = ''fixed'') = False"
  by simp

lemma len_1: "length [a] = length [b]"
  by simp

lemma le_one_1: "length [a] \<le> 1"
  by simp

lemma rhe_int: "round_half_even (of_int n) = n"
  by (simp add: round_half_even_def)

lemma rhe_close: "\<bar>of_int (round_half_even x) - x\<bar> \<le> 1 / 2"
  unfolding round_half_even_def Let_def by (auto; linarith)

lemma rhe_nonpos: "x \<le> 0 \<Longrightarrow> round_half_even x \<le> 0"
  using rhe_close [of x] by linarith

lemma rhe_nonneg: "0 \<le> x \<Longrightarrow> 0 \<le> round_half_even x"
  using rhe_close [of x] by linarith

lemma p2_pos: "0 < (2::real) powr a"
  by simp

lemma p2_add: "(2::real) powr of_int (a + b) = 2 powr of_int a * 2 powr of_int b"
  by (simp add: powr_add)

lemma p2_nat: "0 \<le> k \<Longrightarrow> (2::real) powr of_int k = of_int (2 ^ nat k)"
  by (simp add: powr_realpow [symmetric])

lemma b64_sign:
  assumes "x \<le> 0"
  shows "\<not> np_pos (b64 x)"
proof (cases "x = 0")
  case True
  then show ?thesis by (simp add: b64_def)
next
  case False
  then have neg: "x < 0" using assms by simp
  define u where "u = (2::real) powr of_int (max \<lfloor>log 2 \<bar>x\<bar>\<rfloor> (- 1022) - 52)"
  have u: "0 < u" by (simp add: u_def)
  have "x / u \<le> 0" using neg u by (simp add: divide_nonpos_pos)
  then have "round_half_even (x / u) \<le> 0" by (rule rhe_nonpos)
  then have "of_int (round_half_even (x / u)) * u \<le> 0"
    using u by (simp add: mult_nonpos_nonneg)
  then show ?thesis
    using neg False unfolding b64_def Let_def u_def [symmetric] by simp
qed

lemma abs_lt_next_power:
  assumes "x \<noteq> 0"
  shows "\<bar>x\<bar> < 2 powr of_int (max \<lfloor>log 2 \<bar>x\<bar>\<rfloor> (- 1022) + 1)"
proof -
  have pos: "0 < \<bar>x\<bar>" using assms by simp
  have "log 2 \<bar>x\<bar> < of_int (\<lfloor>log 2 \<bar>x\<bar>\<rfloor> + 1)" by linarith
  also have "\<dots> \<le> of_int (max \<lfloor>log 2 \<bar>x\<bar>\<rfloor> (- 1022) + 1)" by simp
  finally have "log 2 \<bar>x\<bar> < of_int (max \<lfloor>log 2 \<bar>x\<bar>\<rfloor> (- 1022) + 1)" .
  then show ?thesis using pos by (simp add: log_less_iff)
qed

lemma b64_grid:
  assumes "b64 x = Fin y"
  shows "\<exists>m::int. y = of_int m * 2 powr of_int (max \<lfloor>log 2 \<bar>y\<bar>\<rfloor> (- 1022) - 52)"
proof (cases "y = 0")
  case True
  then show ?thesis by (intro exI [of _ 0]) simp
next
  case y0: False
  then have x0: "x \<noteq> 0" using assms by (auto simp: b64_def)
  define e where "e = max \<lfloor>log 2 \<bar>x\<bar>\<rfloor> (- 1022)"
  define u where "u = (2::real) powr of_int (e - 52)"
  define n where "n = round_half_even (x / u)"
  have u: "0 < u" by (simp add: u_def)
  have y: "y = of_int n * u"
    using assms x0 unfolding b64_def Let_def e_def [symmetric] u_def [symmetric] n_def [symmetric]
    by (simp split: if_splits)
  have e_lo: "- 1022 \<le> e" by (simp add: e_def)
  have "\<bar>x\<bar> < 2 powr of_int (e + 1)" unfolding e_def by (rule abs_lt_next_power [OF x0])
  also have "\<dots> = 2 powr of_int 53 * u"
    unfolding u_def using p2_add [of 53 "e - 52"] by (simp add: algebra_simps)
  finally have "\<bar>x\<bar> / u < 2 powr of_int 53" using u by (simp add: divide_less_eq)
  then have xu: "\<bar>x / u\<bar> < 2 ^ 53" using u by (simp add: powr_numeral)
  have "\<bar>of_int n - x / u\<bar> \<le> 1 / 2" unfolding n_def by (rule rhe_close)
  then have "\<bar>real_of_int n\<bar> < 2 ^ 53 + 1" using xu by linarith
  then have "\<bar>n\<bar> < 2 ^ 53 + 1" by (simp add: of_int_abs [symmetric] del: of_int_abs)
  then have n_le: "\<bar>n\<bar> \<le> 2 ^ 53" by simp
  define e2 where "e2 = max \<lfloor>log 2 \<bar>y\<bar>\<rfloor> (- 1022)"
  have ypos: "0 < \<bar>y\<bar>" using y0 by simp
  have yabs: "\<bar>y\<bar> = of_int \<bar>n\<bar> * u" using u by (simp add: y abs_mult)
  show ?thesis
  proof (cases "\<bar>n\<bar> = 2 ^ 53")
    case True
    have "\<bar>y\<bar> = 2 powr of_int 53 * u" using yabs True by (simp add: powr_numeral)
    also have "\<dots> = 2 powr of_int (e + 1)"
      unfolding u_def using p2_add [of 53 "e - 52"] by (simp add: algebra_simps)
    finally have ye: "\<bar>y\<bar> = 2 powr of_int (e + 1)" .
    have "log 2 \<bar>y\<bar> = of_int (e + 1)" unfolding ye by simp
    then have "\<lfloor>log 2 \<bar>y\<bar>\<rfloor> = e + 1" by simp
    then have e2: "e2 = e + 1" using e_lo by (simp add: e2_def)
    have u2: "2 powr (of_int e2 - 52) = 2 * u"
      unfolding e2 u_def using p2_add [of 1 "e - 52"] by (simp add: algebra_simps)
    have "even \<bar>n\<bar>" unfolding True by simp
    then have "even n" by (simp only: dvd_abs_iff)
    then obtain m where m: "n = 2 * m" by (auto elim: evenE)
    have "y = of_int m * 2 powr of_int (e2 - 52)" by (simp add: y m u2)
    then show ?thesis unfolding e2_def by blast
  next
    case False
    then have "\<bar>n\<bar> < 2 ^ 53" using n_le by simp
    then have "real_of_int \<bar>n\<bar> < 2 ^ 53" by (metis of_int_less_iff of_int_numeral of_int_power)
    then have "\<bar>y\<bar> < 2 ^ 53 * u" using u by (simp add: yabs)
    also have "\<dots> = 2 powr of_int 53 * u" by (simp add: powr_numeral)
    also have "\<dots> = 2 powr of_int (e + 1)"
      unfolding u_def using p2_add [of 53 "e - 52"] by (simp add: algebra_simps)
    finally have "\<bar>y\<bar> < 2 powr of_int (e + 1)" .
    then have "log 2 \<bar>y\<bar> < of_int (e + 1)" using ypos by (simp add: log_less_iff)
    then have "\<lfloor>log 2 \<bar>y\<bar>\<rfloor> < e + 1" unfolding floor_less_iff by simp
    then have le: "e2 \<le> e" using e_lo by (simp add: e2_def)
    have "u = 2 powr of_int (e - e2) * 2 powr of_int (e2 - 52)"
      unfolding u_def using p2_add [of "e - e2" "e2 - 52"] by simp
    also have "(2::real) powr of_int (e - e2) = of_int (2 ^ nat (e - e2))"
      using le by (intro p2_nat) simp
    finally have "y = of_int (n * 2 ^ nat (e - e2)) * 2 powr of_int (e2 - 52)"
      by (simp add: y)
    then show ?thesis unfolding e2_def by blast
  qed
qed

lemma b64_idem:
  assumes "b64 x = Fin y"
  shows "b64 y = Fin y"
proof (cases "y = 0")
  case True
  then show ?thesis by (simp add: b64_def)
next
  case y0: False
  then have x0: "x \<noteq> 0" using assms by (auto simp: b64_def)
  have bound: "\<bar>y\<bar> < 2 ^ 1024"
    using assms x0 unfolding b64_def Let_def by (simp split: if_splits del: power_numeral)
  define u2 where "u2 = (2::real) powr of_int (max \<lfloor>log 2 \<bar>y\<bar>\<rfloor> (- 1022) - 52)"
  obtain m :: int where m: "y = of_int m * u2"
    using b64_grid [OF assms] unfolding u2_def by blast
  have u2: "u2 \<noteq> 0" by (simp add: u2_def)
  have "y / u2 = of_int m" using m u2 by simp
  then have "round_half_even (y / u2) = m" by (simp add: rhe_int)
  then show ?thesis
    using y0 bound m unfolding b64_def Let_def u2_def [symmetric]
    by (simp del: power_numeral)
qed

lemma b64_nonzero:
  assumes "2 powr (- 1074) \<le> x"
  shows "b64 x \<noteq> Fin 0"
proof -
  have xpos: "0 < x" using assms by (smt (verit) powr_gt_zero)
  define e where "e = max \<lfloor>log 2 \<bar>x\<bar>\<rfloor> (- 1022)"
  define u where "u = (2::real) powr of_int (e - 52)"
  define n where "n = round_half_even (x / u)"
  have u: "0 < u" by (simp add: u_def)
  have "u \<le> x"
  proof (cases "- 1022 \<le> \<lfloor>log 2 \<bar>x\<bar>\<rfloor>")
    case True
    then have e: "e = \<lfloor>log 2 x\<rfloor>" using xpos by (simp add: e_def)
    have "of_int e \<le> log 2 x" unfolding e by simp
    then have "2 powr of_int e \<le> x" using xpos by (simp add: le_log_iff)
    moreover have "u \<le> 2 powr of_int e" unfolding u_def by simp
    ultimately show ?thesis by simp
  next
    case False
    then have "e = - 1022" by (simp add: e_def)
    then have "u = 2 powr (- 1074)" by (simp add: u_def)
    then show ?thesis using assms by simp
  qed
  then have "1 \<le> x / u" using u by simp
  moreover have "\<bar>of_int n - x / u\<bar> \<le> 1 / 2" unfolding n_def by (rule rhe_close)
  ultimately have "1 / 2 \<le> real_of_int n" by linarith
  then have "1 \<le> n" by linarith
  then have "n \<noteq> 0" by simp
  then show ?thesis
    using xpos u unfolding b64_def Let_def e_def [symmetric] u_def [symmetric] n_def [symmetric]
    by (simp del: power_numeral)
qed

lemma fl_sqrt_b64_nonzero:
  assumes "1 / 2 ^ 1074 \<le> y" and "y \<le> 1"
  shows "fl_sqrt b64 (Fin y) \<noteq> Fin 0"
proof -
  have ypos: "0 < y" using assms(1) by (smt (verit) zero_less_power divide_pos_pos zero_less_one)
  have "y = sqrt y * sqrt y" using ypos by simp
  also have "\<dots> \<le> sqrt y * 1"
    using assms(2) ypos by (intro mult_left_mono) simp_all
  finally have "y \<le> sqrt y" by simp
  then have "2 powr (- 1074) \<le> sqrt y"
    using assms(1) by (simp add: powr_neg_numeral del: power_numeral)
  from b64_nonzero [OF this] show ?thesis using ypos by simp
qed

section \<open>Evaluations in binary64\<close>

text \<open>
  The operations and the named values at the inputs of the examples below, with
  \<open>example_stats\<close> in the place of \<open>scipy.stats\<close>. Every equation \<open>fl_op b64 a b = c\<close> is
  one rounded operation, proved from the definition of \<open>b64\<close>.
\<close>

lemma b64_op_1: "fl_div b64 (Fin 1) (Fin 2) = Fin (1 / 2)"
  using b64_normal [where e = "- 1" and x = "1 / 2" and u = "1 / 2 ^ 53" and n = "4503599627370496" and lo = "1 / 2 ^ 1" and hi = "2 ^ 0"]
  by (simp add: b64_ev b64_0)

lemma b64_op_2: "fl_add b64 (Fin (1 / 2)) (Fin (1 / 2)) = Fin 1"
  using b64_normal [where e = "0" and x = "1" and u = "1 / 2 ^ 52" and n = "4503599627370496" and lo = "2 ^ 0" and hi = "2 ^ 1"]
  by (simp add: b64_ev b64_0)

lemma b64_op_3: "fl_mul b64 (Fin (1 / 2)) (Fin 0) = Fin 0"
  by (simp add: b64_ev b64_0)

lemma b64_op_4: "fl_mul b64 (Fin (1 / 2)) (Fin 2) = Fin 1"
  using b64_normal [where e = "0" and x = "1" and u = "1 / 2 ^ 52" and n = "4503599627370496" and lo = "2 ^ 0" and hi = "2 ^ 1"]
  by (simp add: b64_ev b64_0)

lemma b64_op_5: "fl_add b64 (Fin 0) (Fin 1) = Fin 1"
  using b64_normal [where e = "0" and x = "1" and u = "1 / 2 ^ 52" and n = "4503599627370496" and lo = "2 ^ 0" and hi = "2 ^ 1"]
  by (simp add: b64_ev b64_0)

lemma b64_op_6: "fl_div b64 (Fin 1) (Fin 1) = Fin 1"
  using b64_normal [where e = "0" and x = "1" and u = "1 / 2 ^ 52" and n = "4503599627370496" and lo = "2 ^ 0" and hi = "2 ^ 1"]
  by (simp add: b64_ev b64_0)

lemma b64_op_7: "fl_sub b64 (Fin 0) (Fin 1) = Fin (- 1)"
  using b64_normal [where e = "0" and x = "- 1" and u = "1 / 2 ^ 52" and n = "- 4503599627370496" and lo = "2 ^ 0" and hi = "2 ^ 1"]
  by (simp add: b64_ev b64_0)

lemma b64_op_8: "fl_mul b64 (Fin (- 1)) (Fin (- 1)) = Fin 1"
  using b64_normal [where e = "0" and x = "1" and u = "1 / 2 ^ 52" and n = "4503599627370496" and lo = "2 ^ 0" and hi = "2 ^ 1"]
  by (simp add: b64_ev b64_0)

lemma b64_op_9: "fl_mul b64 (Fin (1 / 2)) (Fin 1) = Fin (1 / 2)"
  using b64_normal [where e = "- 1" and x = "1 / 2" and u = "1 / 2 ^ 53" and n = "4503599627370496" and lo = "1 / 2 ^ 1" and hi = "2 ^ 0"]
  by (simp add: b64_ev b64_0)

lemma b64_op_10: "fl_sub b64 (Fin 2) (Fin 1) = Fin 1"
  using b64_normal [where e = "0" and x = "1" and u = "1 / 2 ^ 52" and n = "4503599627370496" and lo = "2 ^ 0" and hi = "2 ^ 1"]
  by (simp add: b64_ev b64_0)

lemma b64_op_11: "fl_mul b64 (Fin 1) (Fin 1) = Fin 1"
  using b64_normal [where e = "0" and x = "1" and u = "1 / 2 ^ 52" and n = "4503599627370496" and lo = "2 ^ 0" and hi = "2 ^ 1"]
  by (simp add: b64_ev b64_0)

lemma b64_op_12: "fl_mul b64 (Fin (1 / 2)) (Fin (1 / 2)) = Fin (1 / 4)"
  using b64_normal [where e = "- 2" and x = "1 / 4" and u = "1 / 2 ^ 54" and n = "4503599627370496" and lo = "1 / 2 ^ 2" and hi = "1 / 2 ^ 1"]
  by (simp add: b64_ev b64_0)

lemma b64_op_13: "fl_add b64 (Fin (1 / 4)) (Fin (1 / 4)) = Fin (1 / 2)"
  using b64_normal [where e = "- 1" and x = "1 / 2" and u = "1 / 2 ^ 53" and n = "4503599627370496" and lo = "1 / 2 ^ 1" and hi = "2 ^ 0"]
  by (simp add: b64_ev b64_0)

lemma b64_op_14: "fl_div b64 (Fin (1 / 2)) (Fin 1) = Fin (1 / 2)"
  using b64_normal [where e = "- 1" and x = "1 / 2" and u = "1 / 2 ^ 53" and n = "4503599627370496" and lo = "1 / 2 ^ 1" and hi = "2 ^ 0"]
  by (simp add: b64_ev b64_0)

lemma b64_op_15: "fl_sub b64 (Fin 1) (Fin (1 / 2)) = Fin (1 / 2)"
  using b64_normal [where e = "- 1" and x = "1 / 2" and u = "1 / 2 ^ 53" and n = "4503599627370496" and lo = "1 / 2 ^ 1" and hi = "2 ^ 0"]
  by (simp add: b64_ev b64_0)

lemma b64_op_16: "fl_sub b64 (Fin 1) (Fin 1) = Fin 0"
  by (simp add: b64_ev b64_0)

lemma b64_op_17: "fl_div b64 (Fin 0) (Fin (1 / 2)) = Fin 0"
  by (simp add: b64_ev b64_0)

lemma b64_op_18: "py_max0 (Fin 0) = Fin 0"
  by (simp add: py_max0_def)

lemma b64_op_19: "fl_add b64 (Fin 2) (Fin 0) = Fin 2"
  using b64_normal [where e = "1" and x = "2" and u = "1 / 2 ^ 51" and n = "4503599627370496" and lo = "2 ^ 1" and hi = "2 ^ 2"]
  by (simp add: b64_ev b64_0)

lemma b64_op_20: "fl_sqrt b64 (Fin 1) = Fin 1"
  using b64_normal [where e = "0" and x = "1" and u = "1 / 2 ^ 52" and n = "4503599627370496" and lo = "2 ^ 0" and hi = "2 ^ 1"]
  by (simp add: b64_ev b64_0)

lemma b64_op_21: "np_pos (Fin 1) = True"
  by simp

lemma b64_op_22: "fl_div b64 (Fin 0) (Fin 1) = Fin 0"
  by (simp add: b64_ev b64_0)

lemma b64_op_23: "fl_mul b64 (Fin 0) (Fin 100) = Fin 0"
  by (simp add: b64_ev b64_0)

lemma b64_op_24: "fl_sqrt b64 (Fin 0) = Fin 0"
  by (simp add: b64_ev b64_0)

lemma b64_op_25: "fl_mul b64 (Fin (1 / 2)) (Fin 100) = Fin 50"
  using b64_normal [where e = "5" and x = "50" and u = "1 / 2 ^ 47" and n = "7036874417766400" and lo = "2 ^ 5" and hi = "2 ^ 6"]
  by (simp add: b64_ev b64_0)

lemma b64_op_26: "(Fin (1 / 2) = Fin 0) = False"
  by simp

lemma b64_op_27: "(Fin 1 = Fin 0) = False"
  by simp

lemma b64_op_28: "fl_mul b64 (Fin 2) (Fin (1 / 2)) = Fin 1"
  using b64_normal [where e = "0" and x = "1" and u = "1 / 2 ^ 52" and n = "4503599627370496" and lo = "2 ^ 0" and hi = "2 ^ 1"]
  by (simp add: b64_ev b64_0)

lemma b64_op_29: "fl_two_sided_p binary64 example_stats (Fin 1) = Fin 1"
  unfolding fl_two_sided_p_def rnd_binary64 norm_example
  by (simp only: b64_op_15 b64_op_28)

lemma b64_op_30: "fl_add b64 (Fin 1) (Fin 0) = Fin 1"
  using b64_normal [where e = "0" and x = "1" and u = "1 / 2 ^ 52" and n = "4503599627370496" and lo = "2 ^ 0" and hi = "2 ^ 1"]
  by (simp add: b64_ev b64_0)

lemma b64_op_31: "fl_div b64 (Fin 1) (Fin (1 / 1152921504606846976)) = Fin 1152921504606846976"
  using b64_normal [where e = "60" and x = "1152921504606846976" and u = "2 ^ 8" and n = "4503599627370496" and lo = "2 ^ 60" and hi = "2 ^ 61"]
  by (simp add: b64_ev b64_0)

lemma b64_op_32: "fl_add b64 (Fin 1) (Fin 1152921504606846976) = Fin 1152921504606846976"
  using b64_normal [where e = "60" and x = "1152921504606846977" and u = "2 ^ 8" and n = "4503599627370496" and lo = "2 ^ 60" and hi = "2 ^ 61"]
  by (simp add: b64_ev b64_0)

lemma b64_op_33: "fl_mul b64 (Fin 1) (Fin 0) = Fin 0"
  by (simp add: b64_ev b64_0)

lemma b64_op_34: "fl_mul b64 (Fin 1152921504606846976) (Fin 1) = Fin 1152921504606846976"
  using b64_normal [where e = "60" and x = "1152921504606846976" and u = "2 ^ 8" and n = "4503599627370496" and lo = "2 ^ 60" and hi = "2 ^ 61"]
  by (simp add: b64_ev b64_0)

lemma b64_op_35: "fl_add b64 (Fin 0) (Fin 1152921504606846976) = Fin 1152921504606846976"
  using b64_normal [where e = "60" and x = "1152921504606846976" and u = "2 ^ 8" and n = "4503599627370496" and lo = "2 ^ 60" and hi = "2 ^ 61"]
  by (simp add: b64_ev b64_0)

lemma b64_op_36: "fl_div b64 (Fin 1152921504606846976) (Fin 1152921504606846976) = Fin 1"
  using b64_normal [where e = "0" and x = "1" and u = "1 / 2 ^ 52" and n = "4503599627370496" and lo = "2 ^ 0" and hi = "2 ^ 1"]
  by (simp add: b64_ev b64_0)

lemma b64_op_37: "fl_mul b64 (Fin 0) (Fin 0) = Fin 0"
  by (simp add: b64_ev b64_0)

lemma b64_op_38: "fl_mul b64 (Fin 1152921504606846976) (Fin 0) = Fin 0"
  by (simp add: b64_ev b64_0)

lemma b64_op_39: "fl_mul b64 (Fin 1152921504606846976) (Fin 1152921504606846976) = Fin 1329227995784915872903807060280344576"
  using b64_normal [where e = "120" and x = "1329227995784915872903807060280344576" and u = "2 ^ 68" and n = "4503599627370496" and lo = "2 ^ 120" and hi = "2 ^ 121"]
  by (simp add: b64_ev b64_0)

lemma b64_op_40: "fl_add b64 (Fin 1) (Fin 1329227995784915872903807060280344576) = Fin 1329227995784915872903807060280344576"
  using b64_normal [where e = "120" and x = "1329227995784915872903807060280344577" and u = "2 ^ 68" and n = "4503599627370496" and lo = "2 ^ 120" and hi = "2 ^ 121"]
  by (simp add: b64_ev b64_0)

lemma b64_op_41: "fl_div b64 (Fin 1329227995784915872903807060280344576) (Fin 1152921504606846976) = Fin 1152921504606846976"
  using b64_normal [where e = "60" and x = "1152921504606846976" and u = "2 ^ 8" and n = "4503599627370496" and lo = "2 ^ 60" and hi = "2 ^ 61"]
  by (simp add: b64_ev b64_0)

lemma b64_op_42: "fl_sub b64 (Fin 1152921504606846976) (Fin 1152921504606846976) = Fin 0"
  by (simp add: b64_ev b64_0)

lemma b64_op_43: "fl_div b64 (Fin 0) (Fin 0) = NaN"
  by (simp add: b64_ev b64_0)

lemma b64_op_44: "py_max0 (NaN) = Fin 0"
  by (simp add: py_max0_def)

lemma b64_op_45: "fl_add b64 (Fin (1 / 1152921504606846976)) (Fin 0) = Fin (1 / 1152921504606846976)"
  using b64_normal [where e = "- 60" and x = "1 / 1152921504606846976" and u = "1 / 2 ^ 112" and n = "4503599627370496" and lo = "1 / 2 ^ 60" and hi = "1 / 2 ^ 59"]
  by (simp add: b64_ev b64_0)

lemma b64_op_46: "fl_div b64 (Fin 1) (Fin 1152921504606846976) = Fin (1 / 1152921504606846976)"
  using b64_normal [where e = "- 60" and x = "1 / 1152921504606846976" and u = "1 / 2 ^ 112" and n = "4503599627370496" and lo = "1 / 2 ^ 60" and hi = "1 / 2 ^ 59"]
  by (simp add: b64_ev b64_0)

lemma b64_op_47: "sqrt (1 / 1152921504606846976) = 1 / 1073741824"
  by (rule real_sqrt_unique) (simp_all add: power2_eq_square)

lemma b64_op_48: "fl_sqrt b64 (Fin (1 / 1152921504606846976)) = Fin (1 / 1073741824)"
  unfolding fl_sqrt.simps b64_op_47
  using b64_normal [where e = "- 30" and x = "1 / 1073741824" and u = "1 / 2 ^ 82" and n = "4503599627370496" and lo = "1 / 2 ^ 30" and hi = "1 / 2 ^ 29"]
  by (simp add: b64_ev b64_0)

lemma b64_op_49: "fl_mul b64 (Fin (1 / 1152921504606846976)) (Fin 100) = Fin (25 / 288230376151711744)"
  using b64_normal [where e = "- 54" and x = "25 / 288230376151711744" and u = "1 / 2 ^ 106" and n = "7036874417766400" and lo = "1 / 2 ^ 54" and hi = "1 / 2 ^ 53"]
  by (simp add: b64_ev b64_0)

lemma b64_op_50: "fl_mul b64 (Fin 1) (Fin 100) = Fin 100"
  using b64_normal [where e = "6" and x = "100" and u = "1 / 2 ^ 46" and n = "7036874417766400" and lo = "2 ^ 6" and hi = "2 ^ 7"]
  by (simp add: b64_ev b64_0)

lemma b64_op_51: "(Fin 0 = Fin 0) = True"
  by simp

lemma b64_op_52: "(Fin (1 / 1073741824) = Fin 0) = False"
  by simp

lemma b64_op_53: "fl_div b64 (Fin 1) (Fin (1 / 1073741824)) = Fin 1073741824"
  using b64_normal [where e = "30" and x = "1073741824" and u = "1 / 2 ^ 22" and n = "4503599627370496" and lo = "2 ^ 30" and hi = "2 ^ 31"]
  by (simp add: b64_ev b64_0)

lemma b64_op_54: "fl_two_sided_p binary64 example_stats (Fin 1073741824) = Fin 1"
  unfolding fl_two_sided_p_def rnd_binary64 norm_example
  by (simp only: b64_op_15 b64_op_28)

lemma b64_op_55: "(Fin 1152921504606846976 = Fin 0) = False"
  by simp

lemma b64_op_56: "fl_div b64 (Fin 1) (Fin (5 / 72057594037927936)) = Fin 14411518807585588"
  using b64_normal [where e = "53" and x = "72057594037927936 / 5" and u = "2 ^ 1" and n = "7205759403792794" and lo = "2 ^ 53" and hi = "2 ^ 54"]
  by (simp add: b64_ev b64_0)

lemma b64_op_57: "fl_add b64 (Fin 14411518807585588) (Fin 1) = Fin 14411518807585588"
  using b64_normal [where e = "53" and x = "14411518807585589" and u = "2 ^ 1" and n = "7205759403792794" and lo = "2 ^ 53" and hi = "2 ^ 54"]
  by (simp add: b64_ev b64_0)

lemma b64_op_58: "fl_mul b64 (Fin 14411518807585588) (Fin 0) = Fin 0"
  by (simp add: b64_ev b64_0)

lemma b64_op_59: "fl_add b64 (Fin 0) (Fin 0) = Fin 0"
  by (simp add: b64_ev b64_0)

lemma b64_op_60: "fl_div b64 (Fin 0) (Fin 14411518807585588) = Fin 0"
  by (simp add: b64_ev b64_0)

lemma b64_op_61: "fl_sub b64 (Fin 0) (Fin 0) = Fin 0"
  by (simp add: b64_ev b64_0)

lemma b64_op_62: "fl_mul b64 (Fin 14411518807585588) (Fin 14411518807585588) = Fin 207691874341393145493472514408448"
  using b64_normal [where e = "107" and x = "207691874341393128199649945305744" and u = "2 ^ 55" and n = "5764607523034236" and lo = "2 ^ 107" and hi = "2 ^ 108"]
  by (simp add: b64_ev b64_0)

lemma b64_op_63: "fl_add b64 (Fin 207691874341393145493472514408448) (Fin 1) = Fin 207691874341393145493472514408448"
  using b64_normal [where e = "107" and x = "207691874341393145493472514408449" and u = "2 ^ 55" and n = "5764607523034236" and lo = "2 ^ 107" and hi = "2 ^ 108"]
  by (simp add: b64_ev b64_0)

lemma b64_op_64: "fl_div b64 (Fin 207691874341393145493472514408448) (Fin 14411518807585588) = Fin 14411518807585590"
  using b64_normal [where e = "53" and x = "51922968585348286373368128602112 / 3602879701896397" and u = "2 ^ 1" and n = "7205759403792795" and lo = "2 ^ 53" and hi = "2 ^ 54"]
  by (simp add: b64_ev b64_0)

lemma b64_op_65: "fl_sub b64 (Fin 14411518807585588) (Fin 14411518807585590) = Fin (- 2)"
  using b64_normal [where e = "1" and x = "- 2" and u = "1 / 2 ^ 51" and n = "- 4503599627370496" and lo = "2 ^ 1" and hi = "2 ^ 2"]
  by (simp add: b64_ev b64_0)

lemma b64_op_66: "fl_div b64 (Fin (- 1)) (Fin (- 2)) = Fin (1 / 2)"
  using b64_normal [where e = "- 1" and x = "1 / 2" and u = "1 / 2 ^ 53" and n = "4503599627370496" and lo = "1 / 2 ^ 1" and hi = "2 ^ 0"]
  by (simp add: b64_ev b64_0)

lemma b64_op_67: "py_max0 (Fin (1 / 2)) = Fin (1 / 2)"
  by (simp add: py_max0_def)

lemma b64_op_68: "fl_add b64 (Fin (5 / 72057594037927936)) (Fin (1 / 2)) = Fin (4503599627370497 / 9007199254740992)"
  using b64_normal [where e = "- 1" and x = "36028797018963973 / 72057594037927936" and u = "1 / 2 ^ 53" and n = "4503599627370497" and lo = "1 / 2 ^ 1" and hi = "2 ^ 0"]
  by (simp add: b64_ev b64_0)

lemma b64_op_69: "fl_div b64 (Fin 1) (Fin (4503599627370497 / 9007199254740992)) = Fin (4503599627370495 / 2251799813685248)"
  using b64_normal [where e = "0" and x = "9007199254740992 / 4503599627370497" and u = "1 / 2 ^ 52" and n = "9007199254740990" and lo = "2 ^ 0" and hi = "2 ^ 1"]
  by (simp add: b64_ev b64_0)

lemma b64_op_70: "fl_add b64 (Fin 1) (Fin (1 / 2)) = Fin (3 / 2)"
  using b64_normal [where e = "0" and x = "3 / 2" and u = "1 / 2 ^ 52" and n = "6755399441055744" and lo = "2 ^ 0" and hi = "2 ^ 1"]
  by (simp add: b64_ev b64_0)

lemma b64_op_71: "fl_div b64 (Fin 1) (Fin (3 / 2)) = Fin (6004799503160661 / 9007199254740992)"
  using b64_normal [where e = "- 1" and x = "2 / 3" and u = "1 / 2 ^ 53" and n = "6004799503160661" and lo = "1 / 2 ^ 1" and hi = "2 ^ 0"]
  by (simp add: b64_ev b64_0)

lemma b64_op_72: "fl_add b64 (Fin (4503599627370495 / 2251799813685248)) (Fin (6004799503160661 / 9007199254740992)) = Fin (1501199875790165 / 562949953421312)"
  using b64_normal [where e = "1" and x = "24019198012642641 / 9007199254740992" and u = "1 / 2 ^ 51" and n = "6004799503160660" and lo = "2 ^ 1" and hi = "2 ^ 2"]
  by (simp add: b64_ev b64_0)

lemma b64_op_73: "fl_mul b64 (Fin (4503599627370495 / 2251799813685248)) (Fin 0) = Fin 0"
  by (simp add: b64_ev b64_0)

lemma b64_op_74: "fl_mul b64 (Fin (6004799503160661 / 9007199254740992)) (Fin 0) = Fin 0"
  by (simp add: b64_ev b64_0)

lemma b64_op_75: "fl_div b64 (Fin 0) (Fin (1501199875790165 / 562949953421312)) = Fin 0"
  by (simp add: b64_ev b64_0)

lemma b64_op_76: "fl_div b64 (Fin 1) (Fin (1501199875790165 / 562949953421312)) = Fin (3377699720527873 / 9007199254740992)"
  using b64_normal [where e = "- 2" and x = "562949953421312 / 1501199875790165" and u = "1 / 2 ^ 54" and n = "6755399441055746" and lo = "1 / 2 ^ 2" and hi = "1 / 2 ^ 1"]
  by (simp add: b64_ev b64_0)

lemma b64_op_77: "fl_div b64 (Fin 1) (Fin (1 / 9007199254740992)) = Fin 9007199254740992"
  using b64_normal [where e = "53" and x = "9007199254740992" and u = "2 ^ 1" and n = "4503599627370496" and lo = "2 ^ 53" and hi = "2 ^ 54"]
  by (simp add: b64_ev b64_0)

lemma b64_op_78: "fl_add b64 (Fin 9007199254740992) (Fin 1) = Fin 9007199254740992"
  using b64_normal [where e = "53" and x = "9007199254740993" and u = "2 ^ 1" and n = "4503599627370496" and lo = "2 ^ 53" and hi = "2 ^ 54"]
  by (simp add: b64_ev b64_0)

lemma b64_op_79: "fl_mul b64 (Fin 9007199254740992) (Fin 0) = Fin 0"
  by (simp add: b64_ev b64_0)

lemma b64_op_80: "fl_div b64 (Fin 0) (Fin 9007199254740992) = Fin 0"
  by (simp add: b64_ev b64_0)

lemma b64_op_81: "fl_mul b64 (Fin 9007199254740992) (Fin 9007199254740992) = Fin 81129638414606681695789005144064"
  using b64_normal [where e = "106" and x = "81129638414606681695789005144064" and u = "2 ^ 54" and n = "4503599627370496" and lo = "2 ^ 106" and hi = "2 ^ 107"]
  by (simp add: b64_ev b64_0)

lemma b64_op_82: "fl_add b64 (Fin 81129638414606681695789005144064) (Fin 1) = Fin 81129638414606681695789005144064"
  using b64_normal [where e = "106" and x = "81129638414606681695789005144065" and u = "2 ^ 54" and n = "4503599627370496" and lo = "2 ^ 106" and hi = "2 ^ 107"]
  by (simp add: b64_ev b64_0)

lemma b64_op_83: "fl_div b64 (Fin 81129638414606681695789005144064) (Fin 9007199254740992) = Fin 9007199254740992"
  using b64_normal [where e = "53" and x = "9007199254740992" and u = "2 ^ 1" and n = "4503599627370496" and lo = "2 ^ 53" and hi = "2 ^ 54"]
  by (simp add: b64_ev b64_0)

lemma b64_op_84: "fl_sub b64 (Fin 9007199254740992) (Fin 9007199254740992) = Fin 0"
  by (simp add: b64_ev b64_0)

lemma b64_op_85: "fl_add b64 (Fin 1) (Fin 1) = Fin 2"
  using b64_normal [where e = "1" and x = "2" and u = "1 / 2 ^ 51" and n = "4503599627370496" and lo = "2 ^ 1" and hi = "2 ^ 2"]
  by (simp add: b64_ev b64_0)

lemma b64_op_86: "fl_add b64 (Fin 2) (Fin 9007199254740992) = Fin 9007199254740994"
  using b64_normal [where e = "53" and x = "9007199254740994" and u = "2 ^ 1" and n = "4503599627370497" and lo = "2 ^ 53" and hi = "2 ^ 54"]
  by (simp add: b64_ev b64_0)

lemma b64_op_87: "fl_div b64 (Fin 0) (Fin 9007199254740994) = Fin 0"
  by (simp add: b64_ev b64_0)

lemma b64_op_88: "fl_add b64 (Fin 2) (Fin 81129638414606681695789005144064) = Fin 81129638414606681695789005144064"
  using b64_normal [where e = "106" and x = "81129638414606681695789005144066" and u = "2 ^ 54" and n = "4503599627370496" and lo = "2 ^ 106" and hi = "2 ^ 107"]
  by (simp add: b64_ev b64_0)

lemma b64_op_89: "fl_div b64 (Fin 81129638414606681695789005144064) (Fin 9007199254740994) = Fin 9007199254740990"
  using b64_normal [where e = "52" and x = "40564819207303340847894502572032 / 4503599627370497" and u = "2 ^ 0" and n = "9007199254740990" and lo = "2 ^ 52" and hi = "2 ^ 53"]
  by (simp add: b64_ev b64_0)

lemma b64_op_90: "fl_sub b64 (Fin 9007199254740994) (Fin 9007199254740990) = Fin 4"
  using b64_normal [where e = "2" and x = "4" and u = "1 / 2 ^ 50" and n = "4503599627370496" and lo = "2 ^ 2" and hi = "2 ^ 3"]
  by (simp add: b64_ev b64_0)

lemma b64_op_91: "fl_sub b64 (Fin 0) (Fin 2) = Fin (- 2)"
  using b64_normal [where e = "1" and x = "- 2" and u = "1 / 2 ^ 51" and n = "- 4503599627370496" and lo = "2 ^ 1" and hi = "2 ^ 2"]
  by (simp add: b64_ev b64_0)

lemma b64_op_92: "fl_div b64 (Fin (- 2)) (Fin 4) = Fin (- (1 / 2))"
  using b64_normal [where e = "- 1" and x = "- (1 / 2)" and u = "1 / 2 ^ 53" and n = "- 4503599627370496" and lo = "1 / 2 ^ 1" and hi = "2 ^ 0"]
  by (simp add: b64_ev b64_0)

lemma b64_op_93: "py_max0 (Fin (- (1 / 2))) = Fin 0"
  by (simp add: py_max0_def)

lemma b64_op_94: "fl_add b64 (Fin (1 / 9007199254740992)) (Fin 0) = Fin (1 / 9007199254740992)"
  using b64_normal [where e = "- 53" and x = "1 / 9007199254740992" and u = "1 / 2 ^ 105" and n = "4503599627370496" and lo = "1 / 2 ^ 53" and hi = "1 / 2 ^ 52"]
  by (simp add: b64_ev b64_0)

lemma b64_op_95: "fl_div b64 (Fin 1) (Fin 9007199254740994) = Fin (4503599627370495 / 40564819207303340847894502572032)"
  using b64_normal [where e = "- 54" and x = "1 / 9007199254740994" and u = "1 / 2 ^ 106" and n = "9007199254740990" and lo = "1 / 2 ^ 54" and hi = "1 / 2 ^ 53"]
  by (simp add: b64_ev b64_0)

lemma b64_op_96: "fl_div b64 (Fin 1) (Fin (1 / 11505236063118821809467553221049758295155052665230762065499525194094891251552061640493342548634082305351687288311769174890162545204122663839542235560926343960177145179191391057683342054479750023644997308933440369205641643669917624414330439074612943178454432683813523087356623740062701843509462805095950344781824)) = PInf"
  using b64_overflow [where e = "1030" and x = "11505236063118821809467553221049758295155052665230762065499525194094891251552061640493342548634082305351687288311769174890162545204122663839542235560926343960177145179191391057683342054479750023644997308933440369205641643669917624414330439074612943178454432683813523087356623740062701843509462805095950344781824" and u = "2 ^ 978" and n = "4503599627370496" and lo = "2 ^ 1030" and hi = "2 ^ 1031"]
  by (simp add: b64_ev b64_0)

lemma b64_op_97: "fl_mul b64 (PInf) (Fin 1) = PInf"
  by (simp add: b64_ev b64_0)

lemma b64_op_98: "fl_div b64 (PInf) (PInf) = NaN"
  by (simp add: b64_ev b64_0)

lemma b64_op_99: "fl_div b64 (Fin 1) (PInf) = Fin 0"
  by (simp add: b64_ev b64_0)

lemma b64_op_100: "fl_mul b64 (NaN) (Fin 100) = NaN"
  by (simp add: b64_ev b64_0)

lemma ex_ret_w_fe: "fl_w_fe binary64 [Fin 2, Fin 2] = [Fin (1 / 2), Fin (1 / 2)]"
  by (simp only: fl_w_fe_def rnd_binary64 asum_binary64 seq_sum_1 seq_sum_2 seq_sum_3 list.map zip_Cons_Cons zip_Nil prod.case fl_sq_def b64_op_1)

lemma ex_ret_sum_w_fe: "fl_sum_w_fe binary64 [Fin 2, Fin 2] = Fin 1"
  by (simp only: fl_sum_w_fe_def ex_ret_w_fe rnd_binary64 asum_binary64 seq_sum_1 seq_sum_2 seq_sum_3 list.map zip_Cons_Cons zip_Nil prod.case fl_sq_def b64_op_2)

lemma ex_ret_summary_fe: "fl_summary_fe binary64 [Fin 0, Fin 2] [Fin 2, Fin 2] = Fin 1"
  by (simp only: fl_summary_fe_def ex_ret_w_fe ex_ret_sum_w_fe rnd_binary64 asum_binary64 seq_sum_1 seq_sum_2 seq_sum_3 list.map zip_Cons_Cons zip_Nil prod.case fl_sq_def b64_op_3 b64_op_4 b64_op_5 b64_op_6)

lemma ex_ret_Q: "fl_Q binary64 [Fin 0, Fin 2] [Fin 2, Fin 2] = Fin 1"
  by (simp only: fl_Q_def ex_ret_w_fe ex_ret_summary_fe rnd_binary64 asum_binary64 seq_sum_1 seq_sum_2 seq_sum_3 list.map zip_Cons_Cons zip_Nil prod.case fl_sq_def b64_op_7 b64_op_8 b64_op_9 b64_op_10 b64_op_11 b64_op_2)

lemma ex_ret_C: "fl_C binary64 [Fin 2, Fin 2] = Fin (1 / 2)"
  by (simp only: fl_C_def ex_ret_w_fe ex_ret_sum_w_fe rnd_binary64 asum_binary64 seq_sum_1 seq_sum_2 seq_sum_3 list.map zip_Cons_Cons zip_Nil prod.case fl_sq_def b64_op_12 b64_op_13 b64_op_14 b64_op_15)

lemma ex_ret_tau2: "fl_tau2 binary64 [Fin 0, Fin 2] [Fin 2, Fin 2] = Fin 0"
  by (simp only: fl_tau2_def ex_ret_Q ex_ret_C fl_df_2 of_int_numeral of_int_1 of_int_0 rnd_binary64 asum_binary64 seq_sum_1 seq_sum_2 seq_sum_3 list.map zip_Cons_Cons zip_Nil prod.case fl_sq_def b64_op_16 b64_op_17 b64_op_18)

lemma ex_ret_w_re: "fl_w_re binary64 [Fin 0, Fin 2] [Fin 2, Fin 2] = [Fin (1 / 2), Fin (1 / 2)]"
  by (simp only: fl_w_re_def ex_ret_tau2 rnd_binary64 asum_binary64 seq_sum_1 seq_sum_2 seq_sum_3 list.map zip_Cons_Cons zip_Nil prod.case fl_sq_def b64_op_19 b64_op_1)

lemma ex_ret_sum_w_re: "fl_sum_w_re binary64 [Fin 0, Fin 2] [Fin 2, Fin 2] = Fin 1"
  by (simp only: fl_sum_w_re_def ex_ret_w_re rnd_binary64 asum_binary64 seq_sum_1 seq_sum_2 seq_sum_3 list.map zip_Cons_Cons zip_Nil prod.case fl_sq_def b64_op_2)

lemma ex_ret_summary_re: "fl_summary_re binary64 [Fin 0, Fin 2] [Fin 2, Fin 2] = Fin 1"
  by (simp only: fl_summary_re_def ex_ret_w_re ex_ret_sum_w_re rnd_binary64 asum_binary64 seq_sum_1 seq_sum_2 seq_sum_3 list.map zip_Cons_Cons zip_Nil prod.case fl_sq_def b64_op_3 b64_op_4 b64_op_5 b64_op_6)

lemma ex_ret_se_fe: "fl_se_fe binary64 [Fin 2, Fin 2] = Fin 1"
  by (simp only: fl_se_fe_def ex_ret_sum_w_fe rnd_binary64 asum_binary64 seq_sum_1 seq_sum_2 seq_sum_3 list.map zip_Cons_Cons zip_Nil prod.case fl_sq_def b64_op_6 b64_op_20)

lemma ex_ret_I2: "fl_I2 binary64 [Fin 0, Fin 2] [Fin 2, Fin 2] = Fin 0"
  by (simp only: fl_I2_def ex_ret_Q if_True if_False fl_df_2 of_int_numeral of_int_1 of_int_0 rnd_binary64 asum_binary64 seq_sum_1 seq_sum_2 seq_sum_3 list.map zip_Cons_Cons zip_Nil prod.case fl_sq_def b64_op_21 b64_op_16 b64_op_22 b64_op_23 b64_op_18)

lemma ex_ret_H2: "fl_H2 binary64 [Fin 0, Fin 2] [Fin 2, Fin 2] = Fin 1"
  by (simp only: fl_H2_def ex_ret_Q if_True if_False zero_less_one zero_less_numeral less_irrefl fl_df_2 of_int_numeral of_int_1 of_int_0 rnd_binary64 asum_binary64 seq_sum_1 seq_sum_2 seq_sum_3 list.map zip_Cons_Cons zip_Nil prod.case fl_sq_def b64_op_6)

lemma ex_ret_het: "fl_het binary64 example_stats [Fin 0, Fin 2] [Fin 2, Fin 2] = \<lparr>het_Q = Fin 1, het_df = 1, het_pValue = Fin (1 / 2), het_I2 = Fin 0, het_tau2 = Fin 0, het_tau = Fin 0, het_H2 = Fin 1\<rparr>"
  by (simp only: fl_het_def ex_ret_Q ex_ret_I2 ex_ret_H2 ex_ret_tau2 chi2_example chi2_example_nan fl_df_2 rnd_binary64 asum_binary64 seq_sum_1 seq_sum_2 seq_sum_3 list.map zip_Cons_Cons zip_Nil prod.case fl_sq_def b64_op_15 b64_op_24)

lemma ex_ret_se_re: "fl_se_re binary64 [Fin 0, Fin 2] [Fin 2, Fin 2] = Fin 1"
  by (simp only: fl_se_re_def ex_ret_sum_w_re rnd_binary64 asum_binary64 seq_sum_1 seq_sum_2 seq_sum_3 list.map zip_Cons_Cons zip_Nil prod.case fl_sq_def b64_op_6 b64_op_20)

lemma ex_ret_pct_fe: "fl_pct binary64 [Fin (1 / 2), Fin (1 / 2)] (Fin 1) = [Fin 50, Fin 50]"
  by (simp only: fl_pct_def rnd_binary64 asum_binary64 seq_sum_1 seq_sum_2 seq_sum_3 list.map zip_Cons_Cons zip_Nil prod.case fl_sq_def b64_op_14 b64_op_25)

lemma ex_ret_pct_re: "fl_pct binary64 [Fin (1 / 2), Fin (1 / 2)] (Fin 1) = [Fin 50, Fin 50]"
  by (simp only: fl_pct_def rnd_binary64 asum_binary64 seq_sum_1 seq_sum_2 seq_sum_3 list.map zip_Cons_Cons zip_Nil prod.case fl_sq_def b64_op_14 b64_op_25)

lemma ex_ret_summary_random: "fl_summary binary64 ''random'' [Fin 0, Fin 2] [Fin 2, Fin 2] = Fin 1"
  by (simp add: fl_summary_def ex_ret_summary_fe ex_ret_summary_re)

lemma ex_ret_se_random: "fl_se binary64 ''random'' [Fin 0, Fin 2] [Fin 2, Fin 2] = Fin 1"
  by (simp add: fl_se_def ex_ret_se_fe ex_ret_se_re)

lemma ex_ret_meta_random: "fl_meta_analysis binary64 example_stats [Fin 0, Fin 2] [Fin 2, Fin 2] ''random'' = Inr \<lparr>ma_summary = Fin 1, ma_se = Fin 1, ma_z = Some (Fin 1), ma_pValue = Some (Fin 1),
            ma_heterogeneity = \<lparr>het_Q = Fin 1, het_df = 1, het_pValue = Fin (1 / 2), het_I2 = Fin 0, het_tau2 = Fin 0, het_tau = Fin 0, het_H2 = Fin 1\<rparr>,
            ma_weights_fe = [Fin 50, Fin 50], ma_weights_re = [Fin 50, Fin 50],
            ma_fixed_summary = Some (Fin 1), ma_fixed_se = Some (Fin 1)\<rparr>"
  by (simp only: fl_meta_analysis_eq [OF len_2 two_le_2] rnd_binary64 if_True if_False simp_thms ex_ret_summary_fe ex_ret_se_fe ex_ret_summary_re ex_ret_se_re ex_ret_het ex_ret_pct_fe ex_ret_pct_re ex_ret_C ex_ret_sum_w_fe ex_ret_sum_w_re ex_ret_w_fe ex_ret_w_re ex_ret_summary_random ex_ret_se_random b64_op_26 b64_op_27 b64_op_6 b64_op_29)

lemma ex_ret_gold: "fl_gold_standard binary64 example_stats [Fin 0, Fin 2] [Fin 2, Fin 2] = Inr \<lparr>gs_summary_fe = Fin 1, gs_se_fe = Fin 1,
            gs_heterogeneity = \<lparr>het_Q = Fin 1, het_df = 1, het_pValue = Fin (1 / 2), het_I2 = Fin 0, het_tau2 = Fin 0, het_tau = Fin 0, het_H2 = Fin 1\<rparr>,
            gs_summary_re = Fin 1, gs_se_re = Fin 1, gs_z_re = Fin 1, gs_p_re = Fin 1,
            gs_weights_fe_pct = [Fin 50, Fin 50], gs_weights_re_pct = [Fin 50, Fin 50]\<rparr>"
  by (simp only: fl_gold_standard_eq [OF len_2] rnd_binary64 if_True if_False simp_thms ex_ret_summary_fe ex_ret_se_fe ex_ret_summary_re ex_ret_se_re ex_ret_het ex_ret_pct_fe ex_ret_pct_re ex_ret_C ex_ret_sum_w_fe ex_ret_sum_w_re ex_ret_w_fe ex_ret_w_re ex_ret_summary_random ex_ret_se_random b64_op_6 b64_op_29)

lemma ex_ret_hr_random: "fl_meta_analysis_hr_pool binary64 example_stats [Fin 0, Fin 2] [Fin 2, Fin 2] ''random'' = Inr \<lparr>hr_weight = [Fin 50, Fin 50],
            hr_pooled = fl_mk_pooled binary64 (Fin 1) (Fin 1) (Fin 1) (Fin 1),
            hr_fixed = fl_mk_pooled binary64 (Fin 1) (Fin 1) (Fin 1) (Fin 1),
            hr_heterogeneity = \<lparr>het_Q = Fin 1, het_df = 1, het_pValue = Fin (1 / 2), het_I2 = Fin 0, het_tau2 = Fin 0, het_tau = Fin 0, het_H2 = Fin 1\<rparr>\<rparr>"
  by (simp only: fl_meta_analysis_hr_pool_eq [OF len_2 two_le_2] rnd_binary64 if_True if_False simp_thms ex_ret_summary_fe ex_ret_se_fe ex_ret_summary_re ex_ret_se_re ex_ret_het ex_ret_pct_fe ex_ret_pct_re ex_ret_C ex_ret_sum_w_fe ex_ret_sum_w_re ex_ret_w_fe ex_ret_w_re ex_ret_summary_random ex_ret_se_random b64_op_27 b64_op_26 b64_op_6 b64_op_29)

lemma ex_swapped_w_fe: "fl_w_fe binary64 [Fin 2, Fin 2] = [Fin (1 / 2), Fin (1 / 2)]"
  by (simp only: fl_w_fe_def rnd_binary64 asum_binary64 seq_sum_1 seq_sum_2 seq_sum_3 list.map zip_Cons_Cons zip_Nil prod.case fl_sq_def b64_op_1)

lemma ex_swapped_sum_w_fe: "fl_sum_w_fe binary64 [Fin 2, Fin 2] = Fin 1"
  by (simp only: fl_sum_w_fe_def ex_swapped_w_fe rnd_binary64 asum_binary64 seq_sum_1 seq_sum_2 seq_sum_3 list.map zip_Cons_Cons zip_Nil prod.case fl_sq_def b64_op_2)

lemma ex_swapped_summary_fe: "fl_summary_fe binary64 [Fin 2, Fin 0] [Fin 2, Fin 2] = Fin 1"
  by (simp only: fl_summary_fe_def ex_swapped_w_fe ex_swapped_sum_w_fe rnd_binary64 asum_binary64 seq_sum_1 seq_sum_2 seq_sum_3 list.map zip_Cons_Cons zip_Nil prod.case fl_sq_def b64_op_4 b64_op_3 b64_op_30 b64_op_6)

lemma ex_swapped_Q: "fl_Q binary64 [Fin 2, Fin 0] [Fin 2, Fin 2] = Fin 1"
  by (simp only: fl_Q_def ex_swapped_w_fe ex_swapped_summary_fe rnd_binary64 asum_binary64 seq_sum_1 seq_sum_2 seq_sum_3 list.map zip_Cons_Cons zip_Nil prod.case fl_sq_def b64_op_10 b64_op_11 b64_op_9 b64_op_7 b64_op_8 b64_op_2)

lemma ex_swapped_C: "fl_C binary64 [Fin 2, Fin 2] = Fin (1 / 2)"
  by (simp only: fl_C_def ex_swapped_w_fe ex_swapped_sum_w_fe rnd_binary64 asum_binary64 seq_sum_1 seq_sum_2 seq_sum_3 list.map zip_Cons_Cons zip_Nil prod.case fl_sq_def b64_op_12 b64_op_13 b64_op_14 b64_op_15)

lemma ex_swapped_tau2: "fl_tau2 binary64 [Fin 2, Fin 0] [Fin 2, Fin 2] = Fin 0"
  by (simp only: fl_tau2_def ex_swapped_Q ex_swapped_C fl_df_2 of_int_numeral of_int_1 of_int_0 rnd_binary64 asum_binary64 seq_sum_1 seq_sum_2 seq_sum_3 list.map zip_Cons_Cons zip_Nil prod.case fl_sq_def b64_op_16 b64_op_17 b64_op_18)

lemma ex_swapped_w_re: "fl_w_re binary64 [Fin 2, Fin 0] [Fin 2, Fin 2] = [Fin (1 / 2), Fin (1 / 2)]"
  by (simp only: fl_w_re_def ex_swapped_tau2 rnd_binary64 asum_binary64 seq_sum_1 seq_sum_2 seq_sum_3 list.map zip_Cons_Cons zip_Nil prod.case fl_sq_def b64_op_19 b64_op_1)

lemma ex_swapped_sum_w_re: "fl_sum_w_re binary64 [Fin 2, Fin 0] [Fin 2, Fin 2] = Fin 1"
  by (simp only: fl_sum_w_re_def ex_swapped_w_re rnd_binary64 asum_binary64 seq_sum_1 seq_sum_2 seq_sum_3 list.map zip_Cons_Cons zip_Nil prod.case fl_sq_def b64_op_2)

lemma ex_swapped_summary_re: "fl_summary_re binary64 [Fin 2, Fin 0] [Fin 2, Fin 2] = Fin 1"
  by (simp only: fl_summary_re_def ex_swapped_w_re ex_swapped_sum_w_re rnd_binary64 asum_binary64 seq_sum_1 seq_sum_2 seq_sum_3 list.map zip_Cons_Cons zip_Nil prod.case fl_sq_def b64_op_4 b64_op_3 b64_op_30 b64_op_6)

lemma ex_swapped_se_fe: "fl_se_fe binary64 [Fin 2, Fin 2] = Fin 1"
  by (simp only: fl_se_fe_def ex_swapped_sum_w_fe rnd_binary64 asum_binary64 seq_sum_1 seq_sum_2 seq_sum_3 list.map zip_Cons_Cons zip_Nil prod.case fl_sq_def b64_op_6 b64_op_20)

lemma ex_swapped_I2: "fl_I2 binary64 [Fin 2, Fin 0] [Fin 2, Fin 2] = Fin 0"
  by (simp only: fl_I2_def ex_swapped_Q if_True if_False fl_df_2 of_int_numeral of_int_1 of_int_0 rnd_binary64 asum_binary64 seq_sum_1 seq_sum_2 seq_sum_3 list.map zip_Cons_Cons zip_Nil prod.case fl_sq_def b64_op_21 b64_op_16 b64_op_22 b64_op_23 b64_op_18)

lemma ex_swapped_H2: "fl_H2 binary64 [Fin 2, Fin 0] [Fin 2, Fin 2] = Fin 1"
  by (simp only: fl_H2_def ex_swapped_Q if_True if_False zero_less_one zero_less_numeral less_irrefl fl_df_2 of_int_numeral of_int_1 of_int_0 rnd_binary64 asum_binary64 seq_sum_1 seq_sum_2 seq_sum_3 list.map zip_Cons_Cons zip_Nil prod.case fl_sq_def b64_op_6)

lemma ex_swapped_het: "fl_het binary64 example_stats [Fin 2, Fin 0] [Fin 2, Fin 2] = \<lparr>het_Q = Fin 1, het_df = 1, het_pValue = Fin (1 / 2), het_I2 = Fin 0, het_tau2 = Fin 0, het_tau = Fin 0, het_H2 = Fin 1\<rparr>"
  by (simp only: fl_het_def ex_swapped_Q ex_swapped_I2 ex_swapped_H2 ex_swapped_tau2 chi2_example chi2_example_nan fl_df_2 rnd_binary64 asum_binary64 seq_sum_1 seq_sum_2 seq_sum_3 list.map zip_Cons_Cons zip_Nil prod.case fl_sq_def b64_op_15 b64_op_24)

lemma ex_swapped_se_re: "fl_se_re binary64 [Fin 2, Fin 0] [Fin 2, Fin 2] = Fin 1"
  by (simp only: fl_se_re_def ex_swapped_sum_w_re rnd_binary64 asum_binary64 seq_sum_1 seq_sum_2 seq_sum_3 list.map zip_Cons_Cons zip_Nil prod.case fl_sq_def b64_op_6 b64_op_20)

lemma ex_swapped_pct_fe: "fl_pct binary64 [Fin (1 / 2), Fin (1 / 2)] (Fin 1) = [Fin 50, Fin 50]"
  by (simp only: fl_pct_def rnd_binary64 asum_binary64 seq_sum_1 seq_sum_2 seq_sum_3 list.map zip_Cons_Cons zip_Nil prod.case fl_sq_def b64_op_14 b64_op_25)

lemma ex_swapped_pct_re: "fl_pct binary64 [Fin (1 / 2), Fin (1 / 2)] (Fin 1) = [Fin 50, Fin 50]"
  by (simp only: fl_pct_def rnd_binary64 asum_binary64 seq_sum_1 seq_sum_2 seq_sum_3 list.map zip_Cons_Cons zip_Nil prod.case fl_sq_def b64_op_14 b64_op_25)

lemma ex_swapped_summary_random: "fl_summary binary64 ''random'' [Fin 2, Fin 0] [Fin 2, Fin 2] = Fin 1"
  by (simp add: fl_summary_def ex_swapped_summary_fe ex_swapped_summary_re)

lemma ex_swapped_se_random: "fl_se binary64 ''random'' [Fin 2, Fin 0] [Fin 2, Fin 2] = Fin 1"
  by (simp add: fl_se_def ex_swapped_se_fe ex_swapped_se_re)

lemma ex_swapped_meta_random: "fl_meta_analysis binary64 example_stats [Fin 2, Fin 0] [Fin 2, Fin 2] ''random'' = Inr \<lparr>ma_summary = Fin 1, ma_se = Fin 1, ma_z = Some (Fin 1), ma_pValue = Some (Fin 1),
            ma_heterogeneity = \<lparr>het_Q = Fin 1, het_df = 1, het_pValue = Fin (1 / 2), het_I2 = Fin 0, het_tau2 = Fin 0, het_tau = Fin 0, het_H2 = Fin 1\<rparr>,
            ma_weights_fe = [Fin 50, Fin 50], ma_weights_re = [Fin 50, Fin 50],
            ma_fixed_summary = Some (Fin 1), ma_fixed_se = Some (Fin 1)\<rparr>"
  by (simp only: fl_meta_analysis_eq [OF len_2 two_le_2] rnd_binary64 if_True if_False simp_thms ex_swapped_summary_fe ex_swapped_se_fe ex_swapped_summary_re ex_swapped_se_re ex_swapped_het ex_swapped_pct_fe ex_swapped_pct_re ex_swapped_C ex_swapped_sum_w_fe ex_swapped_sum_w_re ex_swapped_w_fe ex_swapped_w_re ex_swapped_summary_random ex_swapped_se_random b64_op_26 b64_op_27 b64_op_6 b64_op_29)

lemma ex_absorb_w_fe: "fl_w_fe binary64 [Fin 1, Fin (1 / 1152921504606846976)] = [Fin 1, Fin 1152921504606846976]"
  by (simp only: fl_w_fe_def rnd_binary64 asum_binary64 seq_sum_1 seq_sum_2 seq_sum_3 list.map zip_Cons_Cons zip_Nil prod.case fl_sq_def b64_op_6 b64_op_31)

lemma ex_absorb_sum_w_fe: "fl_sum_w_fe binary64 [Fin 1, Fin (1 / 1152921504606846976)] = Fin 1152921504606846976"
  by (simp only: fl_sum_w_fe_def ex_absorb_w_fe rnd_binary64 asum_binary64 seq_sum_1 seq_sum_2 seq_sum_3 list.map zip_Cons_Cons zip_Nil prod.case fl_sq_def b64_op_32)

lemma ex_absorb_summary_fe: "fl_summary_fe binary64 [Fin 0, Fin 1] [Fin 1, Fin (1 / 1152921504606846976)] = Fin 1"
  by (simp only: fl_summary_fe_def ex_absorb_w_fe ex_absorb_sum_w_fe rnd_binary64 asum_binary64 seq_sum_1 seq_sum_2 seq_sum_3 list.map zip_Cons_Cons zip_Nil prod.case fl_sq_def b64_op_33 b64_op_34 b64_op_35 b64_op_36)

lemma ex_absorb_Q: "fl_Q binary64 [Fin 0, Fin 1] [Fin 1, Fin (1 / 1152921504606846976)] = Fin 1"
  by (simp only: fl_Q_def ex_absorb_w_fe ex_absorb_summary_fe rnd_binary64 asum_binary64 seq_sum_1 seq_sum_2 seq_sum_3 list.map zip_Cons_Cons zip_Nil prod.case fl_sq_def b64_op_7 b64_op_8 b64_op_11 b64_op_16 b64_op_37 b64_op_38 b64_op_30)

lemma ex_absorb_C: "fl_C binary64 [Fin 1, Fin (1 / 1152921504606846976)] = Fin 0"
  by (simp only: fl_C_def ex_absorb_w_fe ex_absorb_sum_w_fe rnd_binary64 asum_binary64 seq_sum_1 seq_sum_2 seq_sum_3 list.map zip_Cons_Cons zip_Nil prod.case fl_sq_def b64_op_11 b64_op_39 b64_op_40 b64_op_41 b64_op_42)

lemma ex_absorb_tau2: "fl_tau2 binary64 [Fin 0, Fin 1] [Fin 1, Fin (1 / 1152921504606846976)] = Fin 0"
  by (simp only: fl_tau2_def ex_absorb_Q ex_absorb_C fl_df_2 of_int_numeral of_int_1 of_int_0 rnd_binary64 asum_binary64 seq_sum_1 seq_sum_2 seq_sum_3 list.map zip_Cons_Cons zip_Nil prod.case fl_sq_def b64_op_16 b64_op_43 b64_op_44)

lemma ex_absorb_w_re: "fl_w_re binary64 [Fin 0, Fin 1] [Fin 1, Fin (1 / 1152921504606846976)] = [Fin 1, Fin 1152921504606846976]"
  by (simp only: fl_w_re_def ex_absorb_tau2 rnd_binary64 asum_binary64 seq_sum_1 seq_sum_2 seq_sum_3 list.map zip_Cons_Cons zip_Nil prod.case fl_sq_def b64_op_30 b64_op_6 b64_op_45 b64_op_31)

lemma ex_absorb_sum_w_re: "fl_sum_w_re binary64 [Fin 0, Fin 1] [Fin 1, Fin (1 / 1152921504606846976)] = Fin 1152921504606846976"
  by (simp only: fl_sum_w_re_def ex_absorb_w_re rnd_binary64 asum_binary64 seq_sum_1 seq_sum_2 seq_sum_3 list.map zip_Cons_Cons zip_Nil prod.case fl_sq_def b64_op_32)

lemma ex_absorb_summary_re: "fl_summary_re binary64 [Fin 0, Fin 1] [Fin 1, Fin (1 / 1152921504606846976)] = Fin 1"
  by (simp only: fl_summary_re_def ex_absorb_w_re ex_absorb_sum_w_re rnd_binary64 asum_binary64 seq_sum_1 seq_sum_2 seq_sum_3 list.map zip_Cons_Cons zip_Nil prod.case fl_sq_def b64_op_33 b64_op_34 b64_op_35 b64_op_36)

lemma ex_absorb_se_fe: "fl_se_fe binary64 [Fin 1, Fin (1 / 1152921504606846976)] = Fin (1 / 1073741824)"
  by (simp only: fl_se_fe_def ex_absorb_sum_w_fe rnd_binary64 asum_binary64 seq_sum_1 seq_sum_2 seq_sum_3 list.map zip_Cons_Cons zip_Nil prod.case fl_sq_def b64_op_46 b64_op_48)

lemma ex_absorb_I2: "fl_I2 binary64 [Fin 0, Fin 1] [Fin 1, Fin (1 / 1152921504606846976)] = Fin 0"
  by (simp only: fl_I2_def ex_absorb_Q if_True if_False fl_df_2 of_int_numeral of_int_1 of_int_0 rnd_binary64 asum_binary64 seq_sum_1 seq_sum_2 seq_sum_3 list.map zip_Cons_Cons zip_Nil prod.case fl_sq_def b64_op_21 b64_op_16 b64_op_22 b64_op_23 b64_op_18)

lemma ex_absorb_H2: "fl_H2 binary64 [Fin 0, Fin 1] [Fin 1, Fin (1 / 1152921504606846976)] = Fin 1"
  by (simp only: fl_H2_def ex_absorb_Q if_True if_False zero_less_one zero_less_numeral less_irrefl fl_df_2 of_int_numeral of_int_1 of_int_0 rnd_binary64 asum_binary64 seq_sum_1 seq_sum_2 seq_sum_3 list.map zip_Cons_Cons zip_Nil prod.case fl_sq_def b64_op_6)

lemma ex_absorb_het: "fl_het binary64 example_stats [Fin 0, Fin 1] [Fin 1, Fin (1 / 1152921504606846976)] = \<lparr>het_Q = Fin 1, het_df = 1, het_pValue = Fin (1 / 2), het_I2 = Fin 0, het_tau2 = Fin 0, het_tau = Fin 0, het_H2 = Fin 1\<rparr>"
  by (simp only: fl_het_def ex_absorb_Q ex_absorb_I2 ex_absorb_H2 ex_absorb_tau2 chi2_example chi2_example_nan fl_df_2 rnd_binary64 asum_binary64 seq_sum_1 seq_sum_2 seq_sum_3 list.map zip_Cons_Cons zip_Nil prod.case fl_sq_def b64_op_15 b64_op_24)

lemma ex_absorb_se_re: "fl_se_re binary64 [Fin 0, Fin 1] [Fin 1, Fin (1 / 1152921504606846976)] = Fin (1 / 1073741824)"
  by (simp only: fl_se_re_def ex_absorb_sum_w_re rnd_binary64 asum_binary64 seq_sum_1 seq_sum_2 seq_sum_3 list.map zip_Cons_Cons zip_Nil prod.case fl_sq_def b64_op_46 b64_op_48)

lemma ex_absorb_pct_fe: "fl_pct binary64 [Fin 1, Fin 1152921504606846976] (Fin 1152921504606846976) = [Fin (25 / 288230376151711744), Fin 100]"
  by (simp only: fl_pct_def rnd_binary64 asum_binary64 seq_sum_1 seq_sum_2 seq_sum_3 list.map zip_Cons_Cons zip_Nil prod.case fl_sq_def b64_op_46 b64_op_49 b64_op_36 b64_op_50)

lemma ex_absorb_pct_re: "fl_pct binary64 [Fin 1, Fin 1152921504606846976] (Fin 1152921504606846976) = [Fin (25 / 288230376151711744), Fin 100]"
  by (simp only: fl_pct_def rnd_binary64 asum_binary64 seq_sum_1 seq_sum_2 seq_sum_3 list.map zip_Cons_Cons zip_Nil prod.case fl_sq_def b64_op_46 b64_op_49 b64_op_36 b64_op_50)

lemma ex_absorb_summary_random: "fl_summary binary64 ''random'' [Fin 0, Fin 1] [Fin 1, Fin (1 / 1152921504606846976)] = Fin 1"
  by (simp add: fl_summary_def ex_absorb_summary_fe ex_absorb_summary_re)

lemma ex_absorb_se_random: "fl_se binary64 ''random'' [Fin 0, Fin 1] [Fin 1, Fin (1 / 1152921504606846976)] = Fin (1 / 1073741824)"
  by (simp add: fl_se_def ex_absorb_se_fe ex_absorb_se_re)

lemma ex_absorb_meta_random: "fl_meta_analysis binary64 example_stats [Fin 0, Fin 1] [Fin 1, Fin (1 / 1152921504606846976)] ''random'' = Inl ZeroDivisionError"
  by (simp only: fl_meta_analysis_eq [OF len_2 two_le_2] rnd_binary64 if_True if_False simp_thms ex_absorb_summary_fe ex_absorb_se_fe ex_absorb_summary_re ex_absorb_se_re ex_absorb_het ex_absorb_pct_fe ex_absorb_pct_re ex_absorb_C ex_absorb_sum_w_fe ex_absorb_sum_w_re ex_absorb_w_fe ex_absorb_w_re ex_absorb_summary_random ex_absorb_se_random b64_op_51 b64_op_52)

lemma ex_absorb_gold: "fl_gold_standard binary64 example_stats [Fin 0, Fin 1] [Fin 1, Fin (1 / 1152921504606846976)] = Inr \<lparr>gs_summary_fe = Fin 1, gs_se_fe = Fin (1 / 1073741824),
            gs_heterogeneity = \<lparr>het_Q = Fin 1, het_df = 1, het_pValue = Fin (1 / 2), het_I2 = Fin 0, het_tau2 = Fin 0, het_tau = Fin 0, het_H2 = Fin 1\<rparr>,
            gs_summary_re = Fin 1, gs_se_re = Fin (1 / 1073741824), gs_z_re = Fin 1073741824, gs_p_re = Fin 1,
            gs_weights_fe_pct = [Fin (25 / 288230376151711744), Fin 100], gs_weights_re_pct = [Fin (25 / 288230376151711744), Fin 100]\<rparr>"
  by (simp only: fl_gold_standard_eq [OF len_2] rnd_binary64 if_True if_False simp_thms ex_absorb_summary_fe ex_absorb_se_fe ex_absorb_summary_re ex_absorb_se_re ex_absorb_het ex_absorb_pct_fe ex_absorb_pct_re ex_absorb_C ex_absorb_sum_w_fe ex_absorb_sum_w_re ex_absorb_w_fe ex_absorb_w_re ex_absorb_summary_random ex_absorb_se_random b64_op_53 b64_op_54)

lemma ex_absorb_hr_random: "fl_meta_analysis_hr_pool binary64 example_stats [Fin 0, Fin 1] [Fin 1, Fin (1 / 1152921504606846976)] ''random'' = Inl ZeroDivisionError"
  by (simp only: fl_meta_analysis_hr_pool_eq [OF len_2 two_le_2] rnd_binary64 if_True if_False simp_thms ex_absorb_summary_fe ex_absorb_se_fe ex_absorb_summary_re ex_absorb_se_re ex_absorb_het ex_absorb_pct_fe ex_absorb_pct_re ex_absorb_C ex_absorb_sum_w_fe ex_absorb_sum_w_re ex_absorb_w_fe ex_absorb_w_re ex_absorb_summary_random ex_absorb_se_random b64_op_55 b64_op_51 b64_op_52)

lemma ex_negC_w_fe: "fl_w_fe binary64 [Fin (5 / 72057594037927936), Fin 1] = [Fin 14411518807585588, Fin 1]"
  by (simp only: fl_w_fe_def rnd_binary64 asum_binary64 seq_sum_1 seq_sum_2 seq_sum_3 list.map zip_Cons_Cons zip_Nil prod.case fl_sq_def b64_op_56 b64_op_6)

lemma ex_negC_sum_w_fe: "fl_sum_w_fe binary64 [Fin (5 / 72057594037927936), Fin 1] = Fin 14411518807585588"
  by (simp only: fl_sum_w_fe_def ex_negC_w_fe rnd_binary64 asum_binary64 seq_sum_1 seq_sum_2 seq_sum_3 list.map zip_Cons_Cons zip_Nil prod.case fl_sq_def b64_op_57)

lemma ex_negC_summary_fe: "fl_summary_fe binary64 [Fin 0, Fin 0] [Fin (5 / 72057594037927936), Fin 1] = Fin 0"
  by (simp only: fl_summary_fe_def ex_negC_w_fe ex_negC_sum_w_fe rnd_binary64 asum_binary64 seq_sum_1 seq_sum_2 seq_sum_3 list.map zip_Cons_Cons zip_Nil prod.case fl_sq_def b64_op_58 b64_op_33 b64_op_59 b64_op_60)

lemma ex_negC_Q: "fl_Q binary64 [Fin 0, Fin 0] [Fin (5 / 72057594037927936), Fin 1] = Fin 0"
  by (simp only: fl_Q_def ex_negC_w_fe ex_negC_summary_fe rnd_binary64 asum_binary64 seq_sum_1 seq_sum_2 seq_sum_3 list.map zip_Cons_Cons zip_Nil prod.case fl_sq_def b64_op_61 b64_op_37 b64_op_58 b64_op_33 b64_op_59)

lemma ex_negC_C: "fl_C binary64 [Fin (5 / 72057594037927936), Fin 1] = Fin (- 2)"
  by (simp only: fl_C_def ex_negC_w_fe ex_negC_sum_w_fe rnd_binary64 asum_binary64 seq_sum_1 seq_sum_2 seq_sum_3 list.map zip_Cons_Cons zip_Nil prod.case fl_sq_def b64_op_62 b64_op_11 b64_op_63 b64_op_64 b64_op_65)

lemma ex_negC_tau2: "fl_tau2 binary64 [Fin 0, Fin 0] [Fin (5 / 72057594037927936), Fin 1] = Fin (1 / 2)"
  by (simp only: fl_tau2_def ex_negC_Q ex_negC_C fl_df_2 of_int_numeral of_int_1 of_int_0 rnd_binary64 asum_binary64 seq_sum_1 seq_sum_2 seq_sum_3 list.map zip_Cons_Cons zip_Nil prod.case fl_sq_def b64_op_7 b64_op_66 b64_op_67)

lemma ex_negC_w_re: "fl_w_re binary64 [Fin 0, Fin 0] [Fin (5 / 72057594037927936), Fin 1] = [Fin (4503599627370495 / 2251799813685248), Fin (6004799503160661 / 9007199254740992)]"
  by (simp only: fl_w_re_def ex_negC_tau2 rnd_binary64 asum_binary64 seq_sum_1 seq_sum_2 seq_sum_3 list.map zip_Cons_Cons zip_Nil prod.case fl_sq_def b64_op_68 b64_op_69 b64_op_70 b64_op_71)

lemma ex_negC_sum_w_re: "fl_sum_w_re binary64 [Fin 0, Fin 0] [Fin (5 / 72057594037927936), Fin 1] = Fin (1501199875790165 / 562949953421312)"
  by (simp only: fl_sum_w_re_def ex_negC_w_re rnd_binary64 asum_binary64 seq_sum_1 seq_sum_2 seq_sum_3 list.map zip_Cons_Cons zip_Nil prod.case fl_sq_def b64_op_72)

lemma ex_negC_summary_re: "fl_summary_re binary64 [Fin 0, Fin 0] [Fin (5 / 72057594037927936), Fin 1] = Fin 0"
  by (simp only: fl_summary_re_def ex_negC_w_re ex_negC_sum_w_re rnd_binary64 asum_binary64 seq_sum_1 seq_sum_2 seq_sum_3 list.map zip_Cons_Cons zip_Nil prod.case fl_sq_def b64_op_73 b64_op_74 b64_op_59 b64_op_75)

lemma ex_negC_se_random_sqrt: "fl_se binary64 ''random'' [Fin 0, Fin 0] [Fin (5 / 72057594037927936), Fin 1] = fl_sqrt b64 (Fin (3377699720527873 / 9007199254740992))"
  by (simp only: fl_se_def fl_se_fe_def fl_se_re_def random_is_not_fixed simp_thms if_True if_False ex_negC_sum_w_re rnd_binary64 b64_op_76)

lemma ex_negC_se_random_nonzero: "fl_se binary64 ''random'' [Fin 0, Fin 0] [Fin (5 / 72057594037927936), Fin 1] \<noteq> Fin 0"
  unfolding ex_negC_se_random_sqrt by (rule fl_sqrt_b64_nonzero) simp_all

lemma ex_big_first_w_fe: "fl_w_fe binary64 [Fin (1 / 9007199254740992), Fin 1, Fin 1] = [Fin 9007199254740992, Fin 1, Fin 1]"
  by (simp only: fl_w_fe_def rnd_binary64 asum_binary64 seq_sum_1 seq_sum_2 seq_sum_3 list.map zip_Cons_Cons zip_Nil prod.case fl_sq_def b64_op_77 b64_op_6)

lemma ex_big_first_sum_w_fe: "fl_sum_w_fe binary64 [Fin (1 / 9007199254740992), Fin 1, Fin 1] = Fin 9007199254740992"
  by (simp only: fl_sum_w_fe_def ex_big_first_w_fe rnd_binary64 asum_binary64 seq_sum_1 seq_sum_2 seq_sum_3 list.map zip_Cons_Cons zip_Nil prod.case fl_sq_def b64_op_78)

lemma ex_big_first_summary_fe: "fl_summary_fe binary64 [Fin 0, Fin 0, Fin 0] [Fin (1 / 9007199254740992), Fin 1, Fin 1] = Fin 0"
  by (simp only: fl_summary_fe_def ex_big_first_w_fe ex_big_first_sum_w_fe rnd_binary64 asum_binary64 seq_sum_1 seq_sum_2 seq_sum_3 list.map zip_Cons_Cons zip_Nil prod.case fl_sq_def b64_op_79 b64_op_33 b64_op_59 b64_op_80)

lemma ex_big_first_Q: "fl_Q binary64 [Fin 0, Fin 0, Fin 0] [Fin (1 / 9007199254740992), Fin 1, Fin 1] = Fin 0"
  by (simp only: fl_Q_def ex_big_first_w_fe ex_big_first_summary_fe rnd_binary64 asum_binary64 seq_sum_1 seq_sum_2 seq_sum_3 list.map zip_Cons_Cons zip_Nil prod.case fl_sq_def b64_op_61 b64_op_37 b64_op_79 b64_op_33 b64_op_59)

lemma ex_big_first_C: "fl_C binary64 [Fin (1 / 9007199254740992), Fin 1, Fin 1] = Fin 0"
  by (simp only: fl_C_def ex_big_first_w_fe ex_big_first_sum_w_fe rnd_binary64 asum_binary64 seq_sum_1 seq_sum_2 seq_sum_3 list.map zip_Cons_Cons zip_Nil prod.case fl_sq_def b64_op_81 b64_op_11 b64_op_82 b64_op_83 b64_op_84)

lemma ex_big_last_w_fe: "fl_w_fe binary64 [Fin 1, Fin 1, Fin (1 / 9007199254740992)] = [Fin 1, Fin 1, Fin 9007199254740992]"
  by (simp only: fl_w_fe_def rnd_binary64 asum_binary64 seq_sum_1 seq_sum_2 seq_sum_3 list.map zip_Cons_Cons zip_Nil prod.case fl_sq_def b64_op_6 b64_op_77)

lemma ex_big_last_sum_w_fe: "fl_sum_w_fe binary64 [Fin 1, Fin 1, Fin (1 / 9007199254740992)] = Fin 9007199254740994"
  by (simp only: fl_sum_w_fe_def ex_big_last_w_fe rnd_binary64 asum_binary64 seq_sum_1 seq_sum_2 seq_sum_3 list.map zip_Cons_Cons zip_Nil prod.case fl_sq_def b64_op_85 b64_op_86)

lemma ex_big_last_summary_fe: "fl_summary_fe binary64 [Fin 0, Fin 0, Fin 0] [Fin 1, Fin 1, Fin (1 / 9007199254740992)] = Fin 0"
  by (simp only: fl_summary_fe_def ex_big_last_w_fe ex_big_last_sum_w_fe rnd_binary64 asum_binary64 seq_sum_1 seq_sum_2 seq_sum_3 list.map zip_Cons_Cons zip_Nil prod.case fl_sq_def b64_op_33 b64_op_79 b64_op_59 b64_op_87)

lemma ex_big_last_Q: "fl_Q binary64 [Fin 0, Fin 0, Fin 0] [Fin 1, Fin 1, Fin (1 / 9007199254740992)] = Fin 0"
  by (simp only: fl_Q_def ex_big_last_w_fe ex_big_last_summary_fe rnd_binary64 asum_binary64 seq_sum_1 seq_sum_2 seq_sum_3 list.map zip_Cons_Cons zip_Nil prod.case fl_sq_def b64_op_61 b64_op_37 b64_op_33 b64_op_79 b64_op_59)

lemma ex_big_last_C: "fl_C binary64 [Fin 1, Fin 1, Fin (1 / 9007199254740992)] = Fin 4"
  by (simp only: fl_C_def ex_big_last_w_fe ex_big_last_sum_w_fe rnd_binary64 asum_binary64 seq_sum_1 seq_sum_2 seq_sum_3 list.map zip_Cons_Cons zip_Nil prod.case fl_sq_def b64_op_11 b64_op_81 b64_op_85 b64_op_88 b64_op_89 b64_op_90)

lemma ex_big_last_tau2: "fl_tau2 binary64 [Fin 0, Fin 0, Fin 0] [Fin 1, Fin 1, Fin (1 / 9007199254740992)] = Fin 0"
  by (simp only: fl_tau2_def ex_big_last_Q ex_big_last_C fl_df_3 of_int_numeral of_int_1 of_int_0 rnd_binary64 asum_binary64 seq_sum_1 seq_sum_2 seq_sum_3 list.map zip_Cons_Cons zip_Nil prod.case fl_sq_def b64_op_91 b64_op_92 b64_op_93)

lemma ex_big_last_w_re: "fl_w_re binary64 [Fin 0, Fin 0, Fin 0] [Fin 1, Fin 1, Fin (1 / 9007199254740992)] = [Fin 1, Fin 1, Fin 9007199254740992]"
  by (simp only: fl_w_re_def ex_big_last_tau2 rnd_binary64 asum_binary64 seq_sum_1 seq_sum_2 seq_sum_3 list.map zip_Cons_Cons zip_Nil prod.case fl_sq_def b64_op_30 b64_op_6 b64_op_94 b64_op_77)

lemma ex_big_last_sum_w_re: "fl_sum_w_re binary64 [Fin 0, Fin 0, Fin 0] [Fin 1, Fin 1, Fin (1 / 9007199254740992)] = Fin 9007199254740994"
  by (simp only: fl_sum_w_re_def ex_big_last_w_re rnd_binary64 asum_binary64 seq_sum_1 seq_sum_2 seq_sum_3 list.map zip_Cons_Cons zip_Nil prod.case fl_sq_def b64_op_85 b64_op_86)

lemma ex_big_last_summary_re: "fl_summary_re binary64 [Fin 0, Fin 0, Fin 0] [Fin 1, Fin 1, Fin (1 / 9007199254740992)] = Fin 0"
  by (simp only: fl_summary_re_def ex_big_last_w_re ex_big_last_sum_w_re rnd_binary64 asum_binary64 seq_sum_1 seq_sum_2 seq_sum_3 list.map zip_Cons_Cons zip_Nil prod.case fl_sq_def b64_op_33 b64_op_79 b64_op_59 b64_op_87)

lemma ex_big_last_se_random_sqrt: "fl_se binary64 ''random'' [Fin 0, Fin 0, Fin 0] [Fin 1, Fin 1, Fin (1 / 9007199254740992)] = fl_sqrt b64 (Fin (4503599627370495 / 40564819207303340847894502572032))"
  by (simp only: fl_se_def fl_se_fe_def fl_se_re_def random_is_not_fixed simp_thms if_True if_False ex_big_last_sum_w_re rnd_binary64 b64_op_95)

lemma ex_big_last_se_random_nonzero: "fl_se binary64 ''random'' [Fin 0, Fin 0, Fin 0] [Fin 1, Fin 1, Fin (1 / 9007199254740992)] \<noteq> Fin 0"
  unfolding ex_big_last_se_random_sqrt by (rule fl_sqrt_b64_nonzero) simp_all

lemma ex_overflow_w_fe: "fl_w_fe binary64 [Fin (1 / 11505236063118821809467553221049758295155052665230762065499525194094891251552061640493342548634082305351687288311769174890162545204122663839542235560926343960177145179191391057683342054479750023644997308933440369205641643669917624414330439074612943178454432683813523087356623740062701843509462805095950344781824)] = [PInf]"
  by (simp only: fl_w_fe_def rnd_binary64 asum_binary64 seq_sum_1 seq_sum_2 seq_sum_3 list.map zip_Cons_Cons zip_Nil prod.case fl_sq_def b64_op_96)

lemma ex_overflow_sum_w_fe: "fl_sum_w_fe binary64 [Fin (1 / 11505236063118821809467553221049758295155052665230762065499525194094891251552061640493342548634082305351687288311769174890162545204122663839542235560926343960177145179191391057683342054479750023644997308933440369205641643669917624414330439074612943178454432683813523087356623740062701843509462805095950344781824)] = PInf"
  by (simp only: fl_sum_w_fe_def ex_overflow_w_fe rnd_binary64 asum_binary64 seq_sum_1 seq_sum_2 seq_sum_3 list.map zip_Cons_Cons zip_Nil prod.case fl_sq_def)

lemma ex_overflow_summary_fe: "fl_summary_fe binary64 [Fin 1] [Fin (1 / 11505236063118821809467553221049758295155052665230762065499525194094891251552061640493342548634082305351687288311769174890162545204122663839542235560926343960177145179191391057683342054479750023644997308933440369205641643669917624414330439074612943178454432683813523087356623740062701843509462805095950344781824)] = NaN"
  by (simp only: fl_summary_fe_def ex_overflow_w_fe ex_overflow_sum_w_fe rnd_binary64 asum_binary64 seq_sum_1 seq_sum_2 seq_sum_3 list.map zip_Cons_Cons zip_Nil prod.case fl_sq_def b64_op_97 b64_op_98)

lemma ex_overflow_se_fe: "fl_se_fe binary64 [Fin (1 / 11505236063118821809467553221049758295155052665230762065499525194094891251552061640493342548634082305351687288311769174890162545204122663839542235560926343960177145179191391057683342054479750023644997308933440369205641643669917624414330439074612943178454432683813523087356623740062701843509462805095950344781824)] = Fin 0"
  by (simp only: fl_se_fe_def ex_overflow_sum_w_fe rnd_binary64 asum_binary64 seq_sum_1 seq_sum_2 seq_sum_3 list.map zip_Cons_Cons zip_Nil prod.case fl_sq_def b64_op_99 b64_op_24)

lemma ex_overflow_pct_fe: "fl_pct binary64 [PInf] (PInf) = [NaN]"
  by (simp only: fl_pct_def rnd_binary64 asum_binary64 seq_sum_1 seq_sum_2 seq_sum_3 list.map zip_Cons_Cons zip_Nil prod.case fl_sq_def b64_op_98 b64_op_100)

lemma ex_overflow_meta: "fl_meta_analysis binary64 example_stats [Fin 1] [Fin (1 / 11505236063118821809467553221049758295155052665230762065499525194094891251552061640493342548634082305351687288311769174890162545204122663839542235560926343960177145179191391057683342054479750023644997308933440369205641643669917624414330439074612943178454432683813523087356623740062701843509462805095950344781824)] ''random'' = Inr \<lparr>ma_summary = NaN, ma_se = Fin 0, ma_z = None, ma_pValue = None,
            ma_heterogeneity = degenerate_het,
            ma_weights_fe = [NaN], ma_weights_re = [NaN],
            ma_fixed_summary = None, ma_fixed_se = None\<rparr>"
  by (simp only: fl_meta_analysis_small [OF len_1 le_one_1] ex_overflow_summary_fe ex_overflow_se_fe ex_overflow_w_fe ex_overflow_sum_w_fe ex_overflow_pct_fe)

section \<open>The heterogeneity formulas\<close>

text \<open>
  Claim C1 fails as stated. With the variances \<open>1\<close> and \<open>2^(-60)\<close> the weights are \<open>1\<close> and
  \<open>2^60\<close>; in binary64 their sum is \<open>2^60\<close>, the sum of their squares is \<open>2^120\<close>, and
  \<open>C = sum_w_fe - sum_w2 / sum_w_fe\<close> is exactly \<open>0\<close>. \<open>meta_analysis\<close> divides by it
  with Python's \<open>/\<close> and raises \<open>ZeroDivisionError\<close>: no \<open>tau2\<close> is computed.
\<close>

theorem meta_analysis_raises_at_zero_C:
  "fl_meta_analysis binary64 example_stats [Fin 0, Fin 1] [Fin 1, Fin (1 / 2 ^ 60)] ''random''
     = Inl ZeroDivisionError"
  using ex_absorb_meta_random by simp

text \<open>
  Claim C1, as amended. For \<open>k \<ge> 2\<close> studies, in any rounded arithmetic and for any array
  elements, the gold-standard script computes the heterogeneity dictionary of the
  specification's formulas, each operation rounded and each sum taken by \<open>np.sum\<close> in the
  order of the studies: \<open>df = k - 1\<close>, \<open>w_i = 1/vi\<close>, \<open>ybar = \<Sum> w_i yi / \<Sum> w_i\<close>,
  \<open>Q = \<Sum> w_i (yi - ybar)\<^sup>2\<close>, the p-value \<open>1 - chi2.cdf(Q, df)\<close>,
  \<open>C = \<Sum> w_i - \<Sum> w_i\<^sup>2 / \<Sum> w_i\<close>, \<open>tau2 = max(0, (Q - df)/C)\<close>, \<open>tau = sqrt(tau2)\<close>,
  \<open>I2 = max(0, (Q - df)/Q * 100)\<close> when \<open>Q > 0\<close> and \<open>0\<close> otherwise, \<open>H2 = Q/df\<close>.
  \<open>meta_analysis\<close> returns the same dictionary, unless it raises \<open>ZeroDivisionError\<close>,
  which it does exactly when the computed \<open>C\<close> or the standard error of the selected
  model is zero.
\<close>

theorem heterogeneity_formulas_rounded:
  assumes "length yi = length vi" and "2 \<le> length yi"
  shows "(\<exists>g. fl_gold_standard ar stats yi vi = Inr g
              \<and> gs_heterogeneity g = fl_spec_heterogeneity ar stats yi vi)
       \<and> (fl_meta_analysis ar stats yi vi model = Inl ZeroDivisionError
            \<or> (\<exists>a. fl_meta_analysis ar stats yi vi model = Inr a
                  \<and> ma_heterogeneity a = fl_spec_heterogeneity ar stats yi vi))
       \<and> (fl_meta_analysis ar stats yi vi model = Inl ZeroDivisionError
            \<longleftrightarrow> fl_spec_C ar yi vi = Fin 0 \<or> fl_se ar model yi vi = Fin 0)"
  using fl_gold_standard_eq [OF assms(1), of ar stats] fl_meta_analysis_eq [OF assms, of ar stats model]
    fl_het_spec [OF assms, of ar stats] fl_C_spec [OF assms(1), of ar]
  by (simp split: if_splits)

theorem heterogeneity_formulas_rounded_witness:
  "length [Fin 0, Fin 2] = length [Fin 2, Fin 2] \<and> 2 \<le> length [Fin 0, Fin 2]
   \<and> fl_gold_standard binary64 example_stats [Fin 0, Fin 2] [Fin 2, Fin 2]
       = Inr \<lparr>gs_summary_fe = Fin 1, gs_se_fe = Fin 1,
        gs_heterogeneity = \<lparr>het_Q = Fin 1, het_df = 1, het_pValue = Fin (1 / 2), het_I2 = Fin 0, het_tau2 = Fin 0, het_tau = Fin 0, het_H2 = Fin 1\<rparr>,
        gs_summary_re = Fin 1, gs_se_re = Fin 1, gs_z_re = Fin 1, gs_p_re = Fin 1,
        gs_weights_fe_pct = [Fin 50, Fin 50], gs_weights_re_pct = [Fin 50, Fin 50]\<rparr>
   \<and> fl_meta_analysis binary64 example_stats [Fin 0, Fin 2] [Fin 2, Fin 2] ''random''
       = Inr \<lparr>ma_summary = Fin 1, ma_se = Fin 1, ma_z = Some (Fin 1), ma_pValue = Some (Fin 1),
        ma_heterogeneity = \<lparr>het_Q = Fin 1, het_df = 1, het_pValue = Fin (1 / 2), het_I2 = Fin 0, het_tau2 = Fin 0, het_tau = Fin 0, het_H2 = Fin 1\<rparr>,
        ma_weights_fe = [Fin 50, Fin 50], ma_weights_re = [Fin 50, Fin 50],
        ma_fixed_summary = Some (Fin 1), ma_fixed_se = Some (Fin 1)\<rparr>
   \<and> fl_spec_heterogeneity binary64 example_stats [Fin 0, Fin 2] [Fin 2, Fin 2]
       = \<lparr>het_Q = Fin 1, het_df = 1, het_pValue = Fin (1 / 2), het_I2 = Fin 0, het_tau2 = Fin 0, het_tau = Fin 0, het_H2 = Fin 1\<rparr>
   \<and> fl_spec_C binary64 [Fin 0, Fin 2] [Fin 2, Fin 2] \<noteq> Fin 0
   \<and> fl_se binary64 ''random'' [Fin 0, Fin 2] [Fin 2, Fin 2] \<noteq> Fin 0"
  using heterogeneity_formulas_rounded
      [where yi = "[Fin 0, Fin 2]" and vi = "[Fin 2, Fin 2]" and ar = binary64 and stats = example_stats
         and model = "''random''"]
    ex_ret_gold ex_ret_meta_random
  by auto

section \<open>The three re-derivations\<close>

text \<open>
  Claim C10 fails as stated. At the effect sizes \<open>0, 1\<close> with variances \<open>1, 2^(-60)\<close> the
  computed \<open>C\<close> is \<open>0\<close>: \<open>meta_analysis\<close> and \<open>meta_analysis_hr\<close> raise
  \<open>ZeroDivisionError\<close> at their Python division \<open>(Q - df) / C\<close>, while the gold-standard
  script, which divides numpy values, goes on with \<open>tau2 = max(0, nan) = 0\<close> and computes
  every value.
\<close>

theorem gold_standard_returns_where_the_others_raise:
  "fl_meta_analysis_hr_pool binary64 example_stats [Fin 0, Fin 1] [Fin 1, Fin (1 / 2 ^ 60)] ''random''
     = Inl ZeroDivisionError
   \<and> fl_meta_analysis binary64 example_stats [Fin 0, Fin 1] [Fin 1, Fin (1 / 2 ^ 60)] ''random''
     = Inl ZeroDivisionError
   \<and> fl_gold_standard binary64 example_stats [Fin 0, Fin 1] [Fin 1, Fin (1 / 2 ^ 60)]
     = Inr \<lparr>gs_summary_fe = Fin 1, gs_se_fe = Fin (1 / 1073741824),
        gs_heterogeneity = \<lparr>het_Q = Fin 1, het_df = 1, het_pValue = Fin (1 / 2), het_I2 = Fin 0, het_tau2 = Fin 0, het_tau = Fin 0, het_H2 = Fin 1\<rparr>,
        gs_summary_re = Fin 1, gs_se_re = Fin (1 / 1073741824), gs_z_re = Fin 1073741824, gs_p_re = Fin 1,
        gs_weights_fe_pct = [Fin (25 / 288230376151711744), Fin 100], gs_weights_re_pct = [Fin (25 / 288230376151711744), Fin 100]\<rparr>"
  using ex_absorb_hr_random ex_absorb_meta_random ex_absorb_gold by simp

text \<open>
  Claim C10, as amended. For \<open>k \<ge> 2\<close> studies, in any rounded arithmetic and for any array
  elements, the gold-standard script returns its values, and every result that
  \<open>meta_analysis\<close> or the pooling stage of \<open>meta_analysis_hr\<close> returns agrees with them: the
  same heterogeneity dictionary (\<open>Q\<close>, \<open>df\<close>, p-value, \<open>I2\<close>, \<open>tau2\<close>, \<open>tau\<close>, \<open>H2\<close>), the
  same fixed-effect summary and standard error, and as pooled summary and standard error
  the random-effects ones of the gold standard (the fixed-effect ones under
  \<open>model = 'fixed'\<close>). Whenever \<open>meta_analysis_hr\<close> returns, \<open>meta_analysis\<close> returns too.
  The two functions may raise \<open>ZeroDivisionError\<close> where the script does not.
\<close>

theorem three_implementations_agree_when_returned:
  assumes "length yi = length vi" and "2 \<le> length yi"
  shows "\<exists>g. fl_gold_standard ar stats yi vi = Inr g
          \<and> (\<forall>a. fl_meta_analysis ar stats yi vi model = Inr a \<longrightarrow>
                 ma_heterogeneity a = gs_heterogeneity g
               \<and> ma_fixed_summary a = Some (gs_summary_fe g) \<and> ma_fixed_se a = Some (gs_se_fe g)
               \<and> (model \<noteq> ''fixed'' \<longrightarrow> ma_summary a = gs_summary_re g \<and> ma_se a = gs_se_re g)
               \<and> (model = ''fixed'' \<longrightarrow> ma_summary a = gs_summary_fe g \<and> ma_se a = gs_se_fe g))
          \<and> (\<forall>h. fl_meta_analysis_hr_pool ar stats yi vi model = Inr h \<longrightarrow>
                 (\<exists>a. fl_meta_analysis ar stats yi vi model = Inr a)
               \<and> hr_heterogeneity h = gs_heterogeneity g
               \<and> p_summary (hr_fixed h) = gs_summary_fe g \<and> p_se (hr_fixed h) = gs_se_fe g
               \<and> (model \<noteq> ''fixed'' \<longrightarrow> p_summary (hr_pooled h) = gs_summary_re g
                                           \<and> p_se (hr_pooled h) = gs_se_re g)
               \<and> (model = ''fixed'' \<longrightarrow> p_summary (hr_pooled h) = gs_summary_fe g
                                        \<and> p_se (hr_pooled h) = gs_se_fe g))"
  using fl_gold_standard_eq [OF assms(1), of ar stats]
    fl_meta_analysis_eq [OF assms, of ar stats model]
    fl_meta_analysis_hr_pool_eq [OF assms, of ar stats model]
  by (auto simp: fl_summary_def fl_se_def fl_mk_pooled_def split: if_splits)

theorem three_implementations_agree_when_returned_witness:
  "length [Fin 0, Fin 2] = length [Fin 2, Fin 2] \<and> 2 \<le> length [Fin 0, Fin 2]
   \<and> fl_meta_analysis binary64 example_stats [Fin 0, Fin 2] [Fin 2, Fin 2] ''random''
       = Inr \<lparr>ma_summary = Fin 1, ma_se = Fin 1, ma_z = Some (Fin 1), ma_pValue = Some (Fin 1),
        ma_heterogeneity = \<lparr>het_Q = Fin 1, het_df = 1, het_pValue = Fin (1 / 2), het_I2 = Fin 0, het_tau2 = Fin 0, het_tau = Fin 0, het_H2 = Fin 1\<rparr>,
        ma_weights_fe = [Fin 50, Fin 50], ma_weights_re = [Fin 50, Fin 50],
        ma_fixed_summary = Some (Fin 1), ma_fixed_se = Some (Fin 1)\<rparr>
   \<and> fl_meta_analysis_hr_pool binary64 example_stats [Fin 0, Fin 2] [Fin 2, Fin 2] ''random''
       = Inr \<lparr>hr_weight = [Fin 50, Fin 50],
        hr_pooled = fl_mk_pooled binary64 (Fin 1) (Fin 1) (Fin 1) (Fin 1),
        hr_fixed = fl_mk_pooled binary64 (Fin 1) (Fin 1) (Fin 1) (Fin 1),
        hr_heterogeneity = \<lparr>het_Q = Fin 1, het_df = 1, het_pValue = Fin (1 / 2), het_I2 = Fin 0, het_tau2 = Fin 0, het_tau = Fin 0, het_H2 = Fin 1\<rparr>\<rparr>
   \<and> (\<exists>g. fl_gold_standard binary64 example_stats [Fin 0, Fin 2] [Fin 2, Fin 2] = Inr g
        \<and> gs_heterogeneity g = \<lparr>het_Q = Fin 1, het_df = 1, het_pValue = Fin (1 / 2), het_I2 = Fin 0, het_tau2 = Fin 0, het_tau = Fin 0, het_H2 = Fin 1\<rparr>
        \<and> gs_summary_fe g = Fin 1 \<and> gs_se_fe g = Fin 1
        \<and> gs_summary_re g = Fin 1 \<and> gs_se_re g = Fin 1)"
  using three_implementations_agree_when_returned
      [where yi = "[Fin 0, Fin 2]" and vi = "[Fin 2, Fin 2]" and ar = binary64 and stats = example_stats
         and model = "''random''"]
    ex_ret_meta_random ex_ret_hr_random
  by (auto simp: fl_mk_pooled_def)

section \<open>The truncation of tau2\<close>

text \<open>
  Claim C4 fails as stated. With the variances \<open>5 * 2^(-56)\<close> and \<open>1\<close> and equal effect
  sizes, \<open>Q = 0\<close> is below \<open>df = 1\<close>, but the rounded \<open>sum_w2 / sum_w_fe\<close> exceeds the
  rounded \<open>sum_w_fe\<close>: the computed \<open>C\<close> is \<open>-2\<close>, \<open>(Q - df) / C\<close> is \<open>1/2\<close>, and both
  scripts report \<open>tau2 = 1/2\<close>.
\<close>

theorem tau2_positive_with_Q_below_df:
  "map_sum id (het_Q \<circ> gs_heterogeneity)
       (fl_gold_standard binary64 example_stats [Fin 0, Fin 0] [Fin (5 / 2 ^ 56), Fin 1]) = Inr (Fin 0)
   \<and> map_sum id (het_df \<circ> gs_heterogeneity)
       (fl_gold_standard binary64 example_stats [Fin 0, Fin 0] [Fin (5 / 2 ^ 56), Fin 1]) = Inr 1
   \<and> map_sum id (het_tau2 \<circ> gs_heterogeneity)
       (fl_gold_standard binary64 example_stats [Fin 0, Fin 0] [Fin (5 / 2 ^ 56), Fin 1]) = Inr (Fin (1 / 2))
   \<and> map_sum id (het_Q \<circ> ma_heterogeneity)
       (fl_meta_analysis binary64 example_stats [Fin 0, Fin 0] [Fin (5 / 2 ^ 56), Fin 1] ''random'') = Inr (Fin 0)
   \<and> map_sum id (het_df \<circ> ma_heterogeneity)
       (fl_meta_analysis binary64 example_stats [Fin 0, Fin 0] [Fin (5 / 2 ^ 56), Fin 1] ''random'') = Inr 1
   \<and> map_sum id (het_tau2 \<circ> ma_heterogeneity)
       (fl_meta_analysis binary64 example_stats [Fin 0, Fin 0] [Fin (5 / 2 ^ 56), Fin 1] ''random'') = Inr (Fin (1 / 2))"
  using ex_negC_Q ex_negC_C ex_negC_tau2 ex_negC_se_random_nonzero
  by (simp add: fl_gold_standard_eq fl_meta_analysis_eq fl_df_def)

text \<open>
  Claim C4, as amended. In any rounded arithmetic and for any array elements, \<open>tau2\<close> in
  every result of \<open>meta_analysis\<close> and of the gold-standard script is \<open>0\<close>, a positive
  number or \<open>inf\<close>, never negative and never \<open>nan\<close>. If rounding never turns a non-positive
  number into a positive one, \<open>tau2\<close> is exactly \<open>0\<close> whenever \<open>Q \<le> df\<close> and the computed
  \<open>C\<close> is positive.
\<close>

theorem tau2_never_negative_rounded:
  assumes "length yi = length vi"
  shows "(fl_meta_analysis ar stats yi vi model = Inr a \<longrightarrow>
            np_nonneg (het_tau2 (ma_heterogeneity a)))
       \<and> (\<exists>g. fl_gold_standard ar stats yi vi = Inr g \<and> np_nonneg (het_tau2 (gs_heterogeneity g)))
       \<and> ((\<forall>x. x \<le> 0 \<longrightarrow> \<not> np_pos (rnd ar x)) \<and> np_pos (fl_C ar vi)
            \<and> fl_meta_analysis ar stats yi vi model = Inr a
            \<and> np_le (het_Q (ma_heterogeneity a)) (Fin (real_of_int (het_df (ma_heterogeneity a))))
          \<longrightarrow> het_tau2 (ma_heterogeneity a) = Fin 0)
       \<and> ((\<forall>x. x \<le> 0 \<longrightarrow> \<not> np_pos (rnd ar x)) \<and> np_pos (fl_C ar vi)
            \<and> fl_gold_standard ar stats yi vi = Inr g
            \<and> np_le (het_Q (gs_heterogeneity g)) (Fin (real_of_int (het_df (gs_heterogeneity g))))
          \<longrightarrow> het_tau2 (gs_heterogeneity g) = Fin 0)"
proof (intro conjI impI)
  assume "fl_meta_analysis ar stats yi vi model = Inr a"
  from fl_meta_analysis_het [OF assms this]
  show "np_nonneg (het_tau2 (ma_heterogeneity a))"
    by (simp add: fl_tau2_nonneg degenerate_het_def)
next
  show "\<exists>g. fl_gold_standard ar stats yi vi = Inr g \<and> np_nonneg (het_tau2 (gs_heterogeneity g))"
    by (simp add: fl_gold_standard_eq [OF assms] fl_tau2_nonneg)
next
  assume h: "(\<forall>x. x \<le> 0 \<longrightarrow> \<not> np_pos (rnd ar x)) \<and> np_pos (fl_C ar vi)
            \<and> fl_meta_analysis ar stats yi vi model = Inr a
            \<and> np_le (het_Q (ma_heterogeneity a)) (Fin (real_of_int (het_df (ma_heterogeneity a))))"
  then have het: "ma_heterogeneity a = (if 2 \<le> length yi then fl_het ar stats yi vi else degenerate_het)"
    using fl_meta_analysis_het [OF assms] by blast
  show "het_tau2 (ma_heterogeneity a) = Fin 0"
  proof (cases "2 \<le> length yi")
    case True
    then show ?thesis using h het fl_tau2_zero [of ar yi vi] by simp
  next
    case False
    then show ?thesis using het by (simp add: degenerate_het_def)
  qed
next
  assume h: "(\<forall>x. x \<le> 0 \<longrightarrow> \<not> np_pos (rnd ar x)) \<and> np_pos (fl_C ar vi)
            \<and> fl_gold_standard ar stats yi vi = Inr g
            \<and> np_le (het_Q (gs_heterogeneity g)) (Fin (real_of_int (het_df (gs_heterogeneity g))))"
  then have "gs_heterogeneity g = fl_het ar stats yi vi"
    using fl_gold_standard_eq [OF assms, of ar stats] by auto
  then show "het_tau2 (gs_heterogeneity g) = Fin 0"
    using h fl_tau2_zero [of ar yi vi] by simp
qed

theorem tau2_never_negative_rounded_witness:
  "length [Fin 0, Fin 2] = length [Fin 2, Fin 2]
   \<and> \<not> np_pos (rnd binary64 0) \<and> \<not> np_pos (rnd binary64 (- 1))
   \<and> np_pos (fl_C binary64 [Fin 2, Fin 2])
   \<and> fl_meta_analysis binary64 example_stats [Fin 0, Fin 2] [Fin 2, Fin 2] ''random''
       = Inr \<lparr>ma_summary = Fin 1, ma_se = Fin 1, ma_z = Some (Fin 1), ma_pValue = Some (Fin 1),
        ma_heterogeneity = \<lparr>het_Q = Fin 1, het_df = 1, het_pValue = Fin (1 / 2), het_I2 = Fin 0, het_tau2 = Fin 0, het_tau = Fin 0, het_H2 = Fin 1\<rparr>,
        ma_weights_fe = [Fin 50, Fin 50], ma_weights_re = [Fin 50, Fin 50],
        ma_fixed_summary = Some (Fin 1), ma_fixed_se = Some (Fin 1)\<rparr>
   \<and> fl_gold_standard binary64 example_stats [Fin 0, Fin 2] [Fin 2, Fin 2]
       = Inr \<lparr>gs_summary_fe = Fin 1, gs_se_fe = Fin 1,
        gs_heterogeneity = \<lparr>het_Q = Fin 1, het_df = 1, het_pValue = Fin (1 / 2), het_I2 = Fin 0, het_tau2 = Fin 0, het_tau = Fin 0, het_H2 = Fin 1\<rparr>,
        gs_summary_re = Fin 1, gs_se_re = Fin 1, gs_z_re = Fin 1, gs_p_re = Fin 1,
        gs_weights_fe_pct = [Fin 50, Fin 50], gs_weights_re_pct = [Fin 50, Fin 50]\<rparr>
   \<and> np_le (Fin 1) (Fin (real_of_int 1))
   \<and> np_nonneg (het_tau2 (ma_heterogeneity
        \<lparr>ma_summary = Fin 1, ma_se = Fin 1, ma_z = Some (Fin 1), ma_pValue = Some (Fin 1),
        ma_heterogeneity = \<lparr>het_Q = Fin 1, het_df = 1, het_pValue = Fin (1 / 2), het_I2 = Fin 0, het_tau2 = Fin 0, het_tau = Fin 0, het_H2 = Fin 1\<rparr>,
        ma_weights_fe = [Fin 50, Fin 50], ma_weights_re = [Fin 50, Fin 50],
        ma_fixed_summary = Some (Fin 1), ma_fixed_se = Some (Fin 1)\<rparr>))
   \<and> het_tau2 (ma_heterogeneity
        \<lparr>ma_summary = Fin 1, ma_se = Fin 1, ma_z = Some (Fin 1), ma_pValue = Some (Fin 1),
        ma_heterogeneity = \<lparr>het_Q = Fin 1, het_df = 1, het_pValue = Fin (1 / 2), het_I2 = Fin 0, het_tau2 = Fin 0, het_tau = Fin 0, het_H2 = Fin 1\<rparr>,
        ma_weights_fe = [Fin 50, Fin 50], ma_weights_re = [Fin 50, Fin 50],
        ma_fixed_summary = Some (Fin 1), ma_fixed_se = Some (Fin 1)\<rparr>) = Fin 0
   \<and> het_tau2 (gs_heterogeneity
        \<lparr>gs_summary_fe = Fin 1, gs_se_fe = Fin 1,
        gs_heterogeneity = \<lparr>het_Q = Fin 1, het_df = 1, het_pValue = Fin (1 / 2), het_I2 = Fin 0, het_tau2 = Fin 0, het_tau = Fin 0, het_H2 = Fin 1\<rparr>,
        gs_summary_re = Fin 1, gs_se_re = Fin 1, gs_z_re = Fin 1, gs_p_re = Fin 1,
        gs_weights_fe_pct = [Fin 50, Fin 50], gs_weights_re_pct = [Fin 50, Fin 50]\<rparr>) = Fin 0"
  using tau2_never_negative_rounded
      [where yi = "[Fin 0, Fin 2]" and vi = "[Fin 2, Fin 2]" and ar = binary64 and stats = example_stats
         and model = "''random''"
         and a = "\<lparr>ma_summary = Fin 1, ma_se = Fin 1, ma_z = Some (Fin 1), ma_pValue = Some (Fin 1),
        ma_heterogeneity = \<lparr>het_Q = Fin 1, het_df = 1, het_pValue = Fin (1 / 2), het_I2 = Fin 0, het_tau2 = Fin 0, het_tau = Fin 0, het_H2 = Fin 1\<rparr>,
        ma_weights_fe = [Fin 50, Fin 50], ma_weights_re = [Fin 50, Fin 50],
        ma_fixed_summary = Some (Fin 1), ma_fixed_se = Some (Fin 1)\<rparr>"
         and g = "\<lparr>gs_summary_fe = Fin 1, gs_se_fe = Fin 1,
        gs_heterogeneity = \<lparr>het_Q = Fin 1, het_df = 1, het_pValue = Fin (1 / 2), het_I2 = Fin 0, het_tau2 = Fin 0, het_tau = Fin 0, het_H2 = Fin 1\<rparr>,
        gs_summary_re = Fin 1, gs_se_re = Fin 1, gs_z_re = Fin 1, gs_p_re = Fin 1,
        gs_weights_fe_pct = [Fin 50, Fin 50], gs_weights_re_pct = [Fin 50, Fin 50]\<rparr>"]
    ex_ret_meta_random ex_ret_gold ex_ret_C b64_sign
  by (simp add: rnd_binary64)

section \<open>The keys of the returned dictionary\<close>

text \<open>
  Claim C7, as amended. In any rounded arithmetic and for any array elements:
  with at most one study \<open>meta_analysis\<close> returns the fixed-effect \<open>summary\<close> and \<open>se\<close> and
  none of \<open>z\<close>, \<open>pValue\<close>, \<open>fixed_summary\<close>, \<open>fixed_se\<close>; with \<open>k \<ge> 2\<close> studies it raises
  \<open>ZeroDivisionError\<close> or returns a dictionary, and every dictionary it returns holds
  \<open>summary\<close> and \<open>se\<close> of the selected model, \<open>z = summary / se\<close> and its \<open>pValue\<close>,
  together with the fixed-effect \<open>fixed_summary\<close> and \<open>fixed_se\<close>.
\<close>

theorem meta_analysis_returned_keys:
  assumes "length yi = length vi"
  shows "(length yi \<le> 1 \<longrightarrow>
           (\<exists>r. fl_meta_analysis ar stats yi vi model = Inr r
              \<and> ma_summary r = fl_summary_fe ar yi vi \<and> ma_se r = fl_se_fe ar vi
              \<and> ma_z r = None \<and> ma_pValue r = None
              \<and> ma_fixed_summary r = None \<and> ma_fixed_se r = None))
       \<and> (2 \<le> length yi \<and> fl_meta_analysis ar stats yi vi model = Inr a \<longrightarrow>
             ma_summary a = (if model = ''fixed'' then fl_summary_fe ar yi vi else fl_summary_re ar yi vi)
           \<and> ma_se a = (if model = ''fixed'' then fl_se_fe ar vi else fl_se_re ar yi vi)
           \<and> ma_z a = Some (fl_div (rnd ar) (ma_summary a) (ma_se a))
           \<and> ma_pValue a = Some (fl_two_sided_p ar stats (fl_div (rnd ar) (ma_summary a) (ma_se a)))
           \<and> ma_fixed_summary a = Some (fl_summary_fe ar yi vi)
           \<and> ma_fixed_se a = Some (fl_se_fe ar vi))
       \<and> (2 \<le> length yi \<longrightarrow>
             fl_meta_analysis ar stats yi vi model = Inl ZeroDivisionError
           \<or> (\<exists>r. fl_meta_analysis ar stats yi vi model = Inr r))"
proof -
  have small: "length yi \<le> 1 \<longrightarrow>
           (\<exists>r. fl_meta_analysis ar stats yi vi model = Inr r
              \<and> ma_summary r = fl_summary_fe ar yi vi \<and> ma_se r = fl_se_fe ar vi
              \<and> ma_z r = None \<and> ma_pValue r = None
              \<and> ma_fixed_summary r = None \<and> ma_fixed_se r = None)"
    using fl_meta_analysis_small [OF assms, of ar stats model] by simp
  have keys: "2 \<le> length yi \<and> fl_meta_analysis ar stats yi vi model = Inr a \<longrightarrow>
             ma_summary a = (if model = ''fixed'' then fl_summary_fe ar yi vi else fl_summary_re ar yi vi)
           \<and> ma_se a = (if model = ''fixed'' then fl_se_fe ar vi else fl_se_re ar yi vi)
           \<and> ma_z a = Some (fl_div (rnd ar) (ma_summary a) (ma_se a))
           \<and> ma_pValue a = Some (fl_two_sided_p ar stats (fl_div (rnd ar) (ma_summary a) (ma_se a)))
           \<and> ma_fixed_summary a = Some (fl_summary_fe ar yi vi)
           \<and> ma_fixed_se a = Some (fl_se_fe ar vi)"
    using fl_meta_analysis_eq [OF assms, of ar stats model]
    by (auto simp: fl_summary_def fl_se_def split: if_splits)
  have ret: "2 \<le> length yi \<longrightarrow>
             fl_meta_analysis ar stats yi vi model = Inl ZeroDivisionError
           \<or> (\<exists>r. fl_meta_analysis ar stats yi vi model = Inr r)"
    using fl_meta_analysis_eq [OF assms, of ar stats model] by (simp split: if_splits)
  from small keys ret show ?thesis by (intro conjI)
qed

theorem meta_analysis_returned_keys_witness:
  "length [Fin 0] = length [Fin 1] \<and> length [Fin 0] \<le> 1
   \<and> (\<exists>r. fl_meta_analysis binary64 example_stats [Fin 0] [Fin 1] ''random'' = Inr r
          \<and> ma_z r = None \<and> ma_pValue r = None
          \<and> ma_fixed_summary r = None \<and> ma_fixed_se r = None)
   \<and> length [Fin 0, Fin 2] = length [Fin 2, Fin 2] \<and> 2 \<le> length [Fin 0, Fin 2]
   \<and> fl_meta_analysis binary64 example_stats [Fin 0, Fin 2] [Fin 2, Fin 2] ''random''
       = Inr \<lparr>ma_summary = Fin 1, ma_se = Fin 1, ma_z = Some (Fin 1), ma_pValue = Some (Fin 1),
        ma_heterogeneity = \<lparr>het_Q = Fin 1, het_df = 1, het_pValue = Fin (1 / 2), het_I2 = Fin 0, het_tau2 = Fin 0, het_tau = Fin 0, het_H2 = Fin 1\<rparr>,
        ma_weights_fe = [Fin 50, Fin 50], ma_weights_re = [Fin 50, Fin 50],
        ma_fixed_summary = Some (Fin 1), ma_fixed_se = Some (Fin 1)\<rparr>
   \<and> fl_summary_re binary64 [Fin 0, Fin 2] [Fin 2, Fin 2] = Fin 1
   \<and> fl_se_re binary64 [Fin 0, Fin 2] [Fin 2, Fin 2] = Fin 1
   \<and> fl_summary_fe binary64 [Fin 0, Fin 2] [Fin 2, Fin 2] = Fin 1
   \<and> fl_se_fe binary64 [Fin 2, Fin 2] = Fin 1"
  using meta_analysis_returned_keys
      [where yi = "[Fin 0]" and vi = "[Fin 1]" and ar = binary64 and stats = example_stats
         and model = "''random''"]
    meta_analysis_returned_keys
      [where yi = "[Fin 0, Fin 2]" and vi = "[Fin 2, Fin 2]" and ar = binary64 and stats = example_stats
         and model = "''random''"
         and a = "\<lparr>ma_summary = Fin 1, ma_se = Fin 1, ma_z = Some (Fin 1), ma_pValue = Some (Fin 1),
        ma_heterogeneity = \<lparr>het_Q = Fin 1, het_df = 1, het_pValue = Fin (1 / 2), het_I2 = Fin 0, het_tau2 = Fin 0, het_tau = Fin 0, het_H2 = Fin 1\<rparr>,
        ma_weights_fe = [Fin 50, Fin 50], ma_weights_re = [Fin 50, Fin 50],
        ma_fixed_summary = Some (Fin 1), ma_fixed_se = Some (Fin 1)\<rparr>"]
    ex_ret_meta_random
  by auto

section \<open>The order of the studies\<close>

text \<open>
  Claim C6 fails as stated. Three studies with equal effect sizes and the variances
  \<open>2^(-53), 1, 1\<close> have the weights \<open>2^53, 1, 1\<close>. Added in this order each \<open>1\<close> is lost
  (\<open>2^53 + 1\<close> rounds to \<open>2^53\<close>), the computed \<open>C\<close> is \<open>0\<close> and \<open>meta_analysis\<close> raises
  \<open>ZeroDivisionError\<close>; with the same three studies in the order \<open>1, 1, 2^(-53)\<close> the sum
  of the weights is \<open>2^53 + 2\<close>, \<open>C\<close> is \<open>4\<close> and \<open>meta_analysis\<close> returns \<open>Q = 0\<close> and
  \<open>tau2 = 0\<close>.
\<close>

theorem heterogeneity_depends_on_order:
  "fl_meta_analysis binary64 example_stats [Fin 0, Fin 0, Fin 0] [Fin (1 / 2 ^ 53), Fin 1, Fin 1] ''random''
     = Inl ZeroDivisionError
   \<and> map_sum id (het_Q \<circ> ma_heterogeneity)
       (fl_meta_analysis binary64 example_stats [Fin 0, Fin 0, Fin 0] [Fin 1, Fin 1, Fin (1 / 2 ^ 53)] ''random'')
     = Inr (Fin 0)
   \<and> map_sum id (het_tau2 \<circ> ma_heterogeneity)
       (fl_meta_analysis binary64 example_stats [Fin 0, Fin 0, Fin 0] [Fin 1, Fin 1, Fin (1 / 2 ^ 53)] ''random'')
     = Inr (Fin 0)"
  using ex_big_first_C ex_big_last_C ex_big_last_Q ex_big_last_tau2 ex_big_last_se_random_nonzero
  by (simp add: fl_meta_analysis_eq)

text \<open>
  Claim C6, as amended. \<open>df\<close> does not depend on the order of the studies. For two
  studies, in any rounded arithmetic in which \<open>np.sum\<close> of two elements is their rounded
  sum, \<open>meta_analysis\<close> gives the same heterogeneity dictionary (\<open>Q\<close>, \<open>df\<close>, p-value, \<open>I2\<close>,
  \<open>tau2\<close>, \<open>tau\<close>, \<open>H2\<close>), or raises the same error, for either order of the two
  \<open>(yi, vi)\<close> pairs. For three or more studies the floating-point sums, and with them
  the result, may depend on the order.
\<close>

theorem two_studies_order_independent:
  assumes "\<forall>a b. asum ar [a, b] = fl_add (rnd ar) a b"
  shows "map_sum id ma_heterogeneity (fl_meta_analysis ar stats [y2, y1] [v2, v1] model)
           = map_sum id ma_heterogeneity (fl_meta_analysis ar stats [y1, y2] [v1, v2] model)
       \<and> (length yi' = length yi \<and> length yi = length vi \<and> length yi' = length vi'
            \<and> fl_meta_analysis ar stats yi' vi' model = Inr a'
            \<and> fl_meta_analysis ar stats yi vi model = Inr a
          \<longrightarrow> het_df (ma_heterogeneity a') = het_df (ma_heterogeneity a))"
proof -
  have "map_sum id ma_heterogeneity (fl_meta_analysis ar stats [y2, y1] [v2, v1] model)
           = map_sum id ma_heterogeneity (fl_meta_analysis ar stats [y1, y2] [v1, v2] model)"
    using fl_het_swap [OF assms]
    by (simp add: fl_meta_analysis_eq)
  moreover have "length yi' = length yi \<and> length yi = length vi \<and> length yi' = length vi'
            \<and> fl_meta_analysis ar stats yi' vi' model = Inr a'
            \<and> fl_meta_analysis ar stats yi vi model = Inr a
          \<longrightarrow> het_df (ma_heterogeneity a') = het_df (ma_heterogeneity a)"
    using fl_meta_analysis_het [of yi vi ar stats model a] fl_meta_analysis_het [of yi' vi' ar stats model a']
    by (auto simp: fl_df_def degenerate_het_def)
  ultimately show ?thesis by (intro conjI)
qed

theorem two_studies_order_independent_witness:
  "(\<forall>a b. asum binary64 [a, b] = fl_add (rnd binary64) a b)
   \<and> map_sum id ma_heterogeneity (fl_meta_analysis binary64 example_stats [Fin 2, Fin 0] [Fin 2, Fin 2] ''random'')
       = map_sum id ma_heterogeneity (fl_meta_analysis binary64 example_stats [Fin 0, Fin 2] [Fin 2, Fin 2] ''random'')
   \<and> map_sum id ma_heterogeneity (fl_meta_analysis binary64 example_stats [Fin 0, Fin 2] [Fin 2, Fin 2] ''random'')
       = Inr \<lparr>het_Q = Fin 1, het_df = 1, het_pValue = Fin (1 / 2), het_I2 = Fin 0, het_tau2 = Fin 0, het_tau = Fin 0, het_H2 = Fin 1\<rparr>
   \<and> length [Fin 2, Fin 0] = length [Fin 0, Fin 2] \<and> length [Fin 0, Fin 2] = length [Fin 2, Fin 2]
   \<and> length [Fin 2, Fin 0] = length [Fin 2, Fin 2]
   \<and> fl_meta_analysis binary64 example_stats [Fin 2, Fin 0] [Fin 2, Fin 2] ''random''
       = Inr \<lparr>ma_summary = Fin 1, ma_se = Fin 1, ma_z = Some (Fin 1), ma_pValue = Some (Fin 1),
        ma_heterogeneity = \<lparr>het_Q = Fin 1, het_df = 1, het_pValue = Fin (1 / 2), het_I2 = Fin 0, het_tau2 = Fin 0, het_tau = Fin 0, het_H2 = Fin 1\<rparr>,
        ma_weights_fe = [Fin 50, Fin 50], ma_weights_re = [Fin 50, Fin 50],
        ma_fixed_summary = Some (Fin 1), ma_fixed_se = Some (Fin 1)\<rparr>
   \<and> fl_meta_analysis binary64 example_stats [Fin 0, Fin 2] [Fin 2, Fin 2] ''random''
       = Inr \<lparr>ma_summary = Fin 1, ma_se = Fin 1, ma_z = Some (Fin 1), ma_pValue = Some (Fin 1),
        ma_heterogeneity = \<lparr>het_Q = Fin 1, het_df = 1, het_pValue = Fin (1 / 2), het_I2 = Fin 0, het_tau2 = Fin 0, het_tau = Fin 0, het_H2 = Fin 1\<rparr>,
        ma_weights_fe = [Fin 50, Fin 50], ma_weights_re = [Fin 50, Fin 50],
        ma_fixed_summary = Some (Fin 1), ma_fixed_se = Some (Fin 1)\<rparr>"
  using two_studies_order_independent
      [where ar = binary64 and stats = example_stats and model = "''random''"
         and ?y1.0 = "Fin 0" and ?y2.0 = "Fin 2" and ?v1.0 = "Fin 2" and ?v2.0 = "Fin 2"
         and yi = "[Fin 0, Fin 2]" and vi = "[Fin 2, Fin 2]" and yi' = "[Fin 2, Fin 0]" and vi' = "[Fin 2, Fin 2]"
         and a = "\<lparr>ma_summary = Fin 1, ma_se = Fin 1, ma_z = Some (Fin 1), ma_pValue = Some (Fin 1),
        ma_heterogeneity = \<lparr>het_Q = Fin 1, het_df = 1, het_pValue = Fin (1 / 2), het_I2 = Fin 0, het_tau2 = Fin 0, het_tau = Fin 0, het_H2 = Fin 1\<rparr>,
        ma_weights_fe = [Fin 50, Fin 50], ma_weights_re = [Fin 50, Fin 50],
        ma_fixed_summary = Some (Fin 1), ma_fixed_se = Some (Fin 1)\<rparr>"
         and a' = "\<lparr>ma_summary = Fin 1, ma_se = Fin 1, ma_z = Some (Fin 1), ma_pValue = Some (Fin 1),
        ma_heterogeneity = \<lparr>het_Q = Fin 1, het_df = 1, het_pValue = Fin (1 / 2), het_I2 = Fin 0, het_tau2 = Fin 0, het_tau = Fin 0, het_H2 = Fin 1\<rparr>,
        ma_weights_fe = [Fin 50, Fin 50], ma_weights_re = [Fin 50, Fin 50],
        ma_fixed_summary = Some (Fin 1), ma_fixed_se = Some (Fin 1)\<rparr>"]
    ex_ret_meta_random ex_swapped_meta_random
  by (simp add: asum_binary64 rnd_binary64 seq_sum_2)

section \<open>Egger's regression on fewer than three studies, in rounded arithmetic\<close>

text \<open>
  Claim C8, as amended. In any rounded arithmetic and for any array elements: with two
  studies Egger's regression raises no error and returns a result with \<open>df = 0\<close> whose
  standard error of the intercept is not a finite number (\<open>mse = sse / 0\<close> is \<open>nan\<close> or an
  infinity). With one study it returns a result with \<open>df = -1\<close> whose standard error and
  t value are \<open>nan\<close>, provided that \<open>np.sum\<close> of one element is that element, rounding
  leaves a rounded number and zero unchanged. With no study it raises
  \<open>ZeroDivisionError\<close> (from \<open>1.0 / n_egger\<close>).
\<close>

theorem eggers_test_fewer_than_three_rounded:
  "(length yi = 2 \<and> length sei = 2 \<longrightarrow>
      (\<exists>e. fl_eggers_test ar stats yi sei = Inr e \<and> eg_df e = 0 \<and> \<not> is_Fin (eg_se e)))
   \<and> ((\<forall>a. asum ar [a] = a) \<and> (\<forall>x y. rnd ar x = Fin y \<longrightarrow> rnd ar y = Fin y)
        \<and> rnd ar 0 = Fin 0 \<longrightarrow>
      (\<exists>e. fl_eggers_test ar stats [y] [s] = Inr e \<and> eg_df e = - 1
           \<and> eg_se e = NaN \<and> eg_tValue e = NaN))
   \<and> fl_eggers_test ar stats [] [] = Inl ZeroDivisionError"
proof -
  have two: "length yi = 2 \<and> length sei = 2 \<longrightarrow>
      (\<exists>e. fl_eggers_test ar stats yi sei = Inr e \<and> eg_df e = 0 \<and> \<not> is_Fin (eg_se e))"
    using fl_eggers_test_two [of yi sei ar stats] by blast
  have one: "(\<forall>a. asum ar [a] = a) \<and> (\<forall>x y. rnd ar x = Fin y \<longrightarrow> rnd ar y = Fin y)
        \<and> rnd ar 0 = Fin 0 \<longrightarrow>
      (\<exists>e. fl_eggers_test ar stats [y] [s] = Inr e \<and> eg_df e = - 1
           \<and> eg_se e = NaN \<and> eg_tValue e = NaN)"
    using fl_eggers_test_one [of ar stats y s] by blast
  from two one fl_eggers_test_empty [of ar stats] show ?thesis by (intro conjI)
qed

theorem eggers_test_fewer_than_three_rounded_witness:
  "length [Fin 0, Fin 1] = 2 \<and> length [Fin 1, Fin 2] = 2
   \<and> (\<exists>e. fl_eggers_test binary64 example_stats [Fin 0, Fin 1] [Fin 1, Fin 2] = Inr e
          \<and> eg_df e = 0 \<and> \<not> is_Fin (eg_se e))
   \<and> (\<forall>a. asum binary64 [a] = a) \<and> rnd binary64 0 = Fin 0
   \<and> (\<exists>e. fl_eggers_test binary64 example_stats [Fin 3] [Fin 2] = Inr e \<and> eg_df e = - 1
          \<and> eg_se e = NaN \<and> eg_tValue e = NaN)"
  using eggers_test_fewer_than_three_rounded
      [where yi = "[Fin 0, Fin 1]" and sei = "[Fin 1, Fin 2]" and ar = binary64
         and stats = example_stats and y = "Fin 3" and s = "Fin 2"]
    b64_idem b64_0
  by (simp add: asum_binary64 rnd_binary64 seq_sum_1)

end
